theory Spec2Isabelle
  imports Main
begin

unbundle bit_operations_syntax

section \<open>Data model\<close>

text \<open>
  A shallow embedding of the archive engines of MAT (\<^verbatim>\<open>libmat/archive.py\<close>), of the
  publication step of \<^verbatim>\<open>libmat/parser.py\<close> and of the two terminal ZIP formats of
  \<^verbatim>\<open>libmat/office.py\<close>.

  Python strings are byte strings (Python 2 \<^verbatim>\<open>str\<close>): \<open>string\<close>. The file system is a
  map from path strings to nodes; paths are compared as written (no normalisation of
  \<^verbatim>\<open>//\<close> or \<^verbatim>\<open>..\<close>), and permission bits are recorded but not enforced.
\<close>

type_synonym path = string

text \<open>\<^verbatim>\<open>zipfile.ZipInfo\<close>: the fields the source reads or writes.\<close>

record zipinfo =
  z_filename :: string
  z_date_time :: "nat \<times> nat \<times> nat \<times> nat \<times> nat \<times> nat"
  z_compress_type :: nat
  z_create_system :: nat
  z_comment :: string

text \<open>\<^verbatim>\<open>tarfile.TarInfo\<close>: the member type and the fields the source reads or writes.\<close>

datatype tartype =
  REGTYPE | AREGTYPE | CONTTYPE | GNUTYPE_SPARSE
  | DIRTYPE | SYMTYPE | LNKTYPE | CHRTYPE | BLKTYPE | FIFOTYPE

record tarinfo =
  t_name :: string
  t_type :: tartype
  t_mode :: nat
  t_mtime :: nat
  t_uid :: nat
  t_gid :: nat
  t_uname :: string
  t_gname :: string

text \<open>
  The bytes of a file, seen through the container libraries: raw bytes, a ZIP archive
  (archive comment, entries in order) or a TAR archive (compression suffix as given to
  \<^verbatim>\<open>tarfile.open\<close>, members in order). The writers of both libraries are
  deterministic in these fields, so equality of \<open>content\<close> is equality of bytes.
\<close>

datatype content =
  Raw string
  | ZipData string "(zipinfo \<times> content) list"
  | TarData string "(tarinfo \<times> content) list"

datatype node =
  File (data: content) (mode: nat)
  | Dir (mode: nat)
  | Special (mode: nat)

datatype level = DEBUG | INFO | ERROR

record world =
  files :: "path \<rightharpoonup> node"
  logs :: "(level \<times> string) list"

text \<open>Exceptions are values; the world at the moment of the raise is kept.\<close>

datatype error =
  IOError | OSError | BadZipfile | ReadError | ShutilError | UnicodeDecodeError
  | Exception string

type_synonym 'a res = "(error + 'a) \<times> world"

definition returnE :: "'a \<Rightarrow> world \<Rightarrow> 'a res" where
  "returnE x w = (Inr x, w)"

definition raiseE :: "error \<Rightarrow> world \<Rightarrow> 'a res" where
  "raiseE e w = (Inl e, w)"

definition bindE :: "(world \<Rightarrow> 'a res) \<Rightarrow> ('a \<Rightarrow> world \<Rightarrow> 'b res) \<Rightarrow> world \<Rightarrow> 'b res" where
  "bindE m f w = (case m w of (Inl e, w') \<Rightarrow> (Inl e, w') | (Inr x, w') \<Rightarrow> f x w')"

text \<open>
  A stripper as the archive engines see one: whether it is a
  \<^verbatim>\<open>GenericArchiveStripper\<close>, and its \<^verbatim>\<open>remove_all\<close>, which returns a boolean or
  raises, and changes the world (its own temporary files included).
\<close>

record stripper =
  is_archive :: bool
  remove_all :: "world \<Rightarrow> bool res"

text \<open>
  What lies outside the repository's sources is a parameter of the model:
  \<^item> \<open>create_class_file name backup add2archive\<close>: the factory of \<^verbatim>\<open>libmat/mat.py\<close>
    (it inspects the file, so it reads the world);
  \<^item> \<open>zip_extract\<close>, \<open>tar_extract\<close>: \<^verbatim>\<open>ZipFile.extract\<close> and \<^verbatim>\<open>TarFile.extract\<close>
    of one entry into a directory;
  \<^item> \<open>lstat_header name arcname\<close>: the header \<^verbatim>\<open>TarFile.gettarinfo\<close> builds from
    \<^verbatim>\<open>os.lstat\<close> and the user database (stored name, times, owner);
  \<^item> \<open>add_subtree name arcname\<close>: the members \<^verbatim>\<open>TarFile.add\<close> visits below a
    directory, before the filter is applied to each;
  \<^item> \<open>utf8_decodable\<close>: whether \<^verbatim>\<open>s.decode('utf-8')\<close> succeeds.
\<close>

record lib =
  create_class_file :: "path \<Rightarrow> bool \<Rightarrow> bool \<Rightarrow> world \<Rightarrow> stripper option"
  zip_extract :: "zipinfo \<times> content \<Rightarrow> path \<Rightarrow> world \<Rightarrow> unit res"
  tar_extract :: "tarinfo \<times> content \<Rightarrow> path \<Rightarrow> world \<Rightarrow> unit res"
  lstat_header :: "path \<Rightarrow> string \<Rightarrow> world \<Rightarrow> tarinfo"
  add_subtree :: "path \<Rightarrow> string \<Rightarrow> world \<Rightarrow> error + (tarinfo \<times> content) list"
  utf8_decodable :: "string \<Rightarrow> bool"

text \<open>
  \<^verbatim>\<open>GenericParser.__init__\<close> and \<^verbatim>\<open>GenericArchiveStripper.__init__\<close>: the handle.
  \<open>output\<close> is the path \<^verbatim>\<open>tempfile.mkstemp\<close> returned, \<open>tempdir\<close> the one
  \<^verbatim>\<open>tempfile.mkdtemp\<close> returned.
\<close>

record handle =
  filename :: path
  mime :: string
  backup :: bool
  is_writable :: bool
  "output" :: path
  compression :: string
  add2archive :: bool
  tempdir :: path

section \<open>Standard library: paths, files, logging\<close>

definition startswith :: "string \<Rightarrow> string \<Rightarrow> bool" where
  "startswith s f = (take (length f) s = f)"

definition endswith :: "string \<Rightarrow> string \<Rightarrow> bool" where
  "endswith s f = (length f \<le> length s \<and> drop (length s - length f) s = f)"

text \<open>\<^verbatim>\<open>posixpath.join(a, b)\<close>.\<close>

definition os_path_join :: "path \<Rightarrow> string \<Rightarrow> path" where
  "os_path_join a b =
     (if startswith b ''/'' then b
      else if a = [] \<or> endswith a ''/'' then a @ b
      else a @ ''/'' @ b)"

text \<open>\<^verbatim>\<open>posixpath.basename\<close>: what follows the last slash.\<close>

definition os_path_basename :: "path \<Rightarrow> string" where
  "os_path_basename p = rev (takeWhile (\<lambda>c. c \<noteq> CHR ''/'') (rev p))"

text \<open>
  \<^verbatim>\<open>posixpath.dirname\<close>: what precedes the basename, without its trailing slashes
  unless it consists of slashes only.
\<close>

definition os_path_dirname :: "path \<Rightarrow> string" where
  "os_path_dirname p =
     (let head = rev (dropWhile (\<lambda>c. c \<noteq> CHR ''/'') (rev p))
      in if list_ex (\<lambda>c. c \<noteq> CHR ''/'') head
         then rev (dropWhile (\<lambda>c. c = CHR ''/'') (rev head)) else head)"

text \<open>
  \<^verbatim>\<open>posixpath.splitext(p)[1]\<close>: the extension starts at the last dot of the basename,
  provided a character other than a dot precedes it there; otherwise it is empty.
\<close>

definition splitext_ext :: "path \<Rightarrow> string" where
  "splitext_ext p =
     (let tail = os_path_basename p;
          ext_rev = takeWhile (\<lambda>c. c \<noteq> CHR ''.'') (rev tail);
          stem_rev = dropWhile (\<lambda>c. c \<noteq> CHR ''.'') (rev tail)
      in if stem_rev \<noteq> [] \<and> list_ex (\<lambda>c. c \<noteq> CHR ''.'') (tl stem_rev)
         then CHR ''.'' # rev ext_rev else [])"

definition os_path_isfile :: "path \<Rightarrow> world \<Rightarrow> bool" where
  "os_path_isfile p w = (case files w p of Some (File c m) \<Rightarrow> True | _ \<Rightarrow> False)"

definition os_path_isdir :: "path \<Rightarrow> world \<Rightarrow> bool" where
  "os_path_isdir p w = (case files w p of Some (Dir m) \<Rightarrow> True | _ \<Rightarrow> False)"

text \<open>\<^verbatim>\<open>os.stat(path).st_mode\<close>.\<close>

definition os_stat_st_mode :: "path \<Rightarrow> world \<Rightarrow> nat res" where
  "os_stat_st_mode p w =
     (case files w p of None \<Rightarrow> (Inl OSError, w) | Some n \<Rightarrow> (Inr (mode n), w))"

definition set_mode :: "nat \<Rightarrow> node \<Rightarrow> node" where
  "set_mode m n = (case n of File c k \<Rightarrow> File c m | Dir k \<Rightarrow> Dir m | Special k \<Rightarrow> Special m)"

definition os_chmod :: "path \<Rightarrow> nat \<Rightarrow> world \<Rightarrow> unit res" where
  "os_chmod p m w =
     (case files w p of
        None \<Rightarrow> (Inl OSError, w)
      | Some n \<Rightarrow> (Inr (), w\<lparr>files := (files w)(p \<mapsto> set_mode m n)\<rparr>))"

text \<open>\<^verbatim>\<open>stat.S_IWUSR\<close>, octal 200.\<close>

definition S_IWUSR :: nat where
  "S_IWUSR = 128"

text \<open>
  \<^verbatim>\<open>open(path, 'r').read()\<close>. On POSIX, where MAT runs, Python 2 reads the bytes as
  they are in text mode.
\<close>

definition open_read :: "path \<Rightarrow> world \<Rightarrow> content res" where
  "open_read p w =
     (case files w p of Some (File c m) \<Rightarrow> (Inr c, w) | _ \<Rightarrow> (Inl IOError, w))"

text \<open>The directory a new name is created in must exist; the empty one is the current.\<close>

definition parent_is_dir :: "path \<Rightarrow> world \<Rightarrow> bool" where
  "parent_is_dir p w =
     (let d = os_path_dirname p
      in d = [] \<or> \<not> list_ex (\<lambda>c. c \<noteq> CHR ''/'') d \<or> os_path_isdir d w)"

text \<open>Mode of a file created by \<^verbatim>\<open>open(path, 'wb')\<close> under the usual umask 022.\<close>

definition default_mode :: nat where
  "default_mode = 420"

text \<open>
  Opening a path for writing: an existing regular file is truncated and keeps its mode, a
  missing one is created.
\<close>

definition open_write :: "path \<Rightarrow> world \<Rightarrow> unit res" where
  "open_write p w =
     (case files w p of
        Some (File c m) \<Rightarrow> (Inr (), w\<lparr>files := (files w)(p \<mapsto> File (Raw []) m)\<rparr>)
      | Some n \<Rightarrow> (Inl IOError, w)
      | None \<Rightarrow>
          if p \<noteq> [] \<and> parent_is_dir p w
          then (Inr (), w\<lparr>files := (files w)(p \<mapsto> File (Raw []) default_mode)\<rparr>)
          else (Inl IOError, w))"

text \<open>
  Closing a written archive stores it in the file opened at \<open>p\<close>, if that file is
  still there.
\<close>

definition close_write :: "path \<Rightarrow> content \<Rightarrow> world \<Rightarrow> unit res" where
  "close_write p c w =
     (case files w p of
        Some (File c0 m) \<Rightarrow> (Inr (), w\<lparr>files := (files w)(p \<mapsto> File c m)\<rparr>)
      | _ \<Rightarrow> (Inr (), w))"

text \<open>
  \<^verbatim>\<open>shutil.move(src, dst)\<close>: into \<open>dst\<close> when that is a directory, refusing an
  existing target there; otherwise onto \<open>dst\<close>, whose directory must exist.
\<close>

definition shutil_move :: "path \<Rightarrow> path \<Rightarrow> world \<Rightarrow> unit res" where
  "shutil_move src dst w =
     (case files w src of
        None \<Rightarrow> (Inl IOError, w)
      | Some n \<Rightarrow>
          let real_dst = (if os_path_isdir dst w
                          then os_path_join dst (os_path_basename src) else dst)
          in if os_path_isdir dst w \<and> files w real_dst \<noteq> None then (Inl ShutilError, w)
             else if real_dst = [] \<or> \<not> parent_is_dir real_dst w then (Inl IOError, w)
             else (Inr (), w\<lparr>files := ((files w)(src := None))(real_dst \<mapsto> n)\<rparr>))"

text \<open>
  Modelled from the spec: \<^verbatim>\<open>secure_remove\<close> of \<^verbatim>\<open>libmat/mat.py\<close>, which is not among
  the sources. Section 4.3: it overwrites the file, then unlinks it.
\<close>

definition secure_remove :: "path \<Rightarrow> world \<Rightarrow> unit res" where
  "secure_remove p w =
     (case files w p of
        Some (File c m) \<Rightarrow> (Inr (), w\<lparr>files := (files w)(p := None)\<rparr>)
      | _ \<Rightarrow> (Inl OSError, w))"

definition logging_log :: "level \<Rightarrow> string \<Rightarrow> world \<Rightarrow> unit res" where
  "logging_log l msg w = (Inr (), w\<lparr>logs := logs w @ [(l, msg)]\<rparr>)"

section \<open>\<^verbatim>\<open>libmat/parser.py\<close>\<close>

definition NOMETA :: "string set" where
  "NOMETA = {''.bmp'', ''.rdf'', ''.txt'', ''.xml'', ''.rels''}"

text \<open>The backup destination as \<^verbatim>\<open>do_backup\<close> and \<^verbatim>\<open>create_backup_copy\<close> compute it.\<close>

definition backup_path :: "handle \<Rightarrow> path" where
  "backup_path h = os_path_join (filename h) ''.bak''"

text \<open>\<^verbatim>\<open>GenericParser.do_backup\<close>.\<close>

definition do_backup :: "handle \<Rightarrow> world \<Rightarrow> unit res" where
  "do_backup h =
     bindE (if backup h then shutil_move (filename h) (backup_path h)
            else secure_remove (filename h))
       (\<lambda>_. shutil_move (output h) (filename h))"

section \<open>\<^verbatim>\<open>libmat/archive.py\<close>: the ZIP engine\<close>

definition ZIP_EPOCH :: "nat \<times> nat \<times> nat \<times> nat \<times> nat \<times> nat" where
  "ZIP_EPOCH = (1980, 1, 1, 0, 0, 0)"

text \<open>\<^verbatim>\<open>zipfile.ZIP_DEFLATED\<close>.\<close>

definition ZIP_DEFLATED :: nat where
  "ZIP_DEFLATED = 8"

text \<open>
  The constructor \<^verbatim>\<open>zipfile.ZipInfo(filename, date_time)\<close> with its defaults on POSIX:
  stored, made on UNIX, no comment. (zipfile cuts a name at its first NUL byte, when it
  reads an archive and in this constructor; the names here are those \<^verbatim>\<open>infolist\<close>
  returns, which the constructor leaves as they are.)
\<close>

definition ZipInfo :: "string \<Rightarrow> nat \<times> nat \<times> nat \<times> nat \<times> nat \<times> nat \<Rightarrow> zipinfo" where
  "ZipInfo name date_time =
     \<lparr>z_filename = name, z_date_time = date_time, z_compress_type = 0,
      z_create_system = 3, z_comment = []\<rparr>"

text \<open>\<^verbatim>\<open>zipfile.ZipFile(name, 'r')\<close>: the archive comment and \<^verbatim>\<open>infolist()\<close>.\<close>

definition ZipFile_read :: "path \<Rightarrow> world \<Rightarrow> (string \<times> (zipinfo \<times> content) list) res" where
  "ZipFile_read p w =
     (case files w p of
        Some (File (ZipData c es) m) \<Rightarrow> (Inr (c, es), w)
      | Some (File c m) \<Rightarrow> (Inl BadZipfile, w)
      | _ \<Rightarrow> (Inl IOError, w))"

text \<open>
  Lines 184 to 187 of the ZIP engine and 244 to 247 of the TAR engine, which are the same:
  \<^verbatim>\<open>old_stat = os.stat(path).st_mode; os.chmod(path, old_stat | stat.S_IWUSR);
  cfile.remove_all(); os.chmod(path, old_stat)\<close>. The value \<^verbatim>\<open>remove_all\<close> returns is
  dropped.
\<close>

definition handle_read_only :: "path \<Rightarrow> stripper \<Rightarrow> world \<Rightarrow> unit res" where
  "handle_read_only path cfile =
     bindE (os_stat_st_mode path) (\<lambda>old_stat.
     bindE (os_chmod path (old_stat OR S_IWUSR)) (\<lambda>_.
     bindE (remove_all cfile) (\<lambda>_.
     os_chmod path old_stat)))"

text \<open>
  The body of the loop of \<^verbatim>\<open>ZipStripper.remove_all\<close> for one \<open>item\<close>: \<open>None\<close> when
  nothing is written for it, or the pair given to \<^verbatim>\<open>zipout.writestr\<close>.
\<close>

definition ZipStripper_item ::
  "lib \<Rightarrow> handle \<Rightarrow> string list \<Rightarrow> string list \<Rightarrow> string list \<Rightarrow> zipinfo \<times> content
     \<Rightarrow> world \<Rightarrow> (zipinfo \<times> content) option res" where
  "ZipStripper_item L self whitelist beginning_blacklist ending_blacklist item =
     bindE (zip_extract L item (tempdir self)) (\<lambda>_.
       let name = z_filename (fst item);
           path = os_path_join (tempdir self) name;
           beginning = list_ex (\<lambda>f. startswith name f) beginning_blacklist;
           ending = list_ex (\<lambda>f. endswith name f) ending_blacklist;
           zinfo = (ZipInfo name ZIP_EPOCH)
                     \<lparr>z_compress_type := ZIP_DEFLATED, z_create_system := 3, z_comment := []\<rparr>;
           writestr = bindE (open_read path) (\<lambda>bytes. returnE (Some (zinfo, bytes)))
       in (\<lambda>w.
         if os_path_isfile path w \<and> \<not> beginning \<and> \<not> ending then
           (case create_class_file L path False (add2archive self) w of
              Some cfile \<Rightarrow>
                bindE (handle_read_only path cfile) (\<lambda>_.
                bindE (logging_log DEBUG (''Processing '' @ name @ '' from '' @ filename self))
                  (\<lambda>_. writestr)) w
            | None \<Rightarrow>
                if name \<notin> set whitelist then
                  bindE (logging_log INFO
                          (name @ [CHR 0x27] @ ''s format is not supported or harmless''))
                    (\<lambda>_. if \<not> (add2archive self \<or> splitext_ext path \<in> NOMETA)
                         then returnE None else writestr) w
                else writestr w)
         else returnE None w))"

fun ZipStripper_loop ::
  "lib \<Rightarrow> handle \<Rightarrow> string list \<Rightarrow> string list \<Rightarrow> string list \<Rightarrow> (zipinfo \<times> content) list
     \<Rightarrow> (zipinfo \<times> content) list \<Rightarrow> world \<Rightarrow> (zipinfo \<times> content) list res" where
  "ZipStripper_loop L self wl bb eb [] zipout w = (Inr zipout, w)"
| "ZipStripper_loop L self wl bb eb (item # items) zipout w =
     (case ZipStripper_item L self wl bb eb item w of
        (Inl e, w') \<Rightarrow> (Inl e, w')
      | (Inr None, w') \<Rightarrow> ZipStripper_loop L self wl bb eb items zipout w'
      | (Inr (Some entry), w') \<Rightarrow> ZipStripper_loop L self wl bb eb items (zipout @ [entry]) w')"

text \<open>\<^verbatim>\<open>if not x: x = []\<close> for an argument whose default is \<^verbatim>\<open>None\<close>.\<close>

definition default_list :: "string list option \<Rightarrow> string list" where
  "default_list x = (case x of None \<Rightarrow> [] | Some l \<Rightarrow> l)"

text \<open>
  \<^verbatim>\<open>ZipStripper.remove_all(whitelist, beginning_blacklist, ending_blacklist)\<close>. The
  output archive is opened with \<^verbatim>\<open>allowZip64=True\<close> and no archive comment.
\<close>

definition ZipStripper_remove_all ::
  "lib \<Rightarrow> handle \<Rightarrow> string list option \<Rightarrow> string list option \<Rightarrow> string list option
     \<Rightarrow> world \<Rightarrow> bool res" where
  "ZipStripper_remove_all L self whitelist beginning_blacklist ending_blacklist =
     bindE (ZipFile_read (filename self)) (\<lambda>zipin.
     bindE (open_write (output self)) (\<lambda>_.
     bindE (ZipStripper_loop L self (default_list whitelist)
              (default_list beginning_blacklist) (default_list ending_blacklist)
              (snd zipin) []) (\<lambda>zipout.
     bindE (close_write (output self) (ZipData [] zipout)) (\<lambda>_.
     bindE (logging_log INFO (filename self @ '' processed'')) (\<lambda>_.
     bindE (do_backup self) (\<lambda>_.
     returnE True))))))"

text \<open>\<^verbatim>\<open>class TerminalZipStripper(ZipStripper): pass\<close>.\<close>

definition TerminalZipStripper_remove_all ::
  "lib \<Rightarrow> handle \<Rightarrow> string list option \<Rightarrow> string list option \<Rightarrow> string list option
     \<Rightarrow> world \<Rightarrow> bool res" where
  "TerminalZipStripper_remove_all = ZipStripper_remove_all"

section \<open>\<^verbatim>\<open>libmat/archive.py\<close>: the TAR engine\<close>

text \<open>\<^verbatim>\<open>TarStripper._remove_tar_added\<close>.\<close>

definition remove_tar_added :: "tarinfo \<Rightarrow> tarinfo" where
  "remove_tar_added current_file =
     current_file\<lparr>t_mtime := 0, t_uid := 0, t_gid := 0, t_uname := [], t_gname := []\<rparr>"

text \<open>\<^verbatim>\<open>TarInfo.isfile\<close> (the same as \<^verbatim>\<open>isreg\<close>) and \<^verbatim>\<open>TarInfo.isdir\<close>.\<close>

definition isfile :: "tarinfo \<Rightarrow> bool" where
  "isfile ti = (t_type ti \<in> {REGTYPE, AREGTYPE, CONTTYPE, GNUTYPE_SPARSE})"

definition isdir :: "tarinfo \<Rightarrow> bool" where
  "isdir ti = (t_type ti = DIRTYPE)"

text \<open>\<^verbatim>\<open>tarfile.open(name, 'r' + compression)\<close>; plain \<^verbatim>\<open>'r'\<close> accepts any compression.\<close>

definition tarfile_open_read :: "path \<Rightarrow> string \<Rightarrow> world \<Rightarrow> (tarinfo \<times> content) list res" where
  "tarfile_open_read p cmpr w =
     (case files w p of
        Some (File (TarData c ms) m) \<Rightarrow>
          if cmpr = [] \<or> cmpr = c then (Inr ms, w) else (Inl ReadError, w)
      | Some (File c m) \<Rightarrow> (Inl ReadError, w)
      | _ \<Rightarrow> (Inl IOError, w))"

text \<open>
  \<^verbatim>\<open>TarFile.gettarinfo(name, arcname)\<close>: it raises when nothing is at \<open>name\<close>; the
  type and the mode of the header are those of the file found there (hard links, which a
  freshly extracted file does not have, are left out).
\<close>

definition gettarinfo :: "lib \<Rightarrow> path \<Rightarrow> string \<Rightarrow> world \<Rightarrow> tarinfo res" where
  "gettarinfo L name arcname w =
     (case files w name of
        None \<Rightarrow> (Inl OSError, w)
      | Some (File c m) \<Rightarrow> (Inr ((lstat_header L name arcname w)\<lparr>t_type := REGTYPE, t_mode := m\<rparr>), w)
      | Some (Dir m) \<Rightarrow> (Inr ((lstat_header L name arcname w)\<lparr>t_type := DIRTYPE, t_mode := m\<rparr>), w)
      | Some (Special m) \<Rightarrow>
          (Inr ((lstat_header L name arcname w)\<lparr>t_type := FIFOTYPE, t_mode := m\<rparr>), w))"

text \<open>
  \<^verbatim>\<open>TarFile.add(name, arcname, filter=f)\<close>: the header of \<open>name\<close> goes through the
  filter; a regular file is added with its bytes, a directory with the members below it,
  each through the filter, anything else as a header alone.
\<close>

definition TarFile_add ::
  "lib \<Rightarrow> path \<Rightarrow> string \<Rightarrow> (tarinfo \<Rightarrow> tarinfo) \<Rightarrow> (tarinfo \<times> content) list
     \<Rightarrow> world \<Rightarrow> (tarinfo \<times> content) list res" where
  "TarFile_add L name arcname filter_fn tarout =
     bindE (gettarinfo L name arcname) (\<lambda>tarinfo0.
       let tarinfo = filter_fn tarinfo0
       in if isfile tarinfo then
            bindE (open_read name) (\<lambda>bytes. returnE (tarout @ [(tarinfo, bytes)]))
          else if isdir tarinfo then
            (\<lambda>w. case add_subtree L name arcname w of
                    Inl e \<Rightarrow> (Inl e, w)
                  | Inr ms \<Rightarrow>
                      (Inr (tarout @ (tarinfo, Raw []) # map (\<lambda>(t, c). (filter_fn t, c)) ms), w))
          else returnE (tarout @ [(tarinfo, Raw [])]))"

text \<open>
  The body of the loop of \<^verbatim>\<open>TarStripper.remove_all\<close> for one \<open>item\<close>; it returns the
  members of \<^verbatim>\<open>tarout\<close>.
\<close>

definition TarStripper_item ::
  "lib \<Rightarrow> handle \<Rightarrow> string list \<Rightarrow> tarinfo \<times> content \<Rightarrow> (tarinfo \<times> content) list
     \<Rightarrow> world \<Rightarrow> (tarinfo \<times> content) list res" where
  "TarStripper_item L self whitelist item tarout =
     bindE (tar_extract L item (tempdir self)) (\<lambda>_.
       if isfile (fst item) then
         let name = t_name (fst item);
             path = os_path_join (tempdir self) name;
             add = (\<lambda>w. if utf8_decodable L path \<and> utf8_decodable L name
                         then TarFile_add L path name remove_tar_added tarout w
                         else (Inl UnicodeDecodeError, w))
         in (\<lambda>w.
           case create_class_file L path False (add2archive self) w of
             Some cfile \<Rightarrow> bindE (handle_read_only path cfile) (\<lambda>_. add) w
           | None \<Rightarrow>
               if add2archive self \<or> splitext_ext name \<in> NOMETA then
                 bindE (logging_log DEBUG
                         (name @ [CHR 0x27] @ '' format is either not supported or harmless''))
                   (\<lambda>_. add) w
               else if name \<in> set whitelist then
                 bindE (logging_log DEBUG
                         (name @ '' is not supported, but MAT was told to add it anyway.''))
                   (\<lambda>_. add) w
               else
                 bindE (logging_log DEBUG (name @ '' will not be added''))
                   (\<lambda>_. returnE tarout) w)
       else returnE tarout)"

fun TarStripper_loop ::
  "lib \<Rightarrow> handle \<Rightarrow> string list \<Rightarrow> (tarinfo \<times> content) list \<Rightarrow> (tarinfo \<times> content) list
     \<Rightarrow> world \<Rightarrow> (tarinfo \<times> content) list res" where
  "TarStripper_loop L self wl [] tarout w = (Inr tarout, w)"
| "TarStripper_loop L self wl (item # items) tarout w =
     (case TarStripper_item L self wl item tarout w of
        (Inl e, w') \<Rightarrow> (Inl e, w')
      | (Inr tarout', w') \<Rightarrow> TarStripper_loop L self wl items tarout' w')"

text \<open>\<^verbatim>\<open>TarStripper.remove_all(whitelist)\<close>.\<close>

definition TarStripper_remove_all ::
  "lib \<Rightarrow> handle \<Rightarrow> string list option \<Rightarrow> world \<Rightarrow> bool res" where
  "TarStripper_remove_all L self whitelist =
     bindE (tarfile_open_read (filename self) (compression self)) (\<lambda>tarin.
     bindE (open_write (output self)) (\<lambda>_.
     bindE (TarStripper_loop L self (default_list whitelist) tarin []) (\<lambda>tarout.
     bindE (close_write (output self) (TarData (compression self) tarout)) (\<lambda>_.
     bindE (do_backup self) (\<lambda>_.
     returnE True)))))"

section \<open>\<^verbatim>\<open>libmat/office.py\<close>: the terminal ZIP formats\<close>

text \<open>\<^verbatim>\<open>OpenDocumentStripper.remove_all\<close>.\<close>

definition OpenDocumentStripper_remove_all :: "lib \<Rightarrow> handle \<Rightarrow> world \<Rightarrow> bool res" where
  "OpenDocumentStripper_remove_all L self =
     TerminalZipStripper_remove_all L self None None (Some [''meta.xml''])"

text \<open>\<^verbatim>\<open>OpenXmlStripper.remove_all\<close>.\<close>

definition OpenXmlStripper_remove_all :: "lib \<Rightarrow> handle \<Rightarrow> world \<Rightarrow> bool res" where
  "OpenXmlStripper_remove_all L self =
     TerminalZipStripper_remove_all L self (Some [''.rels'']) (Some [''docProps/'']) None"

section \<open>A plain library, for evaluation\<close>

text \<open>
  Stand-ins for \<^verbatim>\<open>ZipFile.extract\<close> and \<^verbatim>\<open>TarFile.extract\<close> of Python 2.7, used
  to evaluate the engines on examples; the general theorems take the extraction as a
  parameter. Both create the missing directories above their target. The directory given
  to them is taken to be normalised, as \<^verbatim>\<open>tempfile.mkdtemp\<close> returns it. Since the file
  system compares paths as written, the example entries have names without
  \<^verbatim>\<open>.\<close> or \<^verbatim>\<open>..\<close> components and without doubled slashes.
\<close>

text \<open>\<^verbatim>\<open>s.split('/')\<close> and \<^verbatim>\<open>'/'.join(xs)\<close>.\<close>

fun split_slash :: "string \<Rightarrow> string list" where
  "split_slash [] = [[]]"
| "split_slash (c # cs) =
     (if c = CHR ''/'' then [] # split_slash cs
      else (case split_slash cs of [] \<Rightarrow> [[c]] | x # xs \<Rightarrow> (c # x) # xs))"

definition join_slash :: "string list \<Rightarrow> string" where
  "join_slash xs = (case xs of [] \<Rightarrow> [] | x # r \<Rightarrow> foldl (\<lambda>a b. a @ ''/'' @ b) x r)"

text \<open>
  The name under which zipfile extracts an entry: the components of the stored name
  other than the empty one, \<^verbatim>\<open>.\<close> and \<^verbatim>\<open>..\<close>.
\<close>

definition zip_arcname :: "string \<Rightarrow> string" where
  "zip_arcname name =
     join_slash (filter (\<lambda>x. x \<noteq> [] \<and> x \<noteq> ''.'' \<and> x \<noteq> ''..'') (split_slash name))"

text \<open>The directories above a path, outermost first: what precedes each of its slashes.\<close>

fun ancestors_from :: "string \<Rightarrow> string \<Rightarrow> string list" where
  "ancestors_from pre [] = []"
| "ancestors_from pre (c # cs) =
     (if c = CHR ''/'' \<and> pre \<noteq> [] \<and> last pre \<noteq> CHR ''/'' then [pre] else [])
     @ ancestors_from (pre @ [c]) cs"

definition upper_dirs :: "path \<Rightarrow> path list" where
  "upper_dirs p = ancestors_from [] p"

text \<open>\<^verbatim>\<open>os.makedirs\<close> along a chain of directories, mode 755 (octal) under umask 022.\<close>

fun mkdir_chain :: "path list \<Rightarrow> world \<Rightarrow> unit res" where
  "mkdir_chain [] w = (Inr (), w)"
| "mkdir_chain (d # ds) w =
     (case files w d of
        None \<Rightarrow> mkdir_chain ds (w\<lparr>files := (files w)(d \<mapsto> Dir 493)\<rparr>)
      | Some (Dir m) \<Rightarrow> mkdir_chain ds w
      | Some n \<Rightarrow> (Inl OSError, w))"

text \<open>
  \<^verbatim>\<open>upperdirs = os.path.dirname(targetpath); if upperdirs and not
  os.path.exists(upperdirs): os.makedirs(upperdirs)\<close>, in both libraries.
\<close>

definition make_upper_dirs :: "path \<Rightarrow> world \<Rightarrow> unit res" where
  "make_upper_dirs target w =
     (if os_path_dirname target = [] \<or> files w (os_path_dirname target) \<noteq> None then (Inr (), w)
      else mkdir_chain (upper_dirs target) w)"

text \<open>\<^verbatim>\<open>open(target, 'wb')\<close>, writing the bytes, and \<^verbatim>\<open>os.mkdir(target)\<close>.\<close>

definition write_file :: "path \<Rightarrow> content \<Rightarrow> world \<Rightarrow> unit res" where
  "write_file target c w =
     (case files w target of
        Some (File c0 m) \<Rightarrow> (Inr (), w\<lparr>files := (files w)(target \<mapsto> File c m)\<rparr>)
      | Some n \<Rightarrow> (Inl IOError, w)
      | None \<Rightarrow>
          if target \<noteq> [] \<and> parent_is_dir target w
          then (Inr (), w\<lparr>files := (files w)(target \<mapsto> File c default_mode)\<rparr>)
          else (Inl IOError, w))"

definition os_mkdir :: "path \<Rightarrow> world \<Rightarrow> unit res" where
  "os_mkdir target w =
     (if files w target = None \<and> target \<noteq> [] \<and> parent_is_dir target w
      then (Inr (), w\<lparr>files := (files w)(target \<mapsto> Dir 493)\<rparr>)
      else (Inl OSError, w))"

text \<open>
  \<^verbatim>\<open>ZipFile.extract(member, path)\<close>: the target is the directory joined with the
  sanitised name; an entry whose stored name ends with a slash becomes a directory, any
  other a file with the payload.
\<close>

definition plain_zip_extract :: "zipinfo \<times> content \<Rightarrow> path \<Rightarrow> world \<Rightarrow> unit res" where
  "plain_zip_extract item dir =
     (let name = z_filename (fst item);
          arcname = zip_arcname name;
          target = (if arcname = [] then dir else os_path_join dir arcname)
      in bindE (make_upper_dirs target) (\<lambda>_.
           if name = [] then raiseE (Exception ''IndexError'')
           else if last name = CHR ''/'' then
             (\<lambda>w. if os_path_isdir target w then (Inr (), w) else os_mkdir target w)
           else write_file target (snd item)))"

text \<open>
  \<^verbatim>\<open>TarFile.extract(member, path)\<close>: the target is the directory joined with the stored
  name, without sanitising, less its trailing slashes; the member is created with its
  stored type and given its stored mode.
\<close>

definition plain_tar_extract :: "tarinfo \<times> content \<Rightarrow> path \<Rightarrow> world \<Rightarrow> unit res" where
  "plain_tar_extract item dir =
     (let joined = os_path_join dir (t_name (fst item));
          target = rev (dropWhile (\<lambda>c. c = CHR ''/'') (rev joined))
      in bindE (make_upper_dirs target) (\<lambda>_.
         bindE (if isfile (fst item) then write_file target (snd item)
                else if isdir (fst item) then
                  (\<lambda>w. if files w target = None then os_mkdir target w else (Inr (), w))
                else (\<lambda>w. if files w target = None \<and> target \<noteq> [] \<and> parent_is_dir target w
                          then (Inr (), w\<lparr>files := (files w)(target \<mapsto> Special 420)\<rparr>)
                          else (Inl OSError, w)))
           (\<lambda>_. os_chmod target (t_mode (fst item)))))"

definition plain_header :: "path \<Rightarrow> string \<Rightarrow> world \<Rightarrow> tarinfo" where
  "plain_header name arcname w =
     \<lparr>t_name = arcname, t_type = REGTYPE, t_mode = 0, t_mtime = 1700000000,
      t_uid = 1000, t_gid = 1000, t_uname = ''user'', t_gname = ''users''\<rparr>"

definition plain_lib :: "(path \<Rightarrow> bool \<Rightarrow> bool \<Rightarrow> world \<Rightarrow> stripper option) \<Rightarrow> lib" where
  "plain_lib factory =
     \<lparr>create_class_file = factory, zip_extract = plain_zip_extract,
      tar_extract = plain_tar_extract, lstat_header = plain_header,
      add_subtree = (\<lambda>name arcname w. Inr []), utf8_decodable = (\<lambda>s. True)\<rparr>"

text \<open>A leaf stripper that replaces the file at \<open>p\<close> by \<open>c\<close>, as its publication does.\<close>

definition leaf_stripper :: "path \<Rightarrow> content \<Rightarrow> stripper" where
  "leaf_stripper p c =
     \<lparr>is_archive = False,
      remove_all = (\<lambda>w. (Inr True, w\<lparr>files := (files w)(p \<mapsto> File c 384)\<rparr>))\<rparr>"

section \<open>Frame conditions\<close>

text \<open>A computation leaves whatever is at the path \<open>p\<close> as it is.\<close>

definition keeps :: "path \<Rightarrow> (world \<Rightarrow> 'a res) \<Rightarrow> bool" where
  "keeps p m = (\<forall>w. files (snd (m w)) p = files w p)"

text \<open>
  The frame the archive engines rely on for a path \<open>p\<close> outside the scratch
  directory (the source, the output): no entry is extracted onto \<open>p\<close>, and neither
  the extraction of an entry nor the stripper made for it touches \<open>p\<close>.
\<close>

definition zip_frame :: "lib \<Rightarrow> handle \<Rightarrow> (zipinfo \<times> content) list \<Rightarrow> path \<Rightarrow> bool" where
  "zip_frame L self items p =
     (\<forall>item\<in>set items.
        os_path_join (tempdir self) (z_filename (fst item)) \<noteq> p \<and>
        keeps p (zip_extract L item (tempdir self)) \<and>
        (\<forall>w cfile. create_class_file L (os_path_join (tempdir self) (z_filename (fst item)))
                      False (add2archive self) w = Some cfile \<longrightarrow> keeps p (remove_all cfile)))"

text \<open>
  \<^verbatim>\<open>tempfile.mkstemp\<close> returns a new path: the output is neither the source nor a place
  the backup can go.
\<close>

definition output_fresh :: "handle \<Rightarrow> bool" where
  "output_fresh h =
     (output h \<noteq> filename h \<and> output h \<noteq> backup_path h \<and>
      output h \<noteq> os_path_join (backup_path h) (os_path_basename (filename h)))"

definition tar_frame :: "lib \<Rightarrow> handle \<Rightarrow> (tarinfo \<times> content) list \<Rightarrow> path \<Rightarrow> bool" where
  "tar_frame L self items p =
     (\<forall>item\<in>set items.
        os_path_join (tempdir self) (t_name (fst item)) \<noteq> p \<and>
        keeps p (tar_extract L item (tempdir self)) \<and>
        (\<forall>w cfile. create_class_file L (os_path_join (tempdir self) (t_name (fst item)))
                      False (add2archive self) w = Some cfile \<longrightarrow> keeps p (remove_all cfile)))"

section \<open>Example inputs\<close>

text \<open>
  A factory that knows JPEG files only, a handle, and worlds that hold one archive next to
  the temporary file and directory of the handle.
\<close>

definition ex_factory :: "path \<Rightarrow> bool \<Rightarrow> bool \<Rightarrow> world \<Rightarrow> stripper option" where
  "ex_factory name b a w =
     (if endswith name ''.jpg'' then Some (leaf_stripper name (Raw ''pixels'')) else None)"

definition ex_handle :: "path \<Rightarrow> handle" where
  "ex_handle f = \<lparr>filename = f, mime = [], backup = False, is_writable = True,
         output = ''/tmp/out'', compression = [], add2archive = False, tempdir = ''/tmp/d''\<rparr>"

definition ex_zipinfo :: "string \<Rightarrow> zipinfo" where
  "ex_zipinfo n = \<lparr>z_filename = n, z_date_time = (2024, 6, 1, 12, 30, 0), z_compress_type = 0,
                   z_create_system = 0, z_comment = ''x''\<rparr>"

definition ex_tarinfo :: "string \<Rightarrow> tartype \<Rightarrow> tarinfo" where
  "ex_tarinfo n t = \<lparr>t_name = n, t_type = t, t_mode = (if t = DIRTYPE then 493 else 292),
                     t_mtime = 1717245000,
                     t_uid = 1000, t_gid = 1000, t_uname = ''alice'', t_gname = ''staff''\<rparr>"

definition ex_zip_items :: "(zipinfo \<times> content) list" where
  "ex_zip_items = [(ex_zipinfo ''a.txt'', Raw ''abc''), (ex_zipinfo ''p.jpg'', Raw ''exif''),
                   (ex_zipinfo ''b.bin'', Raw ''xyz''), (ex_zipinfo ''d/'', Raw [])]"

definition ex_tar_items :: "(tarinfo \<times> content) list" where
  "ex_tar_items = [(ex_tarinfo ''d'' DIRTYPE, Raw []), (ex_tarinfo ''d/a.txt'' REGTYPE, Raw ''abc''),
                   (ex_tarinfo ''p.jpg'' REGTYPE, Raw ''exif'')]"

definition ex_world :: "path \<Rightarrow> content \<Rightarrow> world" where
  "ex_world f c = \<lparr>files = [''/home/u'' \<mapsto> Dir 493, ''/tmp'' \<mapsto> Dir 511, ''/tmp/d'' \<mapsto> Dir 448,
                  ''/tmp/out'' \<mapsto> File (Raw []) 384, f \<mapsto> File c 420],
         logs = []\<rparr>"

text \<open>
  Strippers and factories for the examples: a nested archive stripper that raises on a
  corrupt archive, a stripper that gives up and returns false, a stripper that raises a
  given exception, a factory that decides by the suffix of the name, and a library whose
  extraction raises.
\<close>

definition failing_stripper :: stripper where
  "failing_stripper = \<lparr>is_archive = True, remove_all = (\<lambda>w. (Inl BadZipfile, w))\<rparr>"

definition refusing_stripper :: stripper where
  "refusing_stripper = \<lparr>is_archive = False, remove_all = (\<lambda>w. (Inr False, w))\<rparr>"

definition raising_stripper :: "error \<Rightarrow> stripper" where
  "raising_stripper e = \<lparr>is_archive = False, remove_all = (\<lambda>w. (Inl e, w))\<rparr>"

definition suffix_factory ::
  "string \<Rightarrow> (path \<Rightarrow> stripper) \<Rightarrow> path \<Rightarrow> bool \<Rightarrow> bool \<Rightarrow> world \<Rightarrow> stripper option" where
  "suffix_factory suffix mk name b a w = (if endswith name suffix then Some (mk name) else None)"

definition archive_stripper :: "path \<Rightarrow> content \<Rightarrow> stripper" where
  "archive_stripper p c = (leaf_stripper p c)\<lparr>is_archive := True\<rparr>"

definition broken_lib :: lib where
  "broken_lib = (plain_lib ex_factory)
     \<lparr>zip_extract := (\<lambda>item dir w. (Inl BadZipfile, w)),
      tar_extract := (\<lambda>item dir w. (Inl ReadError, w))\<rparr>"

text \<open>
  A library for an archive with one damaged entry: extracting \<^verbatim>\<open>b.bin\<close> from a ZIP
  archive or \<^verbatim>\<open>p.jpg\<close> from a TAR archive raises, as on a checksum error.
\<close>

definition corrupt_lib :: lib where
  "corrupt_lib = (plain_lib ex_factory)
     \<lparr>zip_extract := (\<lambda>item dir w. if z_filename (fst item) = ''b.bin'' then (Inl BadZipfile, w)
                                    else plain_zip_extract item dir w),
      tar_extract := (\<lambda>item dir w. if t_name (fst item) = ''p.jpg'' then (Inl ReadError, w)
                                    else plain_tar_extract item dir w)\<rparr>"

text \<open>A factory that takes \<^verbatim>\<open>.zip\<close> files for nested archives and cleans them.\<close>

definition nested_factory :: "path \<Rightarrow> bool \<Rightarrow> bool \<Rightarrow> world \<Rightarrow> stripper option" where
  "nested_factory = suffix_factory ''.zip'' (\<lambda>p. archive_stripper p (Raw ''clean''))"

text \<open>The entries of an Office OpenXML document, with one that no stripper knows.\<close>

definition ex_docx_items :: "(zipinfo \<times> content) list" where
  "ex_docx_items = [(ex_zipinfo ''docProps/core.xml'', Raw ''author''),
                    (ex_zipinfo ''word/document.xml'', Raw ''text''),
                    (ex_zipinfo ''word/media/blob.bin'', Raw ''blob''),
                    (ex_zipinfo ''meta.xml'', Raw ''meta'')]"

text \<open>
  A world in which the user's directory holds a file of its own next to an archive whose
  one entry is stored under the absolute name of that file.
\<close>

definition ex_host_world :: world where
  "ex_host_world =
     \<lparr>files = [''/home'' \<mapsto> Dir 493, ''/home/u'' \<mapsto> Dir 493, ''/tmp'' \<mapsto> Dir 511,
               ''/tmp/d'' \<mapsto> Dir 448, ''/tmp/out'' \<mapsto> File (Raw []) 384,
               ''/home/u/notes.txt'' \<mapsto> File (Raw ''private'') 384,
               ''/home/u/a.zip'' \<mapsto>
                 File (ZipData [] [(ex_zipinfo ''/home/u/notes.txt'', Raw ''public'')]) 420],
      logs = []\<rparr>"

section \<open>Lemmas\<close>

lemmas ex2_defs = suffix_factory_def archive_stripper_def broken_lib_def failing_stripper_def refusing_stripper_def

lemmas ex_frame_defs = ex_factory_def ex_handle_def ex_zipinfo_def ex_tarinfo_def ex_zip_items_def
  ex_tar_items_def ex_world_def plain_lib_def plain_header_def leaf_stripper_def

lemmas extract_defs = plain_zip_extract_def plain_tar_extract_def zip_arcname_def join_slash_def
  upper_dirs_def make_upper_dirs_def write_file_def os_mkdir_def os_path_dirname_def
  parent_is_dir_def os_path_isdir_def os_chmod_def set_mode_def bindE_def raiseE_def Let_def
  default_mode_def isfile_def isdir_def

lemmas ex_defs = ex_frame_defs extract_defs

lemmas frame_defs = ex_frame_defs zip_arcname_def join_slash_def upper_dirs_def

lemmas run_defs = ZipStripper_remove_all_def TarStripper_remove_all_def bindE_def returnE_def ZipFile_read_def tarfile_open_read_def
  open_write_def close_write_def default_list_def ZipStripper_item_def TarStripper_item_def TarFile_add_def gettarinfo_def
  handle_read_only_def os_stat_st_mode_def os_chmod_def set_mode_def S_IWUSR_def open_read_def
  os_path_join_def startswith_def endswith_def os_path_isfile_def os_path_isdir_def logging_log_def
  splitext_ext_def os_path_basename_def os_path_dirname_def NOMETA_def ZipInfo_def do_backup_def secure_remove_def shutil_move_def
  parent_is_dir_def isfile_def isdir_def remove_tar_added_def Let_def backup_path_def default_mode_def

lemmas path_defs = os_path_join_def startswith_def endswith_def os_path_basename_def

lemma bindE_Inr_iff:
  "bindE m f w = (Inr y, w') \<longleftrightarrow> (\<exists>x w1. m w = (Inr x, w1) \<and> f x w1 = (Inr y, w'))"
  by (auto simp: bindE_def split: prod.splits sum.splits)

lemma bindE_Inl_iff:
  "bindE m f w = (Inl e, w') \<longleftrightarrow>
     (m w = (Inl e, w') \<or> (\<exists>x w1. m w = (Inr x, w1) \<and> f x w1 = (Inl e, w')))"
  by (auto simp: bindE_def split: prod.splits sum.splits)

lemma keeps_bindE: "keeps p m \<Longrightarrow> (\<And>x. keeps p (f x)) \<Longrightarrow> keeps p (bindE m f)"
  by (auto simp: keeps_def bindE_def split: prod.splits sum.splits) (metis snd_conv)+

lemma keeps_returnE: "keeps p (returnE x)"
  by (simp add: keeps_def returnE_def)

lemma keeps_logging: "keeps p (logging_log l msg)"
  by (simp add: keeps_def logging_log_def)

lemma keeps_open_read: "keeps p (open_read q)"
  by (auto simp: keeps_def open_read_def split: option.splits node.splits)

lemma keeps_stat: "keeps p (os_stat_st_mode q)"
  by (auto simp: keeps_def os_stat_st_mode_def split: option.splits)

lemma keeps_chmod: "q \<noteq> p \<Longrightarrow> keeps p (os_chmod q m)"
  by (auto simp: keeps_def os_chmod_def split: option.splits)

lemma keeps_handle_read_only:
  "q \<noteq> p \<Longrightarrow> keeps p (remove_all cfile) \<Longrightarrow> keeps p (handle_read_only q cfile)"
  unfolding handle_read_only_def
  by (intro keeps_bindE keeps_stat keeps_chmod) auto

lemma keeps_if: "(c \<Longrightarrow> keeps p a) \<Longrightarrow> (\<not> c \<Longrightarrow> keeps p b) \<Longrightarrow> keeps p (if c then a else b)"
  by simp

lemma keepsD: "keeps p m \<Longrightarrow> m w = (r, w') \<Longrightarrow> files w' p = files w p"
  by (auto simp: keeps_def) (metis snd_conv)

lemma keeps_fun_if:
  "keeps p a \<Longrightarrow> keeps p b \<Longrightarrow> keeps p (\<lambda>w. if c w then a w else b w)"
  by (simp add: keeps_def)

lemma keeps_fun_case_option:
  "keeps p a \<Longrightarrow> (\<And>x w. g w = Some x \<Longrightarrow> keeps p (b x))
     \<Longrightarrow> keeps p (\<lambda>w. case g w of None \<Rightarrow> a w | Some x \<Rightarrow> b x w)"
  by (auto simp: keeps_def split: option.splits)

lemma keeps_eta: "keeps p (\<lambda>w. m w) = keeps p m"
  by simp

lemma keeps_unchanged: "keeps p (\<lambda>w. (r, w))"
  by (simp add: keeps_def)

lemma keeps_raiseE: "keeps p (raiseE e)"
  by (simp add: keeps_def raiseE_def)

lemma keeps_update: "q \<noteq> p \<Longrightarrow> keeps p (\<lambda>w. (r, w\<lparr>files := (files w)(q \<mapsto> n)\<rparr>))"
  by (simp add: keeps_def)

lemma keeps_mkdir_chain: "p \<notin> set ds \<Longrightarrow> keeps p (mkdir_chain ds)"
proof (induction ds)
  case Nil
  show ?case by (simp add: keeps_def)
next
  case (Cons d ds)
  then have ih: "\<And>w. files (snd (mkdir_chain ds w)) p = files w p" and ne: "d \<noteq> p"
    by (auto simp: keeps_def)
  show ?case
    unfolding keeps_def
  proof
    fix w
    show "files (snd (mkdir_chain (d # ds) w)) p = files w p"
      using ne ih [of w] ih [of "w\<lparr>files := (files w)(d \<mapsto> Dir 493)\<rparr>"]
      by (auto split: option.splits node.splits)
  qed
qed

lemma keeps_make_upper_dirs: "p \<notin> set (upper_dirs t) \<Longrightarrow> keeps p (make_upper_dirs t)"
  using keeps_mkdir_chain [of p "upper_dirs t"]
  by (auto simp: keeps_def make_upper_dirs_def)

lemma keeps_write_file: "p \<noteq> t \<Longrightarrow> keeps p (write_file t c)"
  by (auto simp: keeps_def write_file_def split: option.splits node.splits)

lemma keeps_os_mkdir: "p \<noteq> t \<Longrightarrow> keeps p (os_mkdir t)"
  by (auto simp: keeps_def os_mkdir_def)

lemma keeps_plain_zip_extract:
  assumes "p \<noteq> (if zip_arcname (z_filename (fst item)) = [] then dir
                 else os_path_join dir (zip_arcname (z_filename (fst item))))"
    and "p \<notin> set (upper_dirs (if zip_arcname (z_filename (fst item)) = [] then dir
                 else os_path_join dir (zip_arcname (z_filename (fst item)))))"
  shows "keeps p (plain_zip_extract item dir)"
  unfolding plain_zip_extract_def Let_def
  using assms
  by (intro keeps_bindE keeps_make_upper_dirs keeps_if keeps_raiseE keeps_write_file
        keeps_fun_if keeps_unchanged keeps_os_mkdir) auto

lemma keeps_plain_tar_extract:
  assumes "p \<noteq> rev (dropWhile (\<lambda>c. c = CHR ''/'') (rev (os_path_join dir (t_name (fst item)))))"
    and "p \<notin> set (upper_dirs (rev (dropWhile (\<lambda>c. c = CHR ''/'')
                                   (rev (os_path_join dir (t_name (fst item)))))))"
  shows "keeps p (plain_tar_extract item dir)"
  unfolding plain_tar_extract_def Let_def
  using assms
  by (intro keeps_bindE keeps_make_upper_dirs keeps_if keeps_write_file
        keeps_fun_if keeps_unchanged keeps_os_mkdir keeps_update keeps_chmod) auto

lemma keeps_ZipStripper_item:
  assumes "zip_frame L self [item] p"
  shows "keeps p (ZipStripper_item L self wl bb eb item)"
proof -
  let ?path = "os_path_join (tempdir self) (z_filename (fst item))"
  from assms have ne: "?path \<noteq> p"
    and ex: "keeps p (zip_extract L item (tempdir self))"
    and ch: "\<And>w cfile. create_class_file L ?path False (add2archive self) w = Some cfile
               \<Longrightarrow> keeps p (remove_all cfile)"
    by (auto simp: zip_frame_def)
  show ?thesis
    unfolding ZipStripper_item_def Let_def
    by (intro keeps_bindE ex keeps_fun_if keeps_fun_case_option keeps_if keeps_returnE
          keeps_open_read keeps_logging keeps_handle_read_only ne ch)
qed

lemma keeps_ZipStripper_loop:
  "zip_frame L self items p \<Longrightarrow> keeps p (ZipStripper_loop L self wl bb eb items acc)"
proof (induction items arbitrary: acc)
  case Nil
  show ?case by (simp add: keeps_def)
next
  case (Cons item items)
  from Cons.prems have f1: "zip_frame L self [item] p" and f2: "zip_frame L self items p"
    by (simp_all add: zip_frame_def)
  have k1: "keeps p (ZipStripper_item L self wl bb eb item)"
    by (rule keeps_ZipStripper_item [OF f1])
  show ?case
    unfolding keeps_def
  proof
    fix w
    obtain r w1 where it: "ZipStripper_item L self wl bb eb item w = (r, w1)"
      by (cases "ZipStripper_item L self wl bb eb item w")
    have e1: "files w1 p = files w p" by (rule keepsD [OF k1 it])
    show "files (snd (ZipStripper_loop L self wl bb eb (item # items) acc w)) p = files w p"
      using it e1 Cons.IH [OF f2]
      by (auto simp: keeps_def split: sum.splits option.splits)
  qed
qed

lemma startswith_slash: "startswith b ''/'' \<longleftrightarrow> (b \<noteq> [] \<and> hd b = CHR ''/'')"
  by (cases b) (auto simp: startswith_def)

lemma basename_no_slash: "CHR ''/'' \<notin> set (os_path_basename p)"
  unfolding os_path_basename_def set_rev
  by (metis (mono_tags, lifting) set_takeWhileD)

lemma basename_not_startswith: "\<not> startswith (os_path_basename p) ''/''"
  using basename_no_slash [of p] by (cases "os_path_basename p") (auto simp: startswith_slash)

lemma join_length: "\<not> startswith b ''/'' \<Longrightarrow> length a \<le> length (os_path_join a b)"
  by (simp add: os_path_join_def)

lemma backup_path_longer: "length (filename h) < length (backup_path h)"
  by (simp add: backup_path_def os_path_join_def startswith_def)

lemma backup_targets_ne:
  "backup_path h \<noteq> filename h"
  "os_path_join (backup_path h) (os_path_basename (filename h)) \<noteq> filename h"
  using backup_path_longer [of h]
    join_length [OF basename_not_startswith, of "backup_path h" "filename h"]
  by auto

lemma shutil_move_Inr:
  "shutil_move src dst w = (Inr u, w') \<Longrightarrow>
     \<exists>n. files w src = Some n \<and>
         w' = w\<lparr>files := ((files w)(src := None))
                   ((if os_path_isdir dst w then os_path_join dst (os_path_basename src) else dst) \<mapsto> n)\<rparr>"
  by (auto simp: shutil_move_def Let_def split: option.splits if_splits)

lemma secure_remove_Inr:
  "secure_remove p w = (Inr u, w') \<Longrightarrow> w' = w\<lparr>files := (files w)(p := None)\<rparr>"
  by (auto simp: secure_remove_def split: option.splits node.splits)

lemma do_backup_publishes:
  assumes run: "do_backup h w = (Inr u, w')" and fresh: "output_fresh h"
  shows "files w' (filename h) = files w (output h) \<and> files w (output h) \<noteq> None"
proof -
  from run obtain w1 where
    s1: "(if backup h then shutil_move (filename h) (backup_path h)
          else secure_remove (filename h)) w = (Inr (), w1)"
    and s2: "shutil_move (output h) (filename h) w1 = (Inr u, w')"
    by (auto simp: do_backup_def bindE_Inr_iff)
  have a: "files w1 (filename h) = None \<and> files w1 (output h) = files w (output h)"
  proof (cases "backup h")
    case True
    with s1 have "shutil_move (filename h) (backup_path h) w = (Inr (), w1)" by simp
    from shutil_move_Inr [OF this] show ?thesis
      using fresh backup_targets_ne [of h] by (auto simp: output_fresh_def)
  next
    case False
    with s1 have "secure_remove (filename h) w = (Inr (), w1)" by simp
    from secure_remove_Inr [OF this] show ?thesis
      using fresh by (auto simp: output_fresh_def)
  qed
  then have nd: "\<not> os_path_isdir (filename h) w1" by (simp add: os_path_isdir_def)
  from shutil_move_Inr [OF s2] nd a show ?thesis by auto
qed

lemma logs_only_files: "files (w\<lparr>logs := l\<rparr>) = files w"
  by simp

lemma ZipFile_read_Inr:
  "ZipFile_read p w = (Inr z, w') \<Longrightarrow> \<exists>m. files w p = Some (File (ZipData (fst z) (snd z)) m) \<and> w' = w"
  by (auto simp: ZipFile_read_def split: option.splits node.splits content.splits)

lemma open_write_Inr:
  "open_write p w = (Inr u, w') \<Longrightarrow>
     (\<exists>m. files w' p = Some (File (Raw []) m)) \<and> (\<forall>q. q \<noteq> p \<longrightarrow> files w' q = files w q)"
  by (auto simp: open_write_def split: option.splits node.splits if_splits)

lemma close_write_File:
  "files w p = Some (File c0 m) \<Longrightarrow> close_write p c w = (r, w') \<Longrightarrow>
     r = Inr () \<and> files w' p = Some (File c m)"
  by (auto simp: close_write_def)

lemma logging_log_eq: "logging_log l msg w = (r, w') \<Longrightarrow> r = Inr () \<and> files w' = files w"
  by (auto simp: logging_log_def)

lemma ZipStripper_remove_all_success:
  assumes run: "ZipStripper_remove_all L self wl bb eb w = (Inr b, w')"
    and src: "files w (filename self) = Some (File (ZipData c items) m)"
    and frame: "zip_frame L self items (output self)"
    and fresh: "output_fresh self"
  shows "\<exists>w1 w2 zipout m'.
           open_write (output self) w = (Inr (), w1) \<and>
           ZipStripper_loop L self (default_list wl) (default_list bb) (default_list eb)
             items [] w1 = (Inr zipout, w2) \<and>
           files w' (filename self) = Some (File (ZipData [] zipout) m')"
proof -
  from run obtain zipin w0 w1 zipout w2 w3 w4 u where
    r0: "ZipFile_read (filename self) w = (Inr zipin, w0)"
    and r1: "open_write (output self) w0 = (Inr (), w1)"
    and r2: "ZipStripper_loop L self (default_list wl) (default_list bb) (default_list eb)
               (snd zipin) [] w1 = (Inr zipout, w2)"
    and r3: "close_write (output self) (ZipData [] zipout) w2 = (Inr (), w3)"
    and r4: "logging_log INFO (filename self @ '' processed'') w3 = (Inr (), w4)"
    and r5: "do_backup self w4 = (Inr u, w')"
    unfolding ZipStripper_remove_all_def by (auto simp: bindE_Inr_iff returnE_def)
  from ZipFile_read_Inr [OF r0] src have z: "snd zipin = items" "w0 = w" by auto
  from open_write_Inr [OF r1] obtain mo where o1: "files w1 (output self) = Some (File (Raw []) mo)"
    by auto
  from keepsD [OF keeps_ZipStripper_loop r2] frame z
  have "files w2 (output self) = files w1 (output self)" by simp
  with o1 have o2: "files w2 (output self) = Some (File (Raw []) mo)" by simp
  from close_write_File [OF o2 r3] have o3: "files w3 (output self) = Some (File (ZipData [] zipout) mo)"
    by simp
  from logging_log_eq [OF r4] o3 have o4: "files w4 (output self) = Some (File (ZipData [] zipout) mo)"
    by simp
  from do_backup_publishes [OF r5 fresh] o4
  have "files w' (filename self) = Some (File (ZipData [] zipout) mo)" by simp
  with r1 r2 z show ?thesis by blast
qed

lemma ZipStripper_item_Some:
  assumes "ZipStripper_item L self wl bb eb item w = (Inr (Some e), w')"
  shows "fst e = \<lparr>z_filename = z_filename (fst item), z_date_time = ZIP_EPOCH,
                  z_compress_type = ZIP_DEFLATED, z_create_system = 3, z_comment = []\<rparr>
         \<and> \<not> list_ex (\<lambda>f. startswith (z_filename (fst item)) f) bb
         \<and> \<not> list_ex (\<lambda>f. endswith (z_filename (fst item)) f) eb"
  using assms unfolding ZipStripper_item_def Let_def ZipInfo_def
  by (auto simp: bindE_Inr_iff returnE_def split: if_splits option.splits)

lemma ZipStripper_loop_entries:
  assumes "ZipStripper_loop L self wl bb eb items acc w = (Inr out, w')"
    and "\<And>item w w' e. item \<in> set items \<Longrightarrow>
           ZipStripper_item L self wl bb eb item w = (Inr (Some e), w') \<Longrightarrow> P e"
    and "\<forall>e\<in>set acc. P e"
  shows "\<forall>e\<in>set out. P e"
  using assms
proof (induction items arbitrary: acc w)
  case Nil
  then show ?case by simp
next
  case (Cons item items)
  obtain r w1 where it: "ZipStripper_item L self wl bb eb item w = (r, w1)"
    by (cases "ZipStripper_item L self wl bb eb item w")
  have p2: "\<And>item w w' e. item \<in> set items \<Longrightarrow>
           ZipStripper_item L self wl bb eb item w = (Inr (Some e), w') \<Longrightarrow> P e"
    using Cons.prems(2) by (meson list.set_intros(2))
  show ?case
  proof (cases r)
    case (Inl e)
    with it Cons.prems(1) show ?thesis by simp
  next
    case (Inr x)
    show ?thesis
    proof (cases x)
      case None
      with Inr it Cons.prems(1)
      have "ZipStripper_loop L self wl bb eb items acc w1 = (Inr out, w')" by simp
      from Cons.IH [OF this p2 Cons.prems(3)] show ?thesis .
    next
      case (Some e)
      with Inr it Cons.prems(1)
      have l: "ZipStripper_loop L self wl bb eb items (acc @ [e]) w1 = (Inr out, w')" by simp
      have "P e" using Cons.prems(2) [of item w e w1] it Inr Some by simp
      with Cons.prems(3) have "\<forall>x\<in>set (acc @ [e]). P x" by simp
      from Cons.IH [OF l p2 this] show ?thesis .
    qed
  qed
qed

lemma zip_part:
  assumes run: "ZipStripper_remove_all L self wl bb eb w = (Inr True, w')"
    and src: "files w (filename self) = Some (File (ZipData c items) m)"
    and frame: "zip_frame L self items (output self)"
    and fresh: "output_fresh self"
  shows "\<exists>zipout m'. files w' (filename self) = Some (File (ZipData [] zipout) m') \<and>
           (\<forall>e\<in>set zipout. z_date_time (fst e) = (1980, 1, 1, 0, 0, 0) \<and> z_create_system (fst e) = 3
              \<and> z_comment (fst e) = [] \<and> z_compress_type (fst e) = 8)"
proof -
  from ZipStripper_remove_all_success [OF run src frame fresh] obtain w1 w2 zipout m' where
    l: "ZipStripper_loop L self (default_list wl) (default_list bb) (default_list eb)
             items [] w1 = (Inr zipout, w2)"
    and f: "files w' (filename self) = Some (File (ZipData [] zipout) m')" by blast
  have "\<forall>e\<in>set zipout. z_date_time (fst e) = (1980, 1, 1, 0, 0, 0) \<and> z_create_system (fst e) = 3
              \<and> z_comment (fst e) = [] \<and> z_compress_type (fst e) = 8"
    by (rule ZipStripper_loop_entries [OF l])
       (auto dest!: ZipStripper_item_Some simp: ZIP_EPOCH_def ZIP_DEFLATED_def)
  with f show ?thesis by blast
qed

lemma keeps_gettarinfo: "keeps p (gettarinfo L name arcname)"
  by (auto simp: keeps_def gettarinfo_def split: option.splits node.splits)

lemma keeps_fun_case_sum:
  "(\<And>e. keeps p (a e)) \<Longrightarrow> (\<And>x. keeps p (b x))
     \<Longrightarrow> keeps p (\<lambda>w. case g w of Inl e \<Rightarrow> a e w | Inr x \<Rightarrow> b x w)"
  by (auto simp: keeps_def split: sum.splits)

lemma keeps_const: "keeps p (\<lambda>w. (r, w))"
  by (simp add: keeps_def)

lemma keeps_TarFile_add: "keeps p (TarFile_add L name arcname f tarout)"
  unfolding TarFile_add_def Let_def
  by (intro keeps_bindE keeps_gettarinfo keeps_if keeps_open_read keeps_returnE
        keeps_fun_case_sum keeps_const)

lemma keeps_TarStripper_item:
  assumes "tar_frame L self [item] p"
  shows "keeps p (TarStripper_item L self wl item tarout)"
proof -
  let ?path = "os_path_join (tempdir self) (t_name (fst item))"
  from assms have ne: "?path \<noteq> p"
    and ex: "keeps p (tar_extract L item (tempdir self))"
    and ch: "\<And>w cfile. create_class_file L ?path False (add2archive self) w = Some cfile
               \<Longrightarrow> keeps p (remove_all cfile)"
    by (auto simp: tar_frame_def)
  show ?thesis
    unfolding TarStripper_item_def Let_def
    by (intro keeps_bindE ex keeps_fun_if keeps_fun_case_option keeps_if keeps_returnE
          keeps_logging keeps_handle_read_only keeps_TarFile_add keeps_const ne ch)
qed

lemma keeps_TarStripper_loop:
  "tar_frame L self items p \<Longrightarrow> keeps p (TarStripper_loop L self wl items acc)"
proof (induction items arbitrary: acc)
  case Nil
  show ?case by (simp add: keeps_def)
next
  case (Cons item items)
  from Cons.prems have f1: "tar_frame L self [item] p" and f2: "tar_frame L self items p"
    by (simp_all add: tar_frame_def)
  have k1: "keeps p (TarStripper_item L self wl item acc)"
    by (rule keeps_TarStripper_item [OF f1])
  show ?case
    unfolding keeps_def
  proof
    fix w
    obtain r w1 where it: "TarStripper_item L self wl item acc w = (r, w1)"
      by (cases "TarStripper_item L self wl item acc w")
    have e1: "files w1 p = files w p" by (rule keepsD [OF k1 it])
    show "files (snd (TarStripper_loop L self wl (item # items) acc w)) p = files w p"
      using it e1 Cons.IH [OF f2]
      by (auto simp: keeps_def split: sum.splits)
  qed
qed

lemma TarFile_add_entries:
  assumes "TarFile_add L name arcname f tarout w = (Inr tarout', w')"
  shows "\<exists>new. tarout' = tarout @ new \<and> (\<forall>e\<in>set new. \<exists>t. fst e = f t)"
proof -
  from assms obtain t0 w1 where
    rest: "(if isfile (f t0) then
              bindE (open_read name) (\<lambda>bytes. returnE (tarout @ [(f t0, bytes)]))
            else if isdir (f t0) then
              (\<lambda>w. case add_subtree L name arcname w of
                      Inl e \<Rightarrow> (Inl e, w)
                    | Inr ms \<Rightarrow>
                        (Inr (tarout @ (f t0, Raw []) # map (\<lambda>(t, c). (f t, c)) ms), w))
            else returnE (tarout @ [(f t0, Raw [])])) w1 = (Inr tarout', w')"
    unfolding TarFile_add_def Let_def by (auto simp: bindE_Inr_iff)
  show ?thesis
  proof (cases "isfile (f t0)")
    case True
    with rest obtain bytes where "tarout' = tarout @ [(f t0, bytes)]"
      by (auto simp: bindE_Inr_iff returnE_def)
    then show ?thesis by auto
  next
    case False
    show ?thesis
    proof (cases "isdir (f t0)")
      case True
      with False rest obtain ms where
        "tarout' = tarout @ (f t0, Raw []) # map (\<lambda>(t, c). (f t, c)) ms"
        by (auto split: sum.splits)
      then have "tarout' = tarout @ ((f t0, Raw []) # map (\<lambda>(t, c). (f t, c)) ms)
                 \<and> (\<forall>e\<in>set ((f t0, Raw []) # map (\<lambda>(t, c). (f t, c)) ms). \<exists>t. fst e = f t)"
        by auto
      then show ?thesis by blast
    next
      case nd: False
      with False rest have "tarout' = tarout @ [(f t0, Raw [])]"
        by (auto simp: returnE_def)
      then show ?thesis by auto
    qed
  qed
qed

lemma TarStripper_item_entries:
  assumes "TarStripper_item L self wl item tarout w = (Inr tarout', w')"
  shows "\<exists>new. tarout' = tarout @ new \<and> (\<forall>e\<in>set new. \<exists>t. fst e = remove_tar_added t)"
  using assms unfolding TarStripper_item_def Let_def
  by (auto simp: bindE_Inr_iff returnE_def split: if_splits option.splits
           dest: TarFile_add_entries)

lemma TarStripper_loop_entries:
  assumes "TarStripper_loop L self wl items acc w = (Inr out, w')"
  shows "\<exists>new. out = acc @ new \<and> (\<forall>e\<in>set new. \<exists>t. fst e = remove_tar_added t)"
  using assms
proof (induction items arbitrary: acc w)
  case Nil
  then show ?case by simp
next
  case (Cons item items)
  obtain r w1 where it: "TarStripper_item L self wl item acc w = (r, w1)"
    by (cases "TarStripper_item L self wl item acc w")
  show ?case
  proof (cases r)
    case (Inl e)
    with it Cons.prems show ?thesis by simp
  next
    case (Inr acc1)
    with it Cons.prems have l: "TarStripper_loop L self wl items acc1 w1 = (Inr out, w')" by simp
    from TarStripper_item_entries it Inr obtain n1 where
      n1: "acc1 = acc @ n1" "\<forall>e\<in>set n1. \<exists>t. fst e = remove_tar_added t" by blast
    from Cons.IH [OF l] obtain n2 where
      n2: "out = acc1 @ n2" "\<forall>e\<in>set n2. \<exists>t. fst e = remove_tar_added t" by blast
    from n1 n2 have "out = acc @ (n1 @ n2) \<and> (\<forall>e\<in>set (n1 @ n2). \<exists>t. fst e = remove_tar_added t)"
      by auto
    then show ?thesis by blast
  qed
qed

lemma tarfile_open_read_Inr:
  "tarfile_open_read p cmpr w = (Inr ms, w') \<Longrightarrow>
     \<exists>c m. files w p = Some (File (TarData c ms) m) \<and> w' = w"
  by (auto simp: tarfile_open_read_def split: option.splits node.splits content.splits if_splits)

lemma TarStripper_remove_all_success:
  assumes run: "TarStripper_remove_all L self wl w = (Inr b, w')"
    and src: "files w (filename self) = Some (File (TarData c items) m)"
    and frame: "tar_frame L self items (output self)"
    and fresh: "output_fresh self"
  shows "\<exists>w1 w2 tarout m'.
           open_write (output self) w = (Inr (), w1) \<and>
           TarStripper_loop L self (default_list wl) items [] w1 = (Inr tarout, w2) \<and>
           files w' (filename self) = Some (File (TarData (compression self) tarout) m')"
proof -
  from run obtain tarin w0 w1 tarout w2 w3 u where
    r0: "tarfile_open_read (filename self) (compression self) w = (Inr tarin, w0)"
    and r1: "open_write (output self) w0 = (Inr (), w1)"
    and r2: "TarStripper_loop L self (default_list wl) tarin [] w1 = (Inr tarout, w2)"
    and r3: "close_write (output self) (TarData (compression self) tarout) w2 = (Inr (), w3)"
    and r5: "do_backup self w3 = (Inr u, w')"
    unfolding TarStripper_remove_all_def by (auto simp: bindE_Inr_iff returnE_def)
  from tarfile_open_read_Inr [OF r0] src have z: "tarin = items" "w0 = w" by auto
  from open_write_Inr [OF r1] obtain mo where o1: "files w1 (output self) = Some (File (Raw []) mo)"
    by auto
  from keepsD [OF keeps_TarStripper_loop r2] frame z
  have "files w2 (output self) = files w1 (output self)" by simp
  with o1 have o2: "files w2 (output self) = Some (File (Raw []) mo)" by simp
  from close_write_File [OF o2 r3]
  have o3: "files w3 (output self) = Some (File (TarData (compression self) tarout) mo)"
    by simp
  from do_backup_publishes [OF r5 fresh] o3
  have "files w' (filename self) = Some (File (TarData (compression self) tarout) mo)" by simp
  with r1 r2 z show ?thesis by blast
qed

lemma mode_set_mode: "mode (set_mode m n) = m"
  by (cases n) (simp_all add: set_mode_def)

lemma handle_read_only_Inr:
  assumes "handle_read_only path cfile w = (Inr u, w')" and "files w path = Some n"
  shows "\<exists>k. files w' path = Some k \<and> mode k = mode n"
  using assms unfolding handle_read_only_def
  by (auto simp: bindE_Inr_iff os_stat_st_mode_def os_chmod_def mode_set_mode
           split: option.splits)

lemma open_read_Inr: "open_read p w = (Inr c, w') \<Longrightarrow> w' = w \<and> (\<exists>m. files w p = Some (File c m))"
  by (auto simp: open_read_def split: option.splits node.splits)

lemma logging_log_Inr: "logging_log l msg w = (Inr u, w') \<Longrightarrow> files w' = files w"
  by (auto simp: logging_log_def)

lemma ZipStripper_item_child:
  assumes ex: "zip_extract L item (tempdir self) w = (Inr (), w1)"
    and fa: "create_class_file L (os_path_join (tempdir self) (z_filename (fst item))) False
               (add2archive self) w1 = Some cfile"
    and run: "ZipStripper_item L self wl bb eb item w = (Inr r, w')"
  shows "w' = w1 \<and> r = None \<or>
         (\<exists>w2 w3 bytes. handle_read_only (os_path_join (tempdir self) (z_filename (fst item))) cfile w1
                     = (Inr (), w2) \<and> files w3 = files w2 \<and>
                   open_read (os_path_join (tempdir self) (z_filename (fst item))) w3 = (Inr bytes, w') \<and>
                   r = Some ((ZipInfo (z_filename (fst item)) ZIP_EPOCH)
                     \<lparr>z_compress_type := ZIP_DEFLATED, z_create_system := 3, z_comment := []\<rparr>, bytes))"
  using run ex fa unfolding ZipStripper_item_def Let_def
  by (auto simp: bindE_Inr_iff returnE_def split: if_splits dest!: logging_log_Inr)

lemma open_write_other: "q \<noteq> p \<Longrightarrow> open_write p w = (r, w') \<Longrightarrow> files w' q = files w q"
  by (auto simp: open_write_def split: option.splits node.splits if_splits)

lemma remove_all_never_false:
  "fst (ZipStripper_remove_all L self wl bb eb w) \<noteq> Inr False"
  "fst (TarStripper_remove_all L self twl w) \<noteq> Inr False"
  unfolding ZipStripper_remove_all_def TarStripper_remove_all_def
  by (auto simp: bindE_def returnE_def split: prod.splits sum.splits)

lemma zip_loop_raises:
  assumes src: "files w (filename self) = Some (File (ZipData c items) m)"
    and frame: "zip_frame L self items (filename self)"
    and ne: "output self \<noteq> filename self"
    and ow: "open_write (output self) w = (Inr (), wa)"
    and lp: "ZipStripper_loop L self (default_list wl) (default_list bb) (default_list eb) items [] wa
               = (Inl e, wb)"
  shows "ZipStripper_remove_all L self wl bb eb w = (Inl e, wb) \<and>
         files wb (filename self) = files w (filename self)"
proof -
  have r: "ZipFile_read (filename self) w = (Inr (c, items), w)"
    using src by (simp add: ZipFile_read_def)
  have "ZipStripper_remove_all L self wl bb eb w = (Inl e, wb)"
    unfolding ZipStripper_remove_all_def using r ow lp
    by (simp add: bindE_def)
  moreover have "files wa (filename self) = files w (filename self)"
    using open_write_other [OF _ ow] ne by auto
  moreover have "files wb (filename self) = files wa (filename self)"
    by (rule keepsD [OF keeps_ZipStripper_loop [OF frame] lp])
  ultimately show ?thesis by simp
qed

lemma tar_loop_raises:
  assumes src: "files w (filename self) = Some (File (TarData c items) m)"
    and cm: "compression self = [] \<or> compression self = c"
    and frame: "tar_frame L self items (filename self)"
    and ne: "output self \<noteq> filename self"
    and ow: "open_write (output self) w = (Inr (), wa)"
    and lp: "TarStripper_loop L self (default_list wl) items [] wa = (Inl e, wb)"
  shows "TarStripper_remove_all L self wl w = (Inl e, wb) \<and>
         files wb (filename self) = files w (filename self)"
proof -
  have r: "tarfile_open_read (filename self) (compression self) w = (Inr items, w)"
    using src cm by (auto simp: tarfile_open_read_def)
  have "TarStripper_remove_all L self wl w = (Inl e, wb)"
    unfolding TarStripper_remove_all_def using r ow lp
    by (simp add: bindE_def)
  moreover have "files wa (filename self) = files w (filename self)"
    using open_write_other [OF _ ow] ne by auto
  moreover have "files wb (filename self) = files wa (filename self)"
    by (rule keepsD [OF keeps_TarStripper_loop [OF frame] lp])
  ultimately show ?thesis by simp
qed

lemma ZipStripper_loop_append:
  "ZipStripper_loop L self wl bb eb (pre @ rest) acc w =
     (case ZipStripper_loop L self wl bb eb pre acc w of
        (Inl e, w') \<Rightarrow> (Inl e, w')
      | (Inr acc', w') \<Rightarrow> ZipStripper_loop L self wl bb eb rest acc' w')"
  by (induction pre arbitrary: acc w) (auto split: prod.splits sum.splits option.splits)

lemma TarStripper_loop_append:
  "TarStripper_loop L self wl (pre @ rest) acc w =
     (case TarStripper_loop L self wl pre acc w of
        (Inl e, w') \<Rightarrow> (Inl e, w')
      | (Inr acc', w') \<Rightarrow> TarStripper_loop L self wl rest acc' w')"
  by (induction pre arbitrary: acc w) (auto split: prod.splits sum.splits)

lemma zip_loop_step_raises:
  assumes "ZipStripper_loop L self wl bb eb pre acc w = (Inr zipout, wb)"
    and "ZipStripper_item L self wl bb eb item wb = (Inl e, wc)"
  shows "ZipStripper_loop L self wl bb eb (pre @ item # post) acc w = (Inl e, wc)"
  using assms by (simp add: ZipStripper_loop_append)

lemma tar_loop_step_raises:
  assumes "TarStripper_loop L self wl pre acc w = (Inr tarout, wb)"
    and "TarStripper_item L self wl item tarout wb = (Inl e, wc)"
  shows "TarStripper_loop L self wl (pre @ item # post) acc w = (Inl e, wc)"
  using assms by (simp add: TarStripper_loop_append)

lemma zip_entry_raises:
  assumes src: "files w (filename self) = Some (File (ZipData c (pre @ item # post)) m)"
    and frame: "zip_frame L self (pre @ item # post) (filename self)"
    and ne: "output self \<noteq> filename self"
    and ow: "open_write (output self) w = (Inr (), wa)"
    and lp: "ZipStripper_loop L self (default_list wl) (default_list bb) (default_list eb) pre [] wa
               = (Inr zipout, wb)"
    and ex: "zip_extract L item (tempdir self) wb = (Inl e, wc)"
  shows "ZipStripper_remove_all L self wl bb eb w = (Inl e, wc) \<and>
         files wc (filename self) = files w (filename self)"
proof -
  have "ZipStripper_item L self (default_list wl) (default_list bb) (default_list eb) item wb
          = (Inl e, wc)"
    using ex by (simp add: ZipStripper_item_def bindE_def)
  from zip_loop_step_raises [OF lp this]
  have "ZipStripper_loop L self (default_list wl) (default_list bb) (default_list eb)
          (pre @ item # post) [] wa = (Inl e, wc)" .
  from zip_loop_raises [OF src frame ne ow this] show ?thesis .
qed

lemma tar_entry_raises:
  assumes src: "files w (filename self) = Some (File (TarData c (pre @ item # post)) m)"
    and cm: "compression self = [] \<or> compression self = c"
    and frame: "tar_frame L self (pre @ item # post) (filename self)"
    and ne: "output self \<noteq> filename self"
    and ow: "open_write (output self) w = (Inr (), wa)"
    and lp: "TarStripper_loop L self (default_list wl) pre [] wa = (Inr tarout, wb)"
    and ex: "tar_extract L item (tempdir self) wb = (Inl e, wc)"
  shows "TarStripper_remove_all L self wl w = (Inl e, wc) \<and>
         files wc (filename self) = files w (filename self)"
proof -
  have "TarStripper_item L self (default_list wl) item tarout wb = (Inl e, wc)"
    using ex by (simp add: TarStripper_item_def bindE_def)
  from tar_loop_step_raises [OF lp this]
  have "TarStripper_loop L self (default_list wl) (pre @ item # post) [] wa = (Inl e, wc)" .
  from tar_loop_raises [OF src cm frame ne ow this] show ?thesis .
qed

lemma takeWhile_stop: "\<not> P y \<Longrightarrow> takeWhile P (xs @ y # ys) = takeWhile P xs"
  by (induction xs) simp_all

lemma endswith_slash: "endswith d ''/'' \<Longrightarrow> \<exists>ys. rev d = CHR ''/'' # ys"
proof (induction d rule: rev_induct)
  case Nil
  then show ?case by (simp add: endswith_def)
next
  case (snoc x xs)
  then show ?case by (simp add: endswith_def)
qed

lemma basename_append_slash:
  "os_path_basename (d @ CHR ''/'' # n) = os_path_basename n"
proof -
  have "takeWhile (\<lambda>c. c \<noteq> CHR ''/'') (rev n @ CHR ''/'' # rev d)
        = takeWhile (\<lambda>c. c \<noteq> CHR ''/'') (rev n)"
    by (rule takeWhile_stop) simp
  then show ?thesis by (simp add: os_path_basename_def)
qed

lemma basename_join: "os_path_basename (os_path_join d n) = os_path_basename n"
proof (cases "startswith n ''/''")
  case True
  then show ?thesis by (simp add: os_path_join_def)
next
  case False
  show ?thesis
  proof (cases "d = []")
    case True
    with False show ?thesis by (simp add: os_path_join_def)
  next
    case dn: False
    show ?thesis
    proof (cases "endswith d ''/''")
      case True
      from endswith_slash [OF True] obtain ys where "rev d = CHR ''/'' # ys" by blast
      then have "d = rev ys @ [CHR ''/'']" by (metis rev_rev_ident rev.simps(2))
      then have "d @ n = rev ys @ CHR ''/'' # n" by simp
      then have "os_path_basename (d @ n) = os_path_basename n"
        using basename_append_slash [of "rev ys" n] by simp
      with False True show ?thesis by (simp add: os_path_join_def)
    next
      case ne: False
      have "os_path_join d n = d @ CHR ''/'' # n"
        using False dn ne by (simp add: os_path_join_def)
      then show ?thesis by (simp add: basename_append_slash)
    qed
  qed
qed

lemma splitext_join: "splitext_ext (os_path_join d n) = splitext_ext n"
  by (simp add: splitext_ext_def basename_join)

lemma handle_read_only_raises:
  assumes "files w path = Some n"
    and "remove_all cfile (w\<lparr>files := (files w)(path \<mapsto> set_mode (mode n OR S_IWUSR) n)\<rparr>) = (Inl e, wc)"
  shows "handle_read_only path cfile w = (Inl e, wc)"
  using assms by (simp add: handle_read_only_def bindE_def os_stat_st_mode_def os_chmod_def)

lemma zip_step_child_raises:
  assumes "zip_extract L item (tempdir self) w = (Inr (), wx)"
    and "files wx (os_path_join (tempdir self) (z_filename (fst item))) = Some (File d k)"
    and "\<not> list_ex (\<lambda>f. startswith (z_filename (fst item)) f) bb"
    and "\<not> list_ex (\<lambda>f. endswith (z_filename (fst item)) f) eb"
    and "create_class_file L (os_path_join (tempdir self) (z_filename (fst item))) False
           (add2archive self) wx = Some cfile"
    and "remove_all cfile (wx\<lparr>files := (files wx)(os_path_join (tempdir self) (z_filename (fst item))
                                   \<mapsto> File d (k OR S_IWUSR))\<rparr>) = (Inl e, wc)"
  shows "ZipStripper_item L self wl bb eb item w = (Inl e, wc)"
proof -
  let ?p = "os_path_join (tempdir self) (z_filename (fst item))"
  have "handle_read_only ?p cfile wx = (Inl e, wc)"
    by (rule handle_read_only_raises [OF assms(2)]) (simp add: set_mode_def assms(6))
  with assms(1-5) show ?thesis
    by (simp add: ZipStripper_item_def Let_def bindE_def os_path_isfile_def)
qed

lemma tar_step_child_raises:
  assumes "tar_extract L item (tempdir self) w = (Inr (), wx)" and "isfile (fst item)"
    and "files wx (os_path_join (tempdir self) (t_name (fst item))) = Some (File d k)"
    and "create_class_file L (os_path_join (tempdir self) (t_name (fst item))) False
           (add2archive self) wx = Some cfile"
    and "remove_all cfile (wx\<lparr>files := (files wx)(os_path_join (tempdir self) (t_name (fst item))
                                   \<mapsto> File d (k OR S_IWUSR))\<rparr>) = (Inl e, wc)"
  shows "TarStripper_item L self wl item tarout w = (Inl e, wc)"
proof -
  let ?p = "os_path_join (tempdir self) (t_name (fst item))"
  have "handle_read_only ?p cfile wx = (Inl e, wc)"
    by (rule handle_read_only_raises [OF assms(3)]) (simp add: set_mode_def assms(5))
  with assms(1,2,4) show ?thesis
    by (simp add: TarStripper_item_def Let_def bindE_def)
qed

lemma zip_run_child_raises:
  assumes src: "files w (filename self) = Some (File (ZipData c (pre @ item # post)) m)"
    and ow: "open_write (output self) w = (Inr (), wa)"
    and lp: "ZipStripper_loop L self (default_list wl) (default_list bb) (default_list eb) pre [] wa
               = (Inr zipout, wb)"
    and ex: "zip_extract L item (tempdir self) wb = (Inr (), wx)"
    and fi: "files wx (os_path_join (tempdir self) (z_filename (fst item))) = Some (File d k)"
    and nb: "\<not> list_ex (\<lambda>f. startswith (z_filename (fst item)) f) (default_list bb)"
    and ne: "\<not> list_ex (\<lambda>f. endswith (z_filename (fst item)) f) (default_list eb)"
    and fa: "create_class_file L (os_path_join (tempdir self) (z_filename (fst item))) False
           (add2archive self) wx = Some cfile"
    and ch: "remove_all cfile (wx\<lparr>files := (files wx)(os_path_join (tempdir self) (z_filename (fst item))
                                   \<mapsto> File d (k OR S_IWUSR))\<rparr>) = (Inl e, wc)"
  shows "ZipStripper_remove_all L self wl bb eb w = (Inl e, wc)"
proof -
  have r: "ZipFile_read (filename self) w = (Inr (c, pre @ item # post), w)"
    using src by (simp add: ZipFile_read_def)
  from zip_loop_step_raises [OF lp zip_step_child_raises [OF ex fi nb ne fa ch]]
  have "ZipStripper_loop L self (default_list wl) (default_list bb) (default_list eb)
          (pre @ item # post) [] wa = (Inl e, wc)" .
  with r ow show ?thesis
    by (simp add: ZipStripper_remove_all_def bindE_def)
qed

lemma tar_run_child_raises:
  assumes src: "files w (filename self) = Some (File (TarData c (pre @ item # post)) m)"
    and cm: "compression self = [] \<or> compression self = c"
    and ow: "open_write (output self) w = (Inr (), wa)"
    and lp: "TarStripper_loop L self (default_list wl) pre [] wa = (Inr tarout, wb)"
    and ex: "tar_extract L item (tempdir self) wb = (Inr (), wx)" and isf: "isfile (fst item)"
    and fi: "files wx (os_path_join (tempdir self) (t_name (fst item))) = Some (File d k)"
    and fa: "create_class_file L (os_path_join (tempdir self) (t_name (fst item))) False
           (add2archive self) wx = Some cfile"
    and ch: "remove_all cfile (wx\<lparr>files := (files wx)(os_path_join (tempdir self) (t_name (fst item))
                                   \<mapsto> File d (k OR S_IWUSR))\<rparr>) = (Inl e, wc)"
  shows "TarStripper_remove_all L self wl w = (Inl e, wc)"
proof -
  have r: "tarfile_open_read (filename self) (compression self) w = (Inr (pre @ item # post), w)"
    using src cm by (auto simp: tarfile_open_read_def)
  from tar_loop_step_raises [OF lp tar_step_child_raises [OF ex isf fi fa ch]]
  have "TarStripper_loop L self (default_list wl) (pre @ item # post) [] wa = (Inl e, wc)" .
  with r ow show ?thesis
    by (simp add: TarStripper_remove_all_def bindE_def)
qed

lemma ZipStripper_loop_trace:
  assumes "ZipStripper_loop L self wl bb eb items acc w = (Inr out, w')"
  shows "\<exists>rs ws. length rs = length items \<and> length ws = Suc (length items) \<and> ws ! 0 = w \<and>
           out = acc @ concat (map (\<lambda>r. case r of None \<Rightarrow> [] | Some e \<Rightarrow> [e]) rs) \<and>
           (\<forall>i<length items. ZipStripper_item L self wl bb eb (items ! i) (ws ! i)
                                = (Inr (rs ! i), ws ! Suc i))"
  using assms
proof (induction items arbitrary: acc w)
  case Nil
  then show ?case by (intro exI [of _ "[]"] exI [of _ "[w]"]) simp
next
  case (Cons item items)
  from Cons.prems obtain r wa where
    st: "ZipStripper_item L self wl bb eb item w = (Inr r, wa)"
    and lp: "ZipStripper_loop L self wl bb eb items
               (acc @ (case r of None \<Rightarrow> [] | Some e \<Rightarrow> [e])) wa = (Inr out, w')"
    by (auto split: prod.splits sum.splits option.splits)
  from Cons.IH [OF lp] obtain rs ws where
    t: "length rs = length items" "length ws = Suc (length items)" "ws ! 0 = wa"
       "out = (acc @ (case r of None \<Rightarrow> [] | Some e \<Rightarrow> [e]))
                @ concat (map (\<lambda>r. case r of None \<Rightarrow> [] | Some e \<Rightarrow> [e]) rs)"
       "\<forall>i<length items. ZipStripper_item L self wl bb eb (items ! i) (ws ! i)
                                = (Inr (rs ! i), ws ! Suc i)"
    by blast
  have "\<forall>i<length (item # items).
          ZipStripper_item L self wl bb eb ((item # items) ! i) ((w # ws) ! i)
            = (Inr ((r # rs) ! i), (w # ws) ! Suc i)"
  proof (intro allI impI)
    fix i assume i: "i < length (item # items)"
    show "ZipStripper_item L self wl bb eb ((item # items) ! i) ((w # ws) ! i)
            = (Inr ((r # rs) ! i), (w # ws) ! Suc i)"
    proof (cases i)
      case 0
      with st t(3) show ?thesis by simp
    next
      case (Suc j)
      with i t(5) show ?thesis by simp
    qed
  qed
  with t(1,2,4) show ?case
    by (intro exI [of _ "r # rs"] exI [of _ "w # ws"]) simp
qed

lemma ZipStripper_item_policy:
  assumes "ZipStripper_item L self wl bb eb item w = (Inr r, w')"
  shows "\<exists>zx. zip_extract L item (tempdir self) w = (Inr (), zx) \<and>
           (\<forall>e. r = Some e \<longrightarrow>
              z_filename (fst e) = z_filename (fst item) \<and>
              os_path_isfile (os_path_join (tempdir self) (z_filename (fst item))) zx \<and>
              \<not> list_ex (\<lambda>f. startswith (z_filename (fst item)) f) bb \<and>
              \<not> list_ex (\<lambda>f. endswith (z_filename (fst item)) f) eb) \<and>
           (os_path_isfile (os_path_join (tempdir self) (z_filename (fst item))) zx \<and>
            \<not> list_ex (\<lambda>f. startswith (z_filename (fst item)) f) bb \<and>
            \<not> list_ex (\<lambda>f. endswith (z_filename (fst item)) f) eb \<and>
            create_class_file L (os_path_join (tempdir self) (z_filename (fst item))) False
              (add2archive self) zx = None
            \<longrightarrow> (r \<noteq> None)
                  = (z_filename (fst item) \<in> set wl \<or> splitext_ext (z_filename (fst item)) \<in> NOMETA
                     \<or> add2archive self))"
proof -
  from assms obtain zx where
    ex: "zip_extract L item (tempdir self) w = (Inr (), zx)"
    unfolding ZipStripper_item_def by (auto simp: bindE_Inr_iff)
  with assms show ?thesis
    unfolding ZipStripper_item_def Let_def ZipInfo_def
    by (auto simp: bindE_def returnE_def logging_log_def splitext_join
          split: if_splits option.splits prod.splits sum.splits)
qed

section \<open>Envelope normalisation\<close>

text \<open>
  Claim C1. After a successful \<^verbatim>\<open>remove_all\<close> on a ZIP archive, the file at the
  source path is an archive without comment whose every entry has modification date
  1980-01-01 00:00:00, host system 3 (UNIX), an empty comment and DEFLATE compression;
  after a successful \<^verbatim>\<open>remove_all\<close> on a TAR archive, every member of the archive at
  the source path has mtime, uid and gid 0 and empty uname and gname. The extraction and
  the child strippers are assumed to leave the fresh output file alone.
\<close>

theorem envelope_normalization:
  "(ZipStripper_remove_all L self wl bb eb w = (Inr True, w') \<and>
    files w (filename self) = Some (File (ZipData c items) m) \<and>
    zip_frame L self items (output self) \<and> output_fresh self
    \<longrightarrow> (\<exists>zipout m'. files w' (filename self) = Some (File (ZipData [] zipout) m') \<and>
           (\<forall>e\<in>set zipout. z_date_time (fst e) = (1980, 1, 1, 0, 0, 0) \<and>
              z_create_system (fst e) = 3 \<and> z_comment (fst e) = [] \<and>
              z_compress_type (fst e) = ZIP_DEFLATED)))
   \<and>
   (TarStripper_remove_all tL tself twl tw = (Inr True, tw') \<and>
    files tw (filename tself) = Some (File (TarData tc titems) tm) \<and>
    tar_frame tL tself titems (output tself) \<and> output_fresh tself
    \<longrightarrow> (\<exists>tarout m'. files tw' (filename tself) = Some (File (TarData (compression tself) tarout) m') \<and>
           (\<forall>e\<in>set tarout. t_mtime (fst e) = 0 \<and> t_uid (fst e) = 0 \<and> t_gid (fst e) = 0 \<and>
              t_uname (fst e) = [] \<and> t_gname (fst e) = [])))"
proof (intro conjI impI)
  assume a: "ZipStripper_remove_all L self wl bb eb w = (Inr True, w') \<and>
    files w (filename self) = Some (File (ZipData c items) m) \<and>
    zip_frame L self items (output self) \<and> output_fresh self"
  then have "\<exists>zipout m'. files w' (filename self) = Some (File (ZipData [] zipout) m') \<and>
           (\<forall>e\<in>set zipout. z_date_time (fst e) = (1980, 1, 1, 0, 0, 0) \<and> z_create_system (fst e) = 3
              \<and> z_comment (fst e) = [] \<and> z_compress_type (fst e) = 8)"
    by (intro zip_part) auto
  then show "\<exists>zipout m'. files w' (filename self) = Some (File (ZipData [] zipout) m') \<and>
           (\<forall>e\<in>set zipout. z_date_time (fst e) = (1980, 1, 1, 0, 0, 0) \<and>
              z_create_system (fst e) = 3 \<and> z_comment (fst e) = [] \<and>
              z_compress_type (fst e) = ZIP_DEFLATED)"
    by (simp add: ZIP_DEFLATED_def)
next
  assume a: "TarStripper_remove_all tL tself twl tw = (Inr True, tw') \<and>
    files tw (filename tself) = Some (File (TarData tc titems) tm) \<and>
    tar_frame tL tself titems (output tself) \<and> output_fresh tself"
  then obtain w1 w2 tarout m' where
    l: "TarStripper_loop tL tself (default_list twl) titems [] w1 = (Inr tarout, w2)"
    and f: "files tw' (filename tself) = Some (File (TarData (compression tself) tarout) m')"
    using TarStripper_remove_all_success [of tL tself twl tw True tw' tc titems tm] by blast
  from TarStripper_loop_entries [OF l]
  have "\<forall>e\<in>set tarout. \<exists>t. fst e = remove_tar_added t" by simp
  then have "\<forall>e\<in>set tarout. t_mtime (fst e) = 0 \<and> t_uid (fst e) = 0 \<and> t_gid (fst e) = 0 \<and>
              t_uname (fst e) = [] \<and> t_gname (fst e) = []"
    by (auto simp: remove_tar_added_def)
  with f show "\<exists>tarout m'. files tw' (filename tself) = Some (File (TarData (compression tself) tarout) m') \<and>
           (\<forall>e\<in>set tarout. t_mtime (fst e) = 0 \<and> t_uid (fst e) = 0 \<and> t_gid (fst e) = 0 \<and>
              t_uname (fst e) = [] \<and> t_gname (fst e) = [])" by blast
qed

theorem envelope_normalization_witness:
  "(\<exists>zipout m'. files (snd (ZipStripper_remove_all (plain_lib ex_factory) (ex_handle ''/home/u/a.zip'')
         None None None (ex_world ''/home/u/a.zip'' (ZipData ''hello'' ex_zip_items)))) ''/home/u/a.zip''
        = Some (File (ZipData [] zipout) m') \<and> length zipout = 2 \<and>
        (\<forall>e\<in>set zipout. z_date_time (fst e) = (1980, 1, 1, 0, 0, 0) \<and>
              z_create_system (fst e) = 3 \<and> z_comment (fst e) = [] \<and>
              z_compress_type (fst e) = ZIP_DEFLATED))
   \<and> (\<exists>tarout m'. files (snd (TarStripper_remove_all (plain_lib ex_factory) (ex_handle ''/home/u/a.tar'')
         None (ex_world ''/home/u/a.tar'' (TarData [] ex_tar_items)))) ''/home/u/a.tar''
        = Some (File (TarData [] tarout) m') \<and> length tarout = 2 \<and>
        (\<forall>e\<in>set tarout. t_mtime (fst e) = 0 \<and> t_uid (fst e) = 0 \<and> t_gid (fst e) = 0 \<and>
              t_uname (fst e) = [] \<and> t_gname (fst e) = []))"
proof -
  let ?zw = "ex_world ''/home/u/a.zip'' (ZipData ''hello'' ex_zip_items)"
  let ?zh = "ex_handle ''/home/u/a.zip''"
  let ?tw = "ex_world ''/home/u/a.tar'' (TarData [] ex_tar_items)"
  let ?th = "ex_handle ''/home/u/a.tar''"
  let ?L = "plain_lib ex_factory"
  have z1: "fst (ZipStripper_remove_all ?L ?zh None None None ?zw) = Inr True"
    by (simp add: ex_defs run_defs)
  have z2: "files ?zw (filename ?zh) = Some (File (ZipData ''hello'' ex_zip_items) 420)"
    by (simp add: ex_world_def ex_handle_def)
  have z3: "zip_frame ?L ?zh ex_zip_items (output ?zh)"
    by (simp add: zip_frame_def frame_defs path_defs keeps_plain_zip_extract keeps_update)
  have z4: "output_fresh ?zh"
    by (simp add: output_fresh_def ex_handle_def backup_path_def path_defs)
  have t1: "fst (TarStripper_remove_all ?L ?th None ?tw) = Inr True"
    by (simp add: ex_defs run_defs)
  have t2: "files ?tw (filename ?th) = Some (File (TarData [] ex_tar_items) 420)"
    by (simp add: ex_world_def ex_handle_def)
  have t3: "tar_frame ?L ?th ex_tar_items (output ?th)"
    by (simp add: tar_frame_def frame_defs path_defs keeps_plain_tar_extract keeps_update)
  have t4: "output_fresh ?th"
    by (simp add: output_fresh_def ex_handle_def backup_path_def path_defs)
  have zl: "length (case files (snd (ZipStripper_remove_all ?L ?zh None None None ?zw)) ''/home/u/a.zip'' of
              Some (File (ZipData c es) m) \<Rightarrow> es | _ \<Rightarrow> []) = 2"
    by (simp add: ex_defs run_defs)
  have tl: "length (case files (snd (TarStripper_remove_all ?L ?th None ?tw)) ''/home/u/a.tar'' of
              Some (File (TarData c es) m) \<Rightarrow> es | _ \<Rightarrow> []) = 2"
    by (simp add: ex_defs run_defs)
  from envelope_normalization [of ?L ?zh None None None ?zw
      "snd (ZipStripper_remove_all ?L ?zh None None None ?zw)" "''hello''" ex_zip_items 420
      ?L ?th None ?tw "snd (TarStripper_remove_all ?L ?th None ?tw)" "[]" ex_tar_items 420]
    z1 z2 z3 z4 t1 t2 t3 t4 zl tl
  show ?thesis
    by (auto simp: prod_eq_iff ex_handle_def)
qed

section \<open>Backup\<close>

text \<open>
  Claim C6. With \<open>backup\<close> set, the original is to be renamed to the source path with
  \<^verbatim>\<open>.bak\<close> appended. \<^verbatim>\<open>do_backup\<close> computes \<^verbatim>\<open>os.path.join(filename, '.bak')\<close>
  instead, a path below the source file: for the source \<^verbatim>\<open>/home/u/a.zip\<close> the move
  to \<^verbatim>\<open>/home/u/a.zip/.bak\<close> raises, \<^verbatim>\<open>remove_all\<close> raises with it, nothing is at
  \<^verbatim>\<open>/home/u/a.zip.bak\<close> and the source is not replaced.
\<close>

theorem backup_below_source:
  "backup_path (ex_handle ''/home/u/a.zip'') = ''/home/u/a.zip/.bak'' \<and>
   fst (ZipStripper_remove_all (plain_lib ex_factory) ((ex_handle ''/home/u/a.zip'')\<lparr>backup := True\<rparr>)
          None None None (ex_world ''/home/u/a.zip'' (ZipData ''hello'' ex_zip_items))) = Inl IOError \<and>
   files (snd (ZipStripper_remove_all (plain_lib ex_factory) ((ex_handle ''/home/u/a.zip'')\<lparr>backup := True\<rparr>)
          None None None (ex_world ''/home/u/a.zip'' (ZipData ''hello'' ex_zip_items)))) ''/home/u/a.zip.bak'' = None \<and>
   files (snd (ZipStripper_remove_all (plain_lib ex_factory) ((ex_handle ''/home/u/a.zip'')\<lparr>backup := True\<rparr>)
          None None None (ex_world ''/home/u/a.zip'' (ZipData ''hello'' ex_zip_items)))) ''/home/u/a.zip''
     = Some (File (ZipData ''hello'' ex_zip_items) 420)"
  by (simp add: ex_defs run_defs)

section \<open>Entries that are not regular files\<close>




text \<open>
  Claim C7, amended. In a TAR \<^verbatim>\<open>remove_all\<close>, only members for which \<^verbatim>\<open>isfile()\<close>
  holds are given to a child stripper, and only they are added to the output: for any
  other member the step is the extraction alone, whatever the factory would return, and
  \<^verbatim>\<open>tarout\<close> is unchanged.
\<close>

theorem tar_only_files_added:
  "\<not> isfile (fst item) \<longrightarrow>
     TarStripper_item (L\<lparr>create_class_file := factory\<rparr>) self wl item tarout w
       = (case tar_extract L item (tempdir self) w of
            (Inl e, w1) \<Rightarrow> (Inl e, w1)
          | (Inr u, w1) \<Rightarrow> (Inr tarout, w1))"
  by (simp add: TarStripper_item_def bindE_def returnE_def split: prod.splits sum.splits)

theorem tar_only_files_added_witness:
  "TarStripper_item ((plain_lib ex_factory)\<lparr>create_class_file := suffix_factory ''.zip'' (\<lambda>p. failing_stripper)\<rparr>)
      (ex_handle ''/home/u/a.tar'') [''d''] (ex_tarinfo ''d'' DIRTYPE, Raw []) []
      (ex_world ''/home/u/a.tar'' (TarData [] ex_tar_items))
    = (Inr [], (ex_world ''/home/u/a.tar'' (TarData [] ex_tar_items))
                   \<lparr>files := (files (ex_world ''/home/u/a.tar'' (TarData [] ex_tar_items)))
                                (''/tmp/d/d'' \<mapsto> Dir 493)\<rparr>)"
proof -
  let ?tw = "ex_world ''/home/u/a.tar'' (TarData [] ex_tar_items)"
  let ?th = "ex_handle ''/home/u/a.tar''"
  let ?L = "plain_lib ex_factory"
  have t1: "tar_extract ?L (ex_tarinfo ''d'' DIRTYPE, Raw []) (tempdir ?th) ?tw
            = (Inr (), ?tw\<lparr>files := (files ?tw)(''/tmp/d/d'' \<mapsto> Dir 493)\<rparr>)"
    by (simp add: ex_defs path_defs isfile_def isdir_def)
  have t2: "\<not> isfile (fst (ex_tarinfo ''d'' DIRTYPE, Raw []))"
    by (simp add: ex_defs isfile_def)
  from tar_only_files_added [where item = "(ex_tarinfo ''d'' DIRTYPE, Raw [])" and L = ?L
         and factory = "suffix_factory ''.zip'' (\<lambda>p. failing_stripper)" and self = ?th and wl = "[''d'']"
         and tarout = "[]" and w = ?tw] t1 t2
  show ?thesis by simp
qed

text \<open>
  The claim as stated has directories added again. An archive with the directory
  \<^verbatim>\<open>d\<close> and the file \<^verbatim>\<open>d/a.txt\<close> is rebuilt with the file alone.
\<close>

theorem tar_directory_counterexample:
  "files (snd (TarStripper_remove_all (plain_lib ex_factory) (ex_handle ''/home/u/a.tar'') None
        (ex_world ''/home/u/a.tar''
           (TarData [] [(ex_tarinfo ''d'' DIRTYPE, Raw []), (ex_tarinfo ''d/a.txt'' REGTYPE, Raw ''abc'')]))))
     ''/home/u/a.tar''
   = Some (File (TarData []
        [(\<lparr>t_name = ''d/a.txt'', t_type = REGTYPE, t_mode = 292, t_mtime = 0, t_uid = 0, t_gid = 0,
           t_uname = [], t_gname = []\<rparr>, Raw ''abc'')]) 384)"
  by (simp add: ex_defs run_defs)

section \<open>Write permission of extracted entries\<close>

text \<open>
  Claim C9, amended. For an entry handled by a child stripper, the child runs on the
  extracted file with the owner-write bit added to its mode, and when the child's
  \<^verbatim>\<open>remove_all\<close> returns, true or false, the mode is set back: after the step of the ZIP
  or of the TAR engine the file at the extracted path has the mode it had after extraction.
  When the child's \<^verbatim>\<open>remove_all\<close> raises, whatever the exception, nothing is set back:
  the exception leaves \<^verbatim>\<open>handle_read_only\<close>, the step of either engine and, wherever the
  entry stands in the archive, the engine's \<^verbatim>\<open>remove_all\<close>, in the very world the child
  left, which it entered with the owner-write bit added to the mode of the extracted file.
\<close>

theorem mode_restored_on_return:
  "(files w path = Some n \<and>
    remove_all cfile (w\<lparr>files := (files w)(path \<mapsto> set_mode (mode n OR S_IWUSR) n)\<rparr>) = (Inr b, wc) \<and>
    files wc path = Some n'
    \<longrightarrow> handle_read_only path cfile w
          = (Inr (), wc\<lparr>files := (files wc)(path \<mapsto> set_mode (mode n) n')\<rparr>))
   \<and>
   (zip_extract L item (tempdir self) zw = (Inr (), zx) \<and>
    files zx (os_path_join (tempdir self) (z_filename (fst item))) = Some zn \<and>
    create_class_file L (os_path_join (tempdir self) (z_filename (fst item))) False (add2archive self) zx
      = Some zc \<and>
    ZipStripper_item L self wl bb eb item zw = (Inr r, zw')
    \<longrightarrow> (\<exists>k. files zw' (os_path_join (tempdir self) (z_filename (fst item))) = Some k \<and> mode k = mode zn))
   \<and>
   (tar_extract L titem (tempdir self) tw = (Inr (), tx) \<and> isfile (fst titem) \<and>
    files tx (os_path_join (tempdir self) (t_name (fst titem))) = Some tn \<and>
    create_class_file L (os_path_join (tempdir self) (t_name (fst titem))) False (add2archive self) tx
      = Some tc \<and>
    TarStripper_item L self twl titem tarout tw = (Inr tr, tw')
    \<longrightarrow> (\<exists>k. files tw' (os_path_join (tempdir self) (t_name (fst titem))) = Some k \<and> mode k = mode tn))
   \<and>
   (files rw rpath = Some rn \<and>
    remove_all rcfile (rw\<lparr>files := (files rw)(rpath \<mapsto> set_mode (mode rn OR S_IWUSR) rn)\<rparr>)
      = (Inl e, rc)
    \<longrightarrow> handle_read_only rpath rcfile rw = (Inl e, rc))
   \<and>
   (zip_extract L ritem (tempdir self) rzw = (Inr (), rzx) \<and>
    files rzx (os_path_join (tempdir self) (z_filename (fst ritem))) = Some (File rd rk) \<and>
    \<not> list_ex (\<lambda>f. startswith (z_filename (fst ritem)) f) (default_list ubb) \<and>
    \<not> list_ex (\<lambda>f. endswith (z_filename (fst ritem)) f) (default_list ueb) \<and>
    create_class_file L (os_path_join (tempdir self) (z_filename (fst ritem))) False (add2archive self) rzx = Some rzc \<and>
    remove_all rzc (rzx\<lparr>files := (files rzx)(os_path_join (tempdir self) (z_filename (fst ritem)) \<mapsto> File rd (rk OR S_IWUSR))\<rparr>)
      = (Inl ze, zrc)
    \<longrightarrow> ZipStripper_item L self (default_list uwl) (default_list ubb) (default_list ueb) ritem rzw
          = (Inl ze, zrc))
   \<and>
   (tar_extract L sitem (tempdir self) stw = (Inr (), stx) \<and> isfile (fst sitem) \<and>
    files stx (os_path_join (tempdir self) (t_name (fst sitem))) = Some (File sd sk) \<and>
    create_class_file L (os_path_join (tempdir self) (t_name (fst sitem))) False (add2archive self) stx = Some stc \<and>
    remove_all stc (stx\<lparr>files := (files stx)(os_path_join (tempdir self) (t_name (fst sitem)) \<mapsto> File sd (sk OR S_IWUSR))\<rparr>)
      = (Inl te, trc)
    \<longrightarrow> TarStripper_item L self (default_list vwl) sitem sout stw = (Inl te, trc))
   \<and>
   (files uw (filename self) = Some (File (ZipData uc (upre @ ritem # upost)) um) \<and>
    open_write (output self) uw = (Inr (), ua) \<and>
    ZipStripper_loop L self (default_list uwl) (default_list ubb) (default_list ueb) upre [] ua
      = (Inr uout, rzw) \<and>
    zip_extract L ritem (tempdir self) rzw = (Inr (), rzx) \<and>
    files rzx (os_path_join (tempdir self) (z_filename (fst ritem))) = Some (File rd rk) \<and>
    \<not> list_ex (\<lambda>f. startswith (z_filename (fst ritem)) f) (default_list ubb) \<and>
    \<not> list_ex (\<lambda>f. endswith (z_filename (fst ritem)) f) (default_list ueb) \<and>
    create_class_file L (os_path_join (tempdir self) (z_filename (fst ritem))) False (add2archive self) rzx = Some rzc \<and>
    remove_all rzc (rzx\<lparr>files := (files rzx)(os_path_join (tempdir self) (z_filename (fst ritem)) \<mapsto> File rd (rk OR S_IWUSR))\<rparr>)
      = (Inl ze, zrc)
    \<longrightarrow> ZipStripper_remove_all L self uwl ubb ueb uw = (Inl ze, zrc))
   \<and>
   (files vw (filename self) = Some (File (TarData vc (vpre @ sitem # vpost)) vm) \<and>
    (compression self = [] \<or> compression self = vc) \<and>
    open_write (output self) vw = (Inr (), va) \<and>
    TarStripper_loop L self (default_list vwl) vpre [] va = (Inr sout, stw) \<and>
    tar_extract L sitem (tempdir self) stw = (Inr (), stx) \<and> isfile (fst sitem) \<and>
    files stx (os_path_join (tempdir self) (t_name (fst sitem))) = Some (File sd sk) \<and>
    create_class_file L (os_path_join (tempdir self) (t_name (fst sitem))) False (add2archive self) stx = Some stc \<and>
    remove_all stc (stx\<lparr>files := (files stx)(os_path_join (tempdir self) (t_name (fst sitem)) \<mapsto> File sd (sk OR S_IWUSR))\<rparr>)
      = (Inl te, trc)
    \<longrightarrow> TarStripper_remove_all L self vwl vw = (Inl te, trc))"
proof (intro conjI impI)
  assume a: "files w path = Some n \<and>
    remove_all cfile (w\<lparr>files := (files w)(path \<mapsto> set_mode (mode n OR S_IWUSR) n)\<rparr>) = (Inr b, wc) \<and>
    files wc path = Some n'"
  then show "handle_read_only path cfile w
          = (Inr (), wc\<lparr>files := (files wc)(path \<mapsto> set_mode (mode n) n')\<rparr>)"
    by (simp add: handle_read_only_def bindE_def os_stat_st_mode_def os_chmod_def)
next
  let ?p = "os_path_join (tempdir self) (z_filename (fst item))"
  assume a: "zip_extract L item (tempdir self) zw = (Inr (), zx) \<and>
    files zx ?p = Some zn \<and>
    create_class_file L ?p False (add2archive self) zx = Some zc \<and>
    ZipStripper_item L self wl bb eb item zw = (Inr r, zw')"
  from ZipStripper_item_child [of L item self zw zx zc wl bb eb r zw'] a
  consider "zw' = zx" | w2 w3 bytes where
      "handle_read_only ?p zc zx = (Inr (), w2)" "files w3 = files w2"
      "open_read ?p w3 = (Inr bytes, zw')"
    by blast
  then show "\<exists>k. files zw' ?p = Some k \<and> mode k = mode zn"
  proof cases
    case 1
    with a show ?thesis by simp
  next
    case 2
    from handle_read_only_Inr [OF 2(1)] a obtain k where "files w2 ?p = Some k" "mode k = mode zn"
      by blast
    with 2(2) open_read_Inr [OF 2(3)] show ?thesis by auto
  qed
next
  let ?p = "os_path_join (tempdir self) (t_name (fst titem))"
  assume a: "tar_extract L titem (tempdir self) tw = (Inr (), tx) \<and> isfile (fst titem) \<and>
    files tx ?p = Some tn \<and>
    create_class_file L ?p False (add2archive self) tx = Some tc \<and>
    TarStripper_item L self twl titem tarout tw = (Inr tr, tw')"
  then obtain w2 where h: "handle_read_only ?p tc tx = (Inr (), w2)"
    and ad: "(if utf8_decodable L ?p \<and> utf8_decodable L (t_name (fst titem))
              then TarFile_add L ?p (t_name (fst titem)) remove_tar_added tarout w2
              else (Inl UnicodeDecodeError, w2)) = (Inr tr, tw')"
    unfolding TarStripper_item_def Let_def by (auto simp: bindE_Inr_iff)
  from handle_read_only_Inr [OF h] a obtain k where k: "files w2 ?p = Some k" "mode k = mode tn"
    by blast
  from ad have "TarFile_add L ?p (t_name (fst titem)) remove_tar_added tarout w2 = (Inr tr, tw')"
    by (auto split: if_splits)
  from keepsD [OF keeps_TarFile_add this] k
  show "\<exists>k. files tw' ?p = Some k \<and> mode k = mode tn" by simp
next
  assume "files rw rpath = Some rn \<and>
    remove_all rcfile (rw\<lparr>files := (files rw)(rpath \<mapsto> set_mode (mode rn OR S_IWUSR) rn)\<rparr>)
      = (Inl e, rc)"
  then show "handle_read_only rpath rcfile rw = (Inl e, rc)"
    by (intro handle_read_only_raises) auto
next
  assume "zip_extract L ritem (tempdir self) rzw = (Inr (), rzx) \<and>
    files rzx (os_path_join (tempdir self) (z_filename (fst ritem))) = Some (File rd rk) \<and>
    \<not> list_ex (\<lambda>f. startswith (z_filename (fst ritem)) f) (default_list ubb) \<and>
    \<not> list_ex (\<lambda>f. endswith (z_filename (fst ritem)) f) (default_list ueb) \<and>
    create_class_file L (os_path_join (tempdir self) (z_filename (fst ritem))) False (add2archive self) rzx = Some rzc \<and>
    remove_all rzc (rzx\<lparr>files := (files rzx)(os_path_join (tempdir self) (z_filename (fst ritem)) \<mapsto> File rd (rk OR S_IWUSR))\<rparr>)
      = (Inl ze, zrc)"
  then show "ZipStripper_item L self (default_list uwl) (default_list ubb) (default_list ueb) ritem rzw
          = (Inl ze, zrc)"
    by (intro zip_step_child_raises) auto
next
  assume "tar_extract L sitem (tempdir self) stw = (Inr (), stx) \<and> isfile (fst sitem) \<and>
    files stx (os_path_join (tempdir self) (t_name (fst sitem))) = Some (File sd sk) \<and>
    create_class_file L (os_path_join (tempdir self) (t_name (fst sitem))) False (add2archive self) stx = Some stc \<and>
    remove_all stc (stx\<lparr>files := (files stx)(os_path_join (tempdir self) (t_name (fst sitem)) \<mapsto> File sd (sk OR S_IWUSR))\<rparr>)
      = (Inl te, trc)"
  then show "TarStripper_item L self (default_list vwl) sitem sout stw = (Inl te, trc)"
    by (intro tar_step_child_raises) auto
next
  assume "files uw (filename self) = Some (File (ZipData uc (upre @ ritem # upost)) um) \<and>
    open_write (output self) uw = (Inr (), ua) \<and>
    ZipStripper_loop L self (default_list uwl) (default_list ubb) (default_list ueb) upre [] ua
      = (Inr uout, rzw) \<and>
    zip_extract L ritem (tempdir self) rzw = (Inr (), rzx) \<and>
    files rzx (os_path_join (tempdir self) (z_filename (fst ritem))) = Some (File rd rk) \<and>
    \<not> list_ex (\<lambda>f. startswith (z_filename (fst ritem)) f) (default_list ubb) \<and>
    \<not> list_ex (\<lambda>f. endswith (z_filename (fst ritem)) f) (default_list ueb) \<and>
    create_class_file L (os_path_join (tempdir self) (z_filename (fst ritem))) False (add2archive self) rzx = Some rzc \<and>
    remove_all rzc (rzx\<lparr>files := (files rzx)(os_path_join (tempdir self) (z_filename (fst ritem)) \<mapsto> File rd (rk OR S_IWUSR))\<rparr>)
      = (Inl ze, zrc)"
  then show "ZipStripper_remove_all L self uwl ubb ueb uw = (Inl ze, zrc)"
    by (intro zip_run_child_raises) auto
next
  assume "files vw (filename self) = Some (File (TarData vc (vpre @ sitem # vpost)) vm) \<and>
    (compression self = [] \<or> compression self = vc) \<and>
    open_write (output self) vw = (Inr (), va) \<and>
    TarStripper_loop L self (default_list vwl) vpre [] va = (Inr sout, stw) \<and>
    tar_extract L sitem (tempdir self) stw = (Inr (), stx) \<and> isfile (fst sitem) \<and>
    files stx (os_path_join (tempdir self) (t_name (fst sitem))) = Some (File sd sk) \<and>
    create_class_file L (os_path_join (tempdir self) (t_name (fst sitem))) False (add2archive self) stx = Some stc \<and>
    remove_all stc (stx\<lparr>files := (files stx)(os_path_join (tempdir self) (t_name (fst sitem)) \<mapsto> File sd (sk OR S_IWUSR))\<rparr>)
      = (Inl te, trc)"
  then show "TarStripper_remove_all L self vwl vw = (Inl te, trc)"
    by (intro tar_run_child_raises) auto
qed

theorem mode_restored_on_return_witness:
  "handle_read_only ''/tmp/d/p.jpg'' refusing_stripper
     ((ex_world ''/home/u/a.tar'' (Raw []))\<lparr>files := (files (ex_world ''/home/u/a.tar'' (Raw [])))
         (''/tmp/d/p.jpg'' \<mapsto> File (Raw ''exif'') 292)\<rparr>)
   = (Inr (), (ex_world ''/home/u/a.tar'' (Raw []))\<lparr>files := (files (ex_world ''/home/u/a.tar'' (Raw [])))
         (''/tmp/d/p.jpg'' \<mapsto> File (Raw ''exif'') 292)\<rparr>)
   \<and> (\<exists>k. files (snd (ZipStripper_item (plain_lib (suffix_factory ''.jpg'' (\<lambda>p. refusing_stripper)))
                      (ex_handle ''/home/u/a.zip'') [] [] [] (ex_zipinfo ''p.jpg'', Raw ''exif'')
                      (ex_world ''/home/u/a.zip'' (Raw [])))) ''/tmp/d/p.jpg'' = Some k \<and> mode k = 420)
   \<and> (\<exists>k. files (snd (TarStripper_item (plain_lib (suffix_factory ''.jpg'' (\<lambda>p. refusing_stripper)))
                      (ex_handle ''/home/u/a.tar'') [] (ex_tarinfo ''p.jpg'' REGTYPE, Raw ''exif'') []
                      (ex_world ''/home/u/a.tar'' (Raw [])))) ''/tmp/d/p.jpg'' = Some k \<and> mode k = 292)
   \<and> handle_read_only ''/tmp/d/p.jpg'' (raising_stripper IOError)
       ((ex_world ''/home/u/a.tar'' (Raw []))\<lparr>files := (files (ex_world ''/home/u/a.tar'' (Raw [])))
           (''/tmp/d/p.jpg'' \<mapsto> File (Raw ''exif'') 292)\<rparr>)
     = (Inl IOError, (ex_world ''/home/u/a.tar'' (Raw []))\<lparr>files := (files (ex_world ''/home/u/a.tar'' (Raw [])))
           (''/tmp/d/p.jpg'' \<mapsto> File (Raw ''exif'') 420)\<rparr>)
   \<and> ZipStripper_item (plain_lib (suffix_factory ''.jpg'' (\<lambda>p. raising_stripper IOError)))
        (ex_handle ''/home/u/a.zip'') [] [] [] (ex_zipinfo ''p.jpg'', Raw ''exif'')
        (ex_world ''/home/u/a.zip'' (Raw []))
     = (Inl IOError, (ex_world ''/home/u/a.zip'' (Raw []))\<lparr>files := (files (ex_world ''/home/u/a.zip'' (Raw [])))
           (''/tmp/d/p.jpg'' \<mapsto> File (Raw ''exif'') 420)\<rparr>)
   \<and> TarStripper_item (plain_lib (suffix_factory ''.jpg'' (\<lambda>p. raising_stripper IOError)))
        (ex_handle ''/home/u/a.tar'') [] (ex_tarinfo ''p.jpg'' REGTYPE, Raw ''exif'') []
        (ex_world ''/home/u/a.tar'' (Raw []))
     = (Inl IOError, (ex_world ''/home/u/a.tar'' (Raw []))\<lparr>files := (files (ex_world ''/home/u/a.tar'' (Raw [])))
           (''/tmp/d/p.jpg'' \<mapsto> File (Raw ''exif'') 420)\<rparr>)
   \<and> fst (ZipStripper_remove_all (plain_lib (suffix_factory ''.jpg'' (\<lambda>p. raising_stripper IOError)))
            (ex_handle ''/home/u/a.zip'') None None None
            (ex_world ''/home/u/a.zip'' (ZipData [] [(ex_zipinfo ''a.txt'', Raw ''abc''),
               (ex_zipinfo ''p.jpg'', Raw ''exif''), (ex_zipinfo ''b.bin'', Raw ''xyz'')])))
       = Inl IOError
   \<and> files (snd (ZipStripper_remove_all (plain_lib (suffix_factory ''.jpg'' (\<lambda>p. raising_stripper IOError)))
            (ex_handle ''/home/u/a.zip'') None None None
            (ex_world ''/home/u/a.zip'' (ZipData [] [(ex_zipinfo ''a.txt'', Raw ''abc''),
               (ex_zipinfo ''p.jpg'', Raw ''exif''), (ex_zipinfo ''b.bin'', Raw ''xyz'')]))))
       ''/tmp/d/p.jpg'' = Some (File (Raw ''exif'') 420)
   \<and> fst (TarStripper_remove_all (plain_lib (suffix_factory ''.jpg'' (\<lambda>p. raising_stripper IOError)))
            (ex_handle ''/home/u/a.tar'') None
            (ex_world ''/home/u/a.tar'' (TarData [] [(ex_tarinfo ''a.txt'' REGTYPE, Raw ''abc''),
               (ex_tarinfo ''p.jpg'' REGTYPE, Raw ''exif''), (ex_tarinfo ''b.bin'' REGTYPE, Raw ''xyz'')])))
       = Inl IOError
   \<and> files (snd (TarStripper_remove_all (plain_lib (suffix_factory ''.jpg'' (\<lambda>p. raising_stripper IOError)))
            (ex_handle ''/home/u/a.tar'') None
            (ex_world ''/home/u/a.tar'' (TarData [] [(ex_tarinfo ''a.txt'' REGTYPE, Raw ''abc''),
               (ex_tarinfo ''p.jpg'' REGTYPE, Raw ''exif''), (ex_tarinfo ''b.bin'' REGTYPE, Raw ''xyz'')]))))
       ''/tmp/d/p.jpg'' = Some (File (Raw ''exif'') 420)
   \<and> t_mode (ex_tarinfo ''p.jpg'' REGTYPE) = 292"
proof -
  let ?L = "plain_lib (suffix_factory ''.jpg'' (\<lambda>p. refusing_stripper))"
  let ?R = "plain_lib (suffix_factory ''.jpg'' (\<lambda>p. raising_stripper IOError))"
  let ?zw = "ex_world ''/home/u/a.zip'' (Raw [])"
  let ?tw = "ex_world ''/home/u/a.tar'' (Raw [])"
  let ?zh = "ex_handle ''/home/u/a.zip''"
  let ?th = "ex_handle ''/home/u/a.tar''"
  let ?zi = "(ex_zipinfo ''p.jpg'', Raw ''exif'')"
  let ?ti = "(ex_tarinfo ''p.jpg'' REGTYPE, Raw ''exif'')"
  let ?w = "?tw\<lparr>files := (files ?tw)(''/tmp/d/p.jpg'' \<mapsto> File (Raw ''exif'') 292)\<rparr>"
  let ?we = "?tw\<lparr>files := (files ?tw)(''/tmp/d/p.jpg'' \<mapsto> File (Raw ''exif'') 420)\<rparr>"
  let ?zw1 = "?zw\<lparr>files := (files ?zw)(''/tmp/d/p.jpg'' \<mapsto> File (Raw ''exif'') 420)\<rparr>"
  let ?zp = "os_path_join (tempdir ?zh) (z_filename (fst ?zi))"
  let ?tp = "os_path_join (tempdir ?th) (t_name (fst ?ti))"
  note c2 = conjunct2
  have zp: "os_path_join (tempdir ?zh) (z_filename (ex_zipinfo ''p.jpg'')) = ''/tmp/d/p.jpg''"
    by (simp add: ex_handle_def ex_zipinfo_def path_defs)
  have tp: "os_path_join (tempdir ?th) (t_name (ex_tarinfo ''p.jpg'' REGTYPE)) = ''/tmp/d/p.jpg''"
    by (simp add: ex_handle_def ex_tarinfo_def path_defs)
  have a1: "files ?w ''/tmp/d/p.jpg'' = Some (File (Raw ''exif'') 292)" by simp
  have a2: "remove_all refusing_stripper
              (?w\<lparr>files := (files ?w)(''/tmp/d/p.jpg'' \<mapsto>
                  set_mode (mode (File (Raw ''exif'') 292) OR S_IWUSR) (File (Raw ''exif'') 292))\<rparr>)
            = (Inr False, ?w\<lparr>files := (files ?w)(''/tmp/d/p.jpg'' \<mapsto> File (Raw ''exif'') 420)\<rparr>)"
    by (simp add: refusing_stripper_def set_mode_def S_IWUSR_def)
  have a3: "files (?w\<lparr>files := (files ?w)(''/tmp/d/p.jpg'' \<mapsto> File (Raw ''exif'') 420)\<rparr>) ''/tmp/d/p.jpg''
            = Some (File (Raw ''exif'') 420)" by simp
  have z1: "zip_extract ?L ?zi (tempdir ?zh) ?zw = (Inr (), ?zw1)"
    by (simp add: ex_defs path_defs default_mode_def)
  have z2: "files ?zw1 ?zp = Some (File (Raw ''exif'') 420)"
    by (simp add: ex_defs path_defs)
  have z3: "create_class_file ?L ?zp False (add2archive ?zh) ?zw1 = Some refusing_stripper"
    by (simp add: ex_defs ex2_defs path_defs)
  have z4f: "fst (ZipStripper_item ?L ?zh [] [] [] ?zi ?zw)
             = Inr (Some (\<lparr>z_filename = ''p.jpg'', z_date_time = ZIP_EPOCH, z_compress_type = ZIP_DEFLATED,
                           z_create_system = 3, z_comment = []\<rparr>, Raw ''exif''))"
    by (simp add: ex_defs ex2_defs run_defs)
  have z4: "ZipStripper_item ?L ?zh [] [] [] ?zi ?zw
            = (Inr (Some (\<lparr>z_filename = ''p.jpg'', z_date_time = ZIP_EPOCH, z_compress_type = ZIP_DEFLATED,
                           z_create_system = 3, z_comment = []\<rparr>, Raw ''exif'')),
               snd (ZipStripper_item ?L ?zh [] [] [] ?zi ?zw))"
    using z4f by (simp add: prod_eq_iff)
  let ?tw1 = "?tw\<lparr>files := (files ?tw)(''/tmp/d/p.jpg'' \<mapsto> File (Raw ''exif'') 292)\<rparr>"
  have t1: "tar_extract ?L ?ti (tempdir ?th) ?tw = (Inr (), ?tw1)"
    by (simp add: ex_defs path_defs isfile_def)
  have t2: "isfile (fst ?ti)" by (simp add: ex_defs isfile_def)
  have t3: "files ?tw1 ?tp = Some (File (Raw ''exif'') 292)"
    by (simp add: ex_defs path_defs)
  have t4: "create_class_file ?L ?tp False (add2archive ?th) ?tw1 = Some refusing_stripper"
    by (simp add: ex_defs ex2_defs path_defs)
  have t5f: "fst (TarStripper_item ?L ?th [] ?ti [] ?tw)
             = Inr [(\<lparr>t_name = ''p.jpg'', t_type = REGTYPE, t_mode = 292, t_mtime = 0, t_uid = 0,
                      t_gid = 0, t_uname = [], t_gname = []\<rparr>, Raw ''exif'')]"
    by (simp add: ex_defs ex2_defs run_defs)
  have t5: "TarStripper_item ?L ?th [] ?ti [] ?tw
            = (Inr [(\<lparr>t_name = ''p.jpg'', t_type = REGTYPE, t_mode = 292, t_mtime = 0, t_uid = 0,
                      t_gid = 0, t_uname = [], t_gname = []\<rparr>, Raw ''exif'')],
               snd (TarStripper_item ?L ?th [] ?ti [] ?tw))"
    using t5f by (simp add: prod_eq_iff)
  have c1': "handle_read_only ''/tmp/d/p.jpg'' refusing_stripper ?w
             = (Inr (), ?we\<lparr>files := (files ?we)(''/tmp/d/p.jpg'' \<mapsto>
                  set_mode (mode (File (Raw ''exif'') 292)) (File (Raw ''exif'') 420))\<rparr>)"
    using mode_restored_on_return [where w = ?w and path = "''/tmp/d/p.jpg''"
      and n = "File (Raw ''exif'') 292" and cfile = refusing_stripper and b = False
      and wc = ?we and n' = "File (Raw ''exif'') 420", THEN conjunct1] a1 a2 a3
    by simp
  have c1: "handle_read_only ''/tmp/d/p.jpg'' refusing_stripper ?w = (Inr (), ?w)"
    using c1' by (simp add: set_mode_def)
  have c2': "\<exists>k. files (snd (ZipStripper_item ?L ?zh [] [] [] ?zi ?zw)) ?zp = Some k
                    \<and> mode k = mode (File (Raw ''exif'') 420)"
    using mode_restored_on_return [where L = ?L and item = ?zi and self = ?zh and zw = ?zw
      and zx = ?zw1 and zn = "File (Raw ''exif'') 420" and zc = refusing_stripper
      and wl = "[]" and bb = "[]" and eb = "[]"
      and zw' = "snd (ZipStripper_item ?L ?zh [] [] [] ?zi ?zw)"
      and r = "Some (\<lparr>z_filename = ''p.jpg'', z_date_time = ZIP_EPOCH, z_compress_type = ZIP_DEFLATED,
                           z_create_system = 3, z_comment = []\<rparr>, Raw ''exif'')",
      THEN c2, THEN conjunct1] z1 z2 z3 z4
    by blast
  have c3': "\<exists>k. files (snd (TarStripper_item ?L ?th [] ?ti [] ?tw)) ?tp = Some k
                    \<and> mode k = mode (File (Raw ''exif'') 292)"
    using mode_restored_on_return [where L = ?L and self = ?th and titem = ?ti and tw = ?tw
      and tx = ?tw1 and tn = "File (Raw ''exif'') 292" and tc = refusing_stripper
      and twl = "[]" and tarout = "[]"
      and tw' = "snd (TarStripper_item ?L ?th [] ?ti [] ?tw)"
      and tr = "[(\<lparr>t_name = ''p.jpg'', t_type = REGTYPE, t_mode = 292, t_mtime = 0, t_uid = 0,
                      t_gid = 0, t_uname = [], t_gname = []\<rparr>, Raw ''exif'')]",
      THEN c2, THEN c2, THEN conjunct1] t1 t2 t3 t4 t5
    by blast
  have r1: "remove_all (raising_stripper IOError)
              (?w\<lparr>files := (files ?w)(''/tmp/d/p.jpg'' \<mapsto>
                  set_mode (mode (File (Raw ''exif'') 292) OR S_IWUSR) (File (Raw ''exif'') 292))\<rparr>)
            = (Inl IOError, ?we)"
    by (simp add: raising_stripper_def set_mode_def S_IWUSR_def)
  have c4: "handle_read_only ''/tmp/d/p.jpg'' (raising_stripper IOError) ?w = (Inl IOError, ?we)"
    using mode_restored_on_return [where rw = ?w and rpath = "''/tmp/d/p.jpg''"
      and rn = "File (Raw ''exif'') 292" and rcfile = "raising_stripper IOError" and e = IOError
      and rc = ?we, THEN c2, THEN c2, THEN c2, THEN conjunct1] a1 r1
    by blast
  have nb: "\<not> list_ex (\<lambda>f. startswith (z_filename (fst ?zi)) f) (default_list None)"
    by (simp add: default_list_def)
  have ne: "\<not> list_ex (\<lambda>f. endswith (z_filename (fst ?zi)) f) (default_list None)"
    by (simp add: default_list_def)
  have y1: "zip_extract ?R ?zi (tempdir ?zh) ?zw = (Inr (), ?zw1)"
    by (simp add: ex_defs path_defs default_mode_def)
  have y3: "create_class_file ?R ?zp False (add2archive ?zh) ?zw1 = Some (raising_stripper IOError)"
    by (simp add: ex_defs ex2_defs path_defs)
  have y4: "remove_all (raising_stripper IOError)
              (?zw1\<lparr>files := (files ?zw1)(?zp \<mapsto> File (Raw ''exif'') (420 OR S_IWUSR))\<rparr>)
            = (Inl IOError, ?zw1)"
    by (simp add: raising_stripper_def S_IWUSR_def zp)
  have c5': "ZipStripper_item ?R ?zh (default_list None) (default_list None) (default_list None) ?zi ?zw
             = (Inl IOError, ?zw1)"
    using mode_restored_on_return [where L = ?R and self = ?zh and ritem = ?zi and rzw = ?zw
      and rzx = ?zw1 and rd = "Raw ''exif''" and rk = 420 and rzc = "raising_stripper IOError"
      and ze = IOError and zrc = ?zw1 and uwl = None and ubb = None and ueb = None,
      THEN c2, THEN c2, THEN c2, THEN c2, THEN conjunct1] y1 z2 nb ne y3 y4
    by blast
  have c5: "ZipStripper_item ?R ?zh [] [] [] ?zi ?zw = (Inl IOError, ?zw1)"
    using c5' by (simp add: default_list_def)
  have x1: "tar_extract ?R ?ti (tempdir ?th) ?tw = (Inr (), ?tw1)"
    by (simp add: ex_defs path_defs isfile_def)
  have x3: "create_class_file ?R ?tp False (add2archive ?th) ?tw1 = Some (raising_stripper IOError)"
    by (simp add: ex_defs ex2_defs path_defs)
  have x4: "remove_all (raising_stripper IOError)
              (?tw1\<lparr>files := (files ?tw1)(?tp \<mapsto> File (Raw ''exif'') (292 OR S_IWUSR))\<rparr>)
            = (Inl IOError, ?we)"
    by (simp add: raising_stripper_def S_IWUSR_def tp)
  have c6': "TarStripper_item ?R ?th (default_list None) ?ti [] ?tw = (Inl IOError, ?we)"
    using mode_restored_on_return [where L = ?R and self = ?th and sitem = ?ti and stw = ?tw
      and stx = ?tw1 and sd = "Raw ''exif''" and sk = 292 and stc = "raising_stripper IOError"
      and te = IOError and trc = ?we and vwl = None and sout = "[]",
      THEN c2, THEN c2, THEN c2, THEN c2, THEN c2, THEN conjunct1] x1 t2 t3 x3 x4
    by blast
  have c6: "TarStripper_item ?R ?th [] ?ti [] ?tw = (Inl IOError, ?we)"
    using c6' by (simp add: default_list_def)
  let ?zpre = "[(ex_zipinfo ''a.txt'', Raw ''abc'')]"
  let ?zpost = "[(ex_zipinfo ''b.bin'', Raw ''xyz'')]"
  let ?za = "ex_world ''/home/u/a.zip'' (ZipData [] [(ex_zipinfo ''a.txt'', Raw ''abc''),
               (ex_zipinfo ''p.jpg'', Raw ''exif''), (ex_zipinfo ''b.bin'', Raw ''xyz'')])"
  let ?zb = "?za\<lparr>files := (files ?za)(''/tmp/out'' \<mapsto> File (Raw []) 384)\<rparr>"
  let ?zout = "[(\<lparr>z_filename = ''a.txt'', z_date_time = ZIP_EPOCH, z_compress_type = ZIP_DEFLATED,
                   z_create_system = 3, z_comment = []\<rparr>, Raw ''abc'')]"
  let ?zl = "ZipStripper_loop ?R ?zh (default_list None) (default_list None) (default_list None)
               ?zpre [] (snd (open_write (output ?zh) ?za))"
  let ?zx = "snd (zip_extract ?R ?zi (tempdir ?zh) (snd ?zl))"
  let ?zc = "?zx\<lparr>files := (files ?zx)(?zp \<mapsto> File (Raw ''exif'') (420 OR S_IWUSR))\<rparr>"
  have g1: "files ?za (filename ?zh) = Some (File (ZipData [] (?zpre @ ?zi # ?zpost)) 420)"
    by (simp add: ex_world_def ex_handle_def)
  have g2f: "fst (open_write (output ?zh) ?za) = Inr ()"
    by (simp add: open_write_def ex_world_def ex_handle_def parent_is_dir_def os_path_dirname_def)
  have g2: "open_write (output ?zh) ?za = (Inr (), snd (open_write (output ?zh) ?za))"
    using g2f by (simp add: prod_eq_iff)
  have g3f: "fst ?zl = Inr ?zout"
    by (simp add: ex_defs ex2_defs run_defs)
  have g3: "?zl = (Inr ?zout, snd ?zl)" using g3f by (simp add: prod_eq_iff)
  have g4f: "fst (zip_extract ?R ?zi (tempdir ?zh) (snd ?zl)) = Inr ()"
    by (simp add: ex_defs ex2_defs run_defs)
  have g4: "zip_extract ?R ?zi (tempdir ?zh) (snd ?zl) = (Inr (), ?zx)"
    using g4f by (simp add: prod_eq_iff)
  have g5: "files ?zx ?zp = Some (File (Raw ''exif'') 420)"
    by (simp add: ex_defs ex2_defs run_defs)
  have g6: "create_class_file ?R ?zp False (add2archive ?zh) ?zx = Some (raising_stripper IOError)"
    by (simp add: plain_lib_def suffix_factory_def zp endswith_def)
  have g7: "remove_all (raising_stripper IOError) ?zc = (Inl IOError, ?zc)"
    by (simp add: raising_stripper_def)
  have c7': "ZipStripper_remove_all ?R ?zh None None None ?za = (Inl IOError, ?zc)"
    using mode_restored_on_return [where L = ?R and self = ?zh and ritem = ?zi and rzw = "snd ?zl"
      and rzx = ?zx and rd = "Raw ''exif''" and rk = 420 and rzc = "raising_stripper IOError"
      and ze = IOError and zrc = ?zc and uwl = None and ubb = None and ueb = None
      and uw = ?za and uc = "[]" and upre = ?zpre and upost = ?zpost and um = 420
      and ua = "snd (open_write (output ?zh) ?za)" and uout = ?zout,
      THEN c2, THEN c2, THEN c2, THEN c2, THEN c2, THEN c2, THEN conjunct1]
      g1 g2 g3 g4 g5 nb ne g6 g7
    by blast
  have c7: "fst (ZipStripper_remove_all ?R ?zh None None None ?za) = Inl IOError
            \<and> files (snd (ZipStripper_remove_all ?R ?zh None None None ?za)) ''/tmp/d/p.jpg''
              = Some (File (Raw ''exif'') 420)"
    using c7' by (simp add: zp S_IWUSR_def)
  let ?tpre = "[(ex_tarinfo ''a.txt'' REGTYPE, Raw ''abc'')]"
  let ?tpost = "[(ex_tarinfo ''b.bin'' REGTYPE, Raw ''xyz'')]"
  let ?ta = "ex_world ''/home/u/a.tar'' (TarData [] [(ex_tarinfo ''a.txt'' REGTYPE, Raw ''abc''),
               (ex_tarinfo ''p.jpg'' REGTYPE, Raw ''exif''), (ex_tarinfo ''b.bin'' REGTYPE, Raw ''xyz'')])"
  let ?tl = "TarStripper_loop ?R ?th (default_list None) ?tpre [] (snd (open_write (output ?th) ?ta))"
  let ?tx = "snd (tar_extract ?R ?ti (tempdir ?th) (snd ?tl))"
  let ?tc = "?tx\<lparr>files := (files ?tx)(?tp \<mapsto> File (Raw ''exif'') (292 OR S_IWUSR))\<rparr>"
  have h1: "files ?ta (filename ?th) = Some (File (TarData [] (?tpre @ ?ti # ?tpost)) 420)"
    by (simp add: ex_world_def ex_handle_def)
  have h1': "compression ?th = [] \<or> compression ?th = []" by (simp add: ex_handle_def)
  have h2f: "fst (open_write (output ?th) ?ta) = Inr ()"
    by (simp add: open_write_def ex_world_def ex_handle_def parent_is_dir_def os_path_dirname_def)
  have h2: "open_write (output ?th) ?ta = (Inr (), snd (open_write (output ?th) ?ta))"
    using h2f by (simp add: prod_eq_iff)
  have h3e: "\<exists>out. fst ?tl = Inr out"
    by (simp add: ex_defs ex2_defs run_defs)
  then obtain tout where h3f: "fst ?tl = Inr tout" by blast
  have h3: "?tl = (Inr tout, snd ?tl)" using h3f by (simp add: prod_eq_iff)
  have h4f: "fst (tar_extract ?R ?ti (tempdir ?th) (snd ?tl)) = Inr ()"
    by (simp add: ex_defs ex2_defs run_defs)
  have h4: "tar_extract ?R ?ti (tempdir ?th) (snd ?tl) = (Inr (), ?tx)"
    using h4f by (simp add: prod_eq_iff)
  have h5: "files ?tx ?tp = Some (File (Raw ''exif'') 292)"
    by (simp add: ex_defs ex2_defs run_defs)
  have h6: "create_class_file ?R ?tp False (add2archive ?th) ?tx = Some (raising_stripper IOError)"
    by (simp add: plain_lib_def suffix_factory_def tp endswith_def)
  have h7: "remove_all (raising_stripper IOError) ?tc = (Inl IOError, ?tc)"
    by (simp add: raising_stripper_def)
  have c8': "TarStripper_remove_all ?R ?th None ?ta = (Inl IOError, ?tc)"
    using mode_restored_on_return [where L = ?R and self = ?th and sitem = ?ti and stw = "snd ?tl"
      and stx = ?tx and sd = "Raw ''exif''" and sk = 292 and stc = "raising_stripper IOError"
      and te = IOError and trc = ?tc and vwl = None and sout = tout
      and vw = ?ta and vc = "[]" and vpre = ?tpre and vpost = ?tpost and vm = 420
      and va = "snd (open_write (output ?th) ?ta)",
      THEN c2, THEN c2, THEN c2, THEN c2, THEN c2, THEN c2, THEN c2]
      h1 h1' h2 h3 h4 t2 h5 h6 h7
    by blast
  have c8: "fst (TarStripper_remove_all ?R ?th None ?ta) = Inl IOError
            \<and> files (snd (TarStripper_remove_all ?R ?th None ?ta)) ''/tmp/d/p.jpg''
              = Some (File (Raw ''exif'') 420)"
    using c8' by (simp add: tp S_IWUSR_def)
  have c9: "t_mode (ex_tarinfo ''p.jpg'' REGTYPE) = 292" by (simp add: ex_tarinfo_def)
  from c2' have c2'': "\<exists>k. files (snd (ZipStripper_item ?L ?zh [] [] [] ?zi ?zw)) ''/tmp/d/p.jpg'' = Some k
                    \<and> mode k = 420"
    by (simp add: zp)
  from c3' have c3'': "\<exists>k. files (snd (TarStripper_item ?L ?th [] ?ti [] ?tw)) ''/tmp/d/p.jpg'' = Some k
                    \<and> mode k = 292"
    by (simp add: tp)
  from c1 c2'' c3'' c4 c5 c6 c7 c8 c9 show ?thesis by blast
qed

text \<open>
  The claim as stated covers every path. When the child raises, as a nested ZIP stripper
  does on a corrupt archive, nothing sets the mode back: the member stored with mode 444
  (octal) is left with mode 644 and the exception leaves \<^verbatim>\<open>remove_all\<close>.
\<close>

theorem mode_left_elevated_counterexample:
  "fst (TarStripper_remove_all (plain_lib (suffix_factory ''.zip'' (\<lambda>p. failing_stripper)))
          (ex_handle ''/home/u/a.tar'') None
          (ex_world ''/home/u/a.tar'' (TarData [] [(ex_tarinfo ''inner.zip'' REGTYPE, Raw ''junk'')])))
     = Inl BadZipfile
   \<and> files (snd (TarStripper_remove_all (plain_lib (suffix_factory ''.zip'' (\<lambda>p. failing_stripper)))
          (ex_handle ''/home/u/a.tar'') None
          (ex_world ''/home/u/a.tar'' (TarData [] [(ex_tarinfo ''inner.zip'' REGTYPE, Raw ''junk'')]))))
       ''/tmp/d/inner.zip'' = Some (File (Raw ''junk'') 420)
   \<and> t_mode (ex_tarinfo ''inner.zip'' REGTYPE) = 292"
  by (simp add: ex_defs ex2_defs run_defs)

section \<open>Terminal ZIP archives\<close>

text \<open>
  Claim C5, amended. \<^verbatim>\<open>TerminalZipStripper\<close> adds nothing to \<^verbatim>\<open>ZipStripper\<close>: its
  \<^verbatim>\<open>remove_all\<close> is the ZIP rebuild. An entry whose stripper is a container stripper is
  handled as any entry with a stripper: the child's \<^verbatim>\<open>remove_all\<close> runs on the extracted
  file and, when it returns, the entry is written with the bytes the child left, whatever
  the whitelist, \<open>NOMETA\<close> and \<open>add2archive\<close> are.
\<close>

theorem terminal_zip_recurses:
  "TerminalZipStripper_remove_all L self a b c w = ZipStripper_remove_all L self a b c w
   \<and>
   (zip_extract L item (tempdir self) zw = (Inr (), zx) \<and>
    files zx (os_path_join (tempdir self) (z_filename (fst item))) = Some (File d m) \<and>
    \<not> list_ex (\<lambda>f. startswith (z_filename (fst item)) f) bb \<and>
    \<not> list_ex (\<lambda>f. endswith (z_filename (fst item)) f) eb \<and>
    create_class_file L (os_path_join (tempdir self) (z_filename (fst item))) False (add2archive self) zx
      = Some cfile \<and>
    is_archive cfile \<and>
    remove_all cfile (zx\<lparr>files := (files zx)(os_path_join (tempdir self) (z_filename (fst item))
                                   \<mapsto> File d (m OR S_IWUSR))\<rparr>) = (Inr r, zc) \<and>
    files zc (os_path_join (tempdir self) (z_filename (fst item))) = Some (File bytes k)
    \<longrightarrow> fst (ZipStripper_item L self wl bb eb item zw)
          = Inr (Some (\<lparr>z_filename = z_filename (fst item), z_date_time = ZIP_EPOCH,
                         z_compress_type = ZIP_DEFLATED, z_create_system = 3, z_comment = []\<rparr>, bytes)))"
  by (simp add: TerminalZipStripper_remove_all_def ZipStripper_item_def Let_def bindE_def returnE_def
        os_path_isfile_def handle_read_only_def os_stat_st_mode_def os_chmod_def set_mode_def
        logging_log_def open_read_def ZipInfo_def)

theorem terminal_zip_recurses_witness:
  "fst (ZipStripper_item (plain_lib nested_factory) (ex_handle ''/home/u/a.odt'') [] [] [''meta.xml'']
          (ex_zipinfo ''inner.zip'', Raw ''dirty'') (ex_world ''/home/u/a.odt'' (Raw [])))
   = Inr (Some (\<lparr>z_filename = ''inner.zip'', z_date_time = ZIP_EPOCH,
                  z_compress_type = ZIP_DEFLATED, z_create_system = 3, z_comment = []\<rparr>, Raw ''clean''))"
proof -
  let ?L = "plain_lib nested_factory"
  let ?h = "ex_handle ''/home/u/a.odt''"
  let ?w = "ex_world ''/home/u/a.odt'' (Raw [])"
  let ?i = "(ex_zipinfo ''inner.zip'', Raw ''dirty'')"
  let ?p = "os_path_join (tempdir ?h) (z_filename (fst ?i))"
  let ?x = "?w\<lparr>files := (files ?w)(''/tmp/d/inner.zip'' \<mapsto> File (Raw ''dirty'') 420)\<rparr>"
  let ?c = "?w\<lparr>files := (files ?w)(''/tmp/d/inner.zip'' \<mapsto> File (Raw ''clean'') 384)\<rparr>"
  have p: "?p = ''/tmp/d/inner.zip''" by (simp add: ex_defs path_defs)
  have h1: "zip_extract ?L ?i (tempdir ?h) ?w = (Inr (), ?x)"
    by (simp add: ex_defs path_defs default_mode_def)
  have h2: "files ?x ?p = Some (File (Raw ''dirty'') 420)" by (simp add: ex_defs path_defs)
  have h3: "\<not> list_ex (\<lambda>f. startswith (z_filename (fst ?i)) f) []" by simp
  have h4: "\<not> list_ex (\<lambda>f. endswith (z_filename (fst ?i)) f) [''meta.xml'']"
    by (simp add: ex_defs path_defs)
  have h5: "create_class_file ?L ?p False (add2archive ?h) ?x
            = Some (archive_stripper ''/tmp/d/inner.zip'' (Raw ''clean''))"
    by (simp add: ex_defs ex2_defs nested_factory_def path_defs)
  have h6: "is_archive (archive_stripper ''/tmp/d/inner.zip'' (Raw ''clean''))"
    by (simp add: ex2_defs)
  have h7: "remove_all (archive_stripper ''/tmp/d/inner.zip'' (Raw ''clean''))
              (?x\<lparr>files := (files ?x)(?p \<mapsto> File (Raw ''dirty'') (420 OR S_IWUSR))\<rparr>) = (Inr True, ?c)"
    by (simp add: ex_defs ex2_defs path_defs S_IWUSR_def)
  have h8: "files ?c ?p = Some (File (Raw ''clean'') 384)" by (simp add: ex_defs path_defs)
  from terminal_zip_recurses [where L = ?L and self = ?h and item = ?i and zw = ?w and zx = ?x
      and d = "Raw ''dirty''" and m = 420 and bb = "[]" and eb = "[''meta.xml'']"
      and cfile = "archive_stripper ''/tmp/d/inner.zip'' (Raw ''clean'')" and r = True and zc = ?c
      and bytes = "Raw ''clean''" and k = 384 and wl = "[]"]
    h1 h2 h3 h4 h5 h6 h7 h8
  show ?thesis by (simp add: ex_zipinfo_def)
qed

text \<open>
  The claim as stated has such an entry treated as if no stripper matched. In an
  OpenDocument file with \<open>add2archive\<close> unset, the nested \<^verbatim>\<open>inner.zip\<close> is cleaned by
  its container stripper and kept; with no stripper for it, it is dropped.
\<close>

theorem terminal_zip_counterexample:
  "files (snd (OpenDocumentStripper_remove_all (plain_lib nested_factory) (ex_handle ''/home/u/a.odt'')
        (ex_world ''/home/u/a.odt''
           (ZipData [] [(ex_zipinfo ''content.xml'', Raw ''text''), (ex_zipinfo ''meta.xml'', Raw ''author''),
                        (ex_zipinfo ''inner.zip'', Raw ''dirty'')])))) ''/home/u/a.odt''
   = Some (File (ZipData []
        [(\<lparr>z_filename = ''content.xml'', z_date_time = (1980, 1, 1, 0, 0, 0), z_compress_type = 8,
           z_create_system = 3, z_comment = []\<rparr>, Raw ''text''),
         (\<lparr>z_filename = ''inner.zip'', z_date_time = (1980, 1, 1, 0, 0, 0), z_compress_type = 8,
           z_create_system = 3, z_comment = []\<rparr>, Raw ''clean'')]) 384)
   \<and>
   files (snd (OpenDocumentStripper_remove_all (plain_lib (\<lambda>name b a w. None)) (ex_handle ''/home/u/a.odt'')
        (ex_world ''/home/u/a.odt''
           (ZipData [] [(ex_zipinfo ''content.xml'', Raw ''text''), (ex_zipinfo ''meta.xml'', Raw ''author''),
                        (ex_zipinfo ''inner.zip'', Raw ''dirty'')])))) ''/home/u/a.odt''
   = Some (File (ZipData []
        [(\<lparr>z_filename = ''content.xml'', z_date_time = (1980, 1, 1, 0, 0, 0), z_compress_type = 8,
           z_create_system = 3, z_comment = []\<rparr>, Raw ''text'')]) 384)
   \<and> is_archive (archive_stripper ''/tmp/d/inner.zip'' (Raw ''clean''))"
  by (simp add: OpenDocumentStripper_remove_all_def TerminalZipStripper_remove_all_def nested_factory_def
        ex_defs ex2_defs run_defs ZIP_EPOCH_def ZIP_DEFLATED_def)

section \<open>Exceptions of the container libraries\<close>

text \<open>
  Claim C4, amended. Neither engine catches an exception: when opening the source or
  extracting an entry raises, the exception leaves \<^verbatim>\<open>remove_all\<close>, which never returns
  false. The source file is left as it was: when the exception is raised in the loop,
  \<^verbatim>\<open>do_backup\<close> has not run, and the extraction and the child strippers are assumed to
  leave the source alone.
\<close>

theorem library_exceptions_propagate:
  "(ZipFile_read (filename self) w = (Inl e, w)
      \<longrightarrow> ZipStripper_remove_all L self wl bb eb w = (Inl e, w))
   \<and> (zip_extract L item (tempdir self) w = (Inl e, wx)
      \<longrightarrow> ZipStripper_item L self zwl zbb zeb item w = (Inl e, wx))
   \<and> (files w (filename self) = Some (File (ZipData c items) m) \<and>
      zip_frame L self items (filename self) \<and> output self \<noteq> filename self \<and>
      open_write (output self) w = (Inr (), wa) \<and>
      ZipStripper_loop L self (default_list wl) (default_list bb) (default_list eb) items [] wa
        = (Inl e, wb)
      \<longrightarrow> ZipStripper_remove_all L self wl bb eb w = (Inl e, wb) \<and>
          files wb (filename self) = files w (filename self))
   \<and> fst (ZipStripper_remove_all L self wl bb eb w) \<noteq> Inr False
   \<and> (tarfile_open_read (filename tself) (compression tself) tw = (Inl e, tw)
      \<longrightarrow> TarStripper_remove_all L tself twl tw = (Inl e, tw))
   \<and> (tar_extract L titem (tempdir tself) tw = (Inl e, tx)
      \<longrightarrow> TarStripper_item L tself ywl titem tarout tw = (Inl e, tx))
   \<and> (files tw (filename tself) = Some (File (TarData tc titems) tm) \<and>
      (compression tself = [] \<or> compression tself = tc) \<and>
      tar_frame L tself titems (filename tself) \<and> output tself \<noteq> filename tself \<and>
      open_write (output tself) tw = (Inr (), ta) \<and>
      TarStripper_loop L tself (default_list twl) titems [] ta = (Inl e, tb)
      \<longrightarrow> TarStripper_remove_all L tself twl tw = (Inl e, tb) \<and>
          files tb (filename tself) = files tw (filename tself))
   \<and> fst (TarStripper_remove_all L tself twl tw) \<noteq> Inr False
   \<and> (files w (filename self) = Some (File (ZipData pc (pre @ bad # post)) pm) \<and>
      zip_frame L self (pre @ bad # post) (filename self) \<and> output self \<noteq> filename self \<and>
      open_write (output self) w = (Inr (), pa) \<and>
      ZipStripper_loop L self (default_list wl) (default_list bb) (default_list eb) pre [] pa
        = (Inr pout, pb) \<and>
      zip_extract L bad (tempdir self) pb = (Inl e, px)
      \<longrightarrow> ZipStripper_remove_all L self wl bb eb w = (Inl e, px) \<and>
          files px (filename self) = files w (filename self))
   \<and> (files tw (filename tself) = Some (File (TarData qc (tpre @ tbad # tpost)) qm) \<and>
      (compression tself = [] \<or> compression tself = qc) \<and>
      tar_frame L tself (tpre @ tbad # tpost) (filename tself) \<and>
      output tself \<noteq> filename tself \<and>
      open_write (output tself) tw = (Inr (), qa) \<and>
      TarStripper_loop L tself (default_list twl) tpre [] qa = (Inr qout, qb) \<and>
      tar_extract L tbad (tempdir tself) qb = (Inl e, qx)
      \<longrightarrow> TarStripper_remove_all L tself twl tw = (Inl e, qx) \<and>
          files qx (filename tself) = files tw (filename tself))"
proof (intro conjI impI)
  assume "ZipFile_read (filename self) w = (Inl e, w)"
  then show "ZipStripper_remove_all L self wl bb eb w = (Inl e, w)"
    by (simp add: ZipStripper_remove_all_def bindE_def)
next
  assume "zip_extract L item (tempdir self) w = (Inl e, wx)"
  then show "ZipStripper_item L self zwl zbb zeb item w = (Inl e, wx)"
    by (simp add: ZipStripper_item_def bindE_def)
next
  assume a: "files w (filename self) = Some (File (ZipData c items) m) \<and>
      zip_frame L self items (filename self) \<and> output self \<noteq> filename self \<and>
      open_write (output self) w = (Inr (), wa) \<and>
      ZipStripper_loop L self (default_list wl) (default_list bb) (default_list eb) items [] wa
        = (Inl e, wb)"
  then have "ZipStripper_remove_all L self wl bb eb w = (Inl e, wb) \<and>
         files wb (filename self) = files w (filename self)"
    by (intro zip_loop_raises) auto
  then show "ZipStripper_remove_all L self wl bb eb w = (Inl e, wb)"
    and "files wb (filename self) = files w (filename self)" by simp_all
next
  show "fst (ZipStripper_remove_all L self wl bb eb w) \<noteq> Inr False"
    by (rule remove_all_never_false)
next
  assume "tarfile_open_read (filename tself) (compression tself) tw = (Inl e, tw)"
  then show "TarStripper_remove_all L tself twl tw = (Inl e, tw)"
    by (simp add: TarStripper_remove_all_def bindE_def)
next
  assume "tar_extract L titem (tempdir tself) tw = (Inl e, tx)"
  then show "TarStripper_item L tself ywl titem tarout tw = (Inl e, tx)"
    by (simp add: TarStripper_item_def bindE_def)
next
  assume a: "files tw (filename tself) = Some (File (TarData tc titems) tm) \<and>
      (compression tself = [] \<or> compression tself = tc) \<and>
      tar_frame L tself titems (filename tself) \<and> output tself \<noteq> filename tself \<and>
      open_write (output tself) tw = (Inr (), ta) \<and>
      TarStripper_loop L tself (default_list twl) titems [] ta = (Inl e, tb)"
  then have "TarStripper_remove_all L tself twl tw = (Inl e, tb) \<and>
          files tb (filename tself) = files tw (filename tself)"
    by (intro tar_loop_raises [where c = tc and m = tm]) auto
  then show "TarStripper_remove_all L tself twl tw = (Inl e, tb)"
    and "files tb (filename tself) = files tw (filename tself)" by simp_all
next
  show "fst (TarStripper_remove_all L tself twl tw) \<noteq> Inr False"
    by (rule remove_all_never_false)
next
  assume a: "files w (filename self) = Some (File (ZipData pc (pre @ bad # post)) pm) \<and>
      zip_frame L self (pre @ bad # post) (filename self) \<and> output self \<noteq> filename self \<and>
      open_write (output self) w = (Inr (), pa) \<and>
      ZipStripper_loop L self (default_list wl) (default_list bb) (default_list eb) pre [] pa
        = (Inr pout, pb) \<and>
      zip_extract L bad (tempdir self) pb = (Inl e, px)"
  then have "ZipStripper_remove_all L self wl bb eb w = (Inl e, px) \<and>
          files px (filename self) = files w (filename self)"
    by (intro zip_entry_raises [where c = pc and m = pm and zipout = pout and wa = pa and wb = pb])
       auto
  then show "ZipStripper_remove_all L self wl bb eb w = (Inl e, px)"
    and "files px (filename self) = files w (filename self)" by simp_all
next
  assume a: "files tw (filename tself) = Some (File (TarData qc (tpre @ tbad # tpost)) qm) \<and>
      (compression tself = [] \<or> compression tself = qc) \<and>
      tar_frame L tself (tpre @ tbad # tpost) (filename tself) \<and>
      output tself \<noteq> filename tself \<and>
      open_write (output tself) tw = (Inr (), qa) \<and>
      TarStripper_loop L tself (default_list twl) tpre [] qa = (Inr qout, qb) \<and>
      tar_extract L tbad (tempdir tself) qb = (Inl e, qx)"
  then have "TarStripper_remove_all L tself twl tw = (Inl e, qx) \<and>
          files qx (filename tself) = files tw (filename tself)"
    by (intro tar_entry_raises [where c = qc and m = qm and tarout = qout and wa = qa and wb = qb])
       auto
  then show "TarStripper_remove_all L tself twl tw = (Inl e, qx)"
    and "files qx (filename tself) = files tw (filename tself)" by simp_all
qed

theorem library_exceptions_propagate_witness:
  "ZipStripper_remove_all (plain_lib ex_factory) (ex_handle ''/home/u/a.zip'') None None None
       (ex_world ''/home/u/a.zip'' (Raw ''junk''))
     = (Inl BadZipfile, ex_world ''/home/u/a.zip'' (Raw ''junk''))
   \<and> ZipStripper_item broken_lib (ex_handle ''/home/u/a.zip'') [] [] [] (ex_zipinfo ''a.txt'', Raw ''abc'')
       (ex_world ''/home/u/a.zip'' (ZipData [] ex_zip_items))
     = (Inl BadZipfile, ex_world ''/home/u/a.zip'' (ZipData [] ex_zip_items))
   \<and> fst (ZipStripper_remove_all broken_lib (ex_handle ''/home/u/a.zip'') None None None
       (ex_world ''/home/u/a.zip'' (ZipData [] ex_zip_items))) = Inl BadZipfile
   \<and> files (snd (ZipStripper_remove_all broken_lib (ex_handle ''/home/u/a.zip'') None None None
       (ex_world ''/home/u/a.zip'' (ZipData [] ex_zip_items)))) ''/home/u/a.zip''
     = Some (File (ZipData [] ex_zip_items) 420)
   \<and> TarStripper_remove_all (plain_lib ex_factory) (ex_handle ''/home/u/a.tar'') None
       (ex_world ''/home/u/a.tar'' (Raw ''junk''))
     = (Inl ReadError, ex_world ''/home/u/a.tar'' (Raw ''junk''))
   \<and> TarStripper_item broken_lib (ex_handle ''/home/u/a.tar'') [] (ex_tarinfo ''p.jpg'' REGTYPE, Raw ''exif'') []
       (ex_world ''/home/u/a.tar'' (TarData [] ex_tar_items))
     = (Inl ReadError, ex_world ''/home/u/a.tar'' (TarData [] ex_tar_items))
   \<and> fst (TarStripper_remove_all broken_lib (ex_handle ''/home/u/a.tar'') None
       (ex_world ''/home/u/a.tar'' (TarData [] ex_tar_items))) = Inl ReadError
   \<and> files (snd (TarStripper_remove_all broken_lib (ex_handle ''/home/u/a.tar'') None
       (ex_world ''/home/u/a.tar'' (TarData [] ex_tar_items)))) ''/home/u/a.tar''
     = Some (File (TarData [] ex_tar_items) 420)
   \<and> fst (ZipStripper_remove_all corrupt_lib (ex_handle ''/home/u/a.zip'') None None None
       (ex_world ''/home/u/a.zip'' (ZipData [] ex_zip_items))) = Inl BadZipfile
   \<and> files (snd (ZipStripper_remove_all corrupt_lib (ex_handle ''/home/u/a.zip'') None None None
       (ex_world ''/home/u/a.zip'' (ZipData [] ex_zip_items)))) ''/home/u/a.zip''
     = Some (File (ZipData [] ex_zip_items) 420)
   \<and> fst (TarStripper_remove_all corrupt_lib (ex_handle ''/home/u/a.tar'') None
       (ex_world ''/home/u/a.tar'' (TarData [] ex_tar_items))) = Inl ReadError
   \<and> files (snd (TarStripper_remove_all corrupt_lib (ex_handle ''/home/u/a.tar'') None
       (ex_world ''/home/u/a.tar'' (TarData [] ex_tar_items)))) ''/home/u/a.tar''
     = Some (File (TarData [] ex_tar_items) 420)"
proof -
  let ?P = "plain_lib ex_factory"
  let ?zh = "ex_handle ''/home/u/a.zip''"
  let ?th = "ex_handle ''/home/u/a.tar''"
  let ?zj = "ex_world ''/home/u/a.zip'' (Raw ''junk'')"
  let ?tj = "ex_world ''/home/u/a.tar'' (Raw ''junk'')"
  let ?zw = "ex_world ''/home/u/a.zip'' (ZipData [] ex_zip_items)"
  let ?tw = "ex_world ''/home/u/a.tar'' (TarData [] ex_tar_items)"
  let ?za = "?zw\<lparr>files := (files ?zw)(''/tmp/out'' \<mapsto> File (Raw []) 384)\<rparr>"
  let ?ta = "?tw\<lparr>files := (files ?tw)(''/tmp/out'' \<mapsto> File (Raw []) 384)\<rparr>"
  let ?zi = "(ex_zipinfo ''a.txt'', Raw ''abc'')"
  let ?ti = "(ex_tarinfo ''p.jpg'' REGTYPE, Raw ''exif'')"
  have a1: "ZipFile_read (filename ?zh) ?zj = (Inl BadZipfile, ?zj)"
    by (simp add: ZipFile_read_def ex_defs)
  have a2: "zip_extract broken_lib ?zi (tempdir ?zh) ?zw = (Inl BadZipfile, ?zw)"
    by (simp add: broken_lib_def)
  have a3: "files ?zw (filename ?zh) = Some (File (ZipData [] ex_zip_items) 420)"
    by (simp add: ex_world_def ex_handle_def)
  have a4: "zip_frame broken_lib ?zh ex_zip_items (filename ?zh)"
    by (simp add: zip_frame_def frame_defs broken_lib_def path_defs keeps_const keeps_update)
  have a5: "output ?zh \<noteq> filename ?zh" by (simp add: ex_handle_def)
  have a6: "open_write (output ?zh) ?zw = (Inr (), ?za)"
    by (simp add: open_write_def ex_world_def ex_handle_def)
  have a7: "ZipStripper_loop broken_lib ?zh (default_list None) (default_list None) (default_list None)
              ex_zip_items [] ?za = (Inl BadZipfile, ?za)"
    by (simp add: ex_zip_items_def ZipStripper_item_def bindE_def broken_lib_def)
  have b1: "tarfile_open_read (filename ?th) (compression ?th) ?tj = (Inl ReadError, ?tj)"
    by (simp add: tarfile_open_read_def ex_defs)
  have b2: "tar_extract broken_lib ?ti (tempdir ?th) ?tw = (Inl ReadError, ?tw)"
    by (simp add: broken_lib_def)
  have b3: "files ?tw (filename ?th) = Some (File (TarData [] ex_tar_items) 420)"
    by (simp add: ex_world_def ex_handle_def)
  have b3': "compression ?th = [] \<or> compression ?th = []" by (simp add: ex_handle_def)
  have b4: "tar_frame broken_lib ?th ex_tar_items (filename ?th)"
    by (simp add: tar_frame_def frame_defs broken_lib_def path_defs keeps_const keeps_update)
  have b5: "output ?th \<noteq> filename ?th" by (simp add: ex_handle_def)
  have b6: "open_write (output ?th) ?tw = (Inr (), ?ta)"
    by (simp add: open_write_def ex_world_def ex_handle_def)
  have b7: "TarStripper_loop broken_lib ?th (default_list None) ex_tar_items [] ?ta
              = (Inl ReadError, ?ta)"
    by (simp add: ex_tar_items_def TarStripper_item_def bindE_def broken_lib_def)
  note c2 = conjunct2
  note Z = library_exceptions_propagate [where self = ?zh and w = ?zj and e = BadZipfile and L = ?P
      and wl = None and bb = None and eb = None]
  have c1: "ZipStripper_remove_all ?P ?zh None None None ?zj = (Inl BadZipfile, ?zj)"
    using Z [THEN conjunct1] a1 by blast
  note Y = library_exceptions_propagate [where self = ?zh and w = ?zw and e = BadZipfile
      and L = broken_lib and item = ?zi and wx = ?zw and zwl = "[]" and zbb = "[]" and zeb = "[]"
      and c = "[]" and items = ex_zip_items and m = 420 and wa = ?za and wb = ?za
      and wl = None and bb = None and eb = None]
  have c3: "ZipStripper_item broken_lib ?zh [] [] [] ?zi ?zw = (Inl BadZipfile, ?zw)"
    using Y [THEN c2, THEN conjunct1] a2 by blast
  have c4: "ZipStripper_remove_all broken_lib ?zh None None None ?zw = (Inl BadZipfile, ?za)
            \<and> files ?za (filename ?zh) = files ?zw (filename ?zh)"
    using Y [THEN c2, THEN c2, THEN conjunct1] a3 a4 a5 a6 a7 by blast
  note X = library_exceptions_propagate [where tself = ?th and tw = ?tj and e = ReadError and L = ?P
      and twl = None]
  have d1: "TarStripper_remove_all ?P ?th None ?tj = (Inl ReadError, ?tj)"
    using X [THEN c2, THEN c2, THEN c2, THEN c2, THEN conjunct1] b1 by blast
  note V = library_exceptions_propagate [where tself = ?th and tw = ?tw and e = ReadError
      and L = broken_lib and titem = ?ti and tx = ?tw and ywl = "[]" and tarout = "[]"
      and tc = "[]" and titems = ex_tar_items and tm = 420 and ta = ?ta and tb = ?ta
      and twl = None]
  have d3: "TarStripper_item broken_lib ?th [] ?ti [] ?tw = (Inl ReadError, ?tw)"
    using V [THEN c2, THEN c2, THEN c2, THEN c2, THEN c2, THEN conjunct1] b2 by blast
  have d4: "TarStripper_remove_all broken_lib ?th None ?tw = (Inl ReadError, ?ta)
            \<and> files ?ta (filename ?th) = files ?tw (filename ?th)"
    using V [THEN c2, THEN c2, THEN c2, THEN c2, THEN c2, THEN c2, THEN conjunct1]
      b3 b3' b4 b5 b6 b7 by blast
  from c4 a3 have c5: "fst (ZipStripper_remove_all broken_lib ?zh None None None ?zw) = Inl BadZipfile
     \<and> files (snd (ZipStripper_remove_all broken_lib ?zh None None None ?zw)) ''/home/u/a.zip''
       = Some (File (ZipData [] ex_zip_items) 420)"
    by (simp add: ex_handle_def)
  from d4 b3 have d5: "fst (TarStripper_remove_all broken_lib ?th None ?tw) = Inl ReadError
     \<and> files (snd (TarStripper_remove_all broken_lib ?th None ?tw)) ''/home/u/a.tar''
       = Some (File (TarData [] ex_tar_items) 420)"
    by (simp add: ex_handle_def)
  let ?zpre = "[(ex_zipinfo ''a.txt'', Raw ''abc''), (ex_zipinfo ''p.jpg'', Raw ''exif'')]"
  let ?zbad = "(ex_zipinfo ''b.bin'', Raw ''xyz'')"
  let ?zpost = "[(ex_zipinfo ''d/'', Raw [])]"
  let ?zout = "[(\<lparr>z_filename = ''a.txt'', z_date_time = ZIP_EPOCH, z_compress_type = ZIP_DEFLATED,
                   z_create_system = 3, z_comment = []\<rparr>, Raw ''abc''),
                (\<lparr>z_filename = ''p.jpg'', z_date_time = ZIP_EPOCH, z_compress_type = ZIP_DEFLATED,
                   z_create_system = 3, z_comment = []\<rparr>, Raw ''pixels'')]"
  let ?zl = "ZipStripper_loop corrupt_lib ?zh (default_list None) (default_list None)
               (default_list None) ?zpre [] ?za"
  have e1: "files ?zw (filename ?zh) = Some (File (ZipData [] (?zpre @ ?zbad # ?zpost)) 420)"
    by (simp add: ex_world_def ex_handle_def ex_zip_items_def)
  have e2: "zip_frame corrupt_lib ?zh (?zpre @ ?zbad # ?zpost) (filename ?zh)"
    by (simp add: zip_frame_def frame_defs corrupt_lib_def path_defs keeps_plain_zip_extract
          keeps_update keeps_unchanged)
  have e3f: "fst ?zl = Inr ?zout"
    by (simp add: ex_defs corrupt_lib_def run_defs)
  have e3: "?zl = (Inr ?zout, snd ?zl)" using e3f by (simp add: prod_eq_iff)
  have e4: "zip_extract corrupt_lib ?zbad (tempdir ?zh) (snd ?zl) = (Inl BadZipfile, snd ?zl)"
    by (simp add: corrupt_lib_def plain_lib_def ex_zipinfo_def)
  have c6: "ZipStripper_remove_all corrupt_lib ?zh None None None ?zw = (Inl BadZipfile, snd ?zl)
            \<and> files (snd ?zl) (filename ?zh) = files ?zw (filename ?zh)"
    using library_exceptions_propagate [where self = ?zh and w = ?zw and e = BadZipfile
        and L = corrupt_lib and pc = "[]" and pre = ?zpre and bad = ?zbad and post = ?zpost
        and pm = 420 and pa = ?za and pb = "snd ?zl" and pout = ?zout and px = "snd ?zl"
        and wl = None and bb = None and eb = None,
        THEN c2, THEN c2, THEN c2, THEN c2, THEN c2, THEN c2, THEN c2, THEN c2, THEN conjunct1]
      e1 e2 a5 a6 e3 e4 by blast
  let ?tpre = "[(ex_tarinfo ''d'' DIRTYPE, Raw []), (ex_tarinfo ''d/a.txt'' REGTYPE, Raw ''abc'')]"
  let ?tbad = "(ex_tarinfo ''p.jpg'' REGTYPE, Raw ''exif'')"
  let ?tout = "[(\<lparr>t_name = ''d/a.txt'', t_type = REGTYPE, t_mode = 292, t_mtime = 0, t_uid = 0,
                   t_gid = 0, t_uname = [], t_gname = []\<rparr>, Raw ''abc'')]"
  let ?tl = "TarStripper_loop corrupt_lib ?th (default_list None) ?tpre [] ?ta"
  have f1: "files ?tw (filename ?th) = Some (File (TarData [] (?tpre @ ?tbad # [])) 420)"
    by (simp add: ex_world_def ex_handle_def ex_tar_items_def)
  have f2: "tar_frame corrupt_lib ?th (?tpre @ ?tbad # []) (filename ?th)"
    by (simp add: tar_frame_def frame_defs corrupt_lib_def path_defs keeps_plain_tar_extract
          keeps_update keeps_unchanged)
  have f3f: "fst ?tl = Inr ?tout"
    by (simp add: ex_defs corrupt_lib_def run_defs)
  have f3: "?tl = (Inr ?tout, snd ?tl)" using f3f by (simp add: prod_eq_iff)
  have f4: "tar_extract corrupt_lib ?tbad (tempdir ?th) (snd ?tl) = (Inl ReadError, snd ?tl)"
    by (simp add: corrupt_lib_def plain_lib_def ex_tarinfo_def)
  have d6: "TarStripper_remove_all corrupt_lib ?th None ?tw = (Inl ReadError, snd ?tl)
            \<and> files (snd ?tl) (filename ?th) = files ?tw (filename ?th)"
    using library_exceptions_propagate [where tself = ?th and tw = ?tw and e = ReadError
        and L = corrupt_lib and qc = "[]" and tpre = ?tpre and tbad = ?tbad and tpost = "[]"
        and qm = 420 and qa = ?ta and qb = "snd ?tl" and qout = ?tout and qx = "snd ?tl"
        and twl = None,
        THEN c2, THEN c2, THEN c2, THEN c2, THEN c2, THEN c2, THEN c2, THEN c2, THEN c2]
      f1 b3' f2 b5 b6 f3 f4 by blast
  from c6 a3 have c7: "fst (ZipStripper_remove_all corrupt_lib ?zh None None None ?zw) = Inl BadZipfile
     \<and> files (snd (ZipStripper_remove_all corrupt_lib ?zh None None None ?zw)) ''/home/u/a.zip''
       = Some (File (ZipData [] ex_zip_items) 420)"
    by (simp add: ex_handle_def)
  from d6 b3 have d7: "fst (TarStripper_remove_all corrupt_lib ?th None ?tw) = Inl ReadError
     \<and> files (snd (TarStripper_remove_all corrupt_lib ?th None ?tw)) ''/home/u/a.tar''
       = Some (File (TarData [] ex_tar_items) 420)"
    by (simp add: ex_handle_def)
  from c1 c3 c5 d1 d3 d5 c7 d7 show ?thesis by blast
qed

text \<open>
  The claim as stated has \<^verbatim>\<open>remove_all\<close> return false on a corrupt archive. It raises
  what the library raises.
\<close>

theorem corrupt_archive_counterexample:
  "fst (ZipStripper_remove_all (plain_lib ex_factory) (ex_handle ''/home/u/a.zip'') None None None
          (ex_world ''/home/u/a.zip'' (Raw ''not a zip archive''))) = Inl BadZipfile
   \<and> fst (TarStripper_remove_all (plain_lib ex_factory) (ex_handle ''/home/u/a.tar'') None
          (ex_world ''/home/u/a.tar'' (Raw ''not a tar archive''))) = Inl ReadError"
  by (simp add: ZipStripper_remove_all_def TarStripper_remove_all_def bindE_def ZipFile_read_def
        tarfile_open_read_def ex_world_def ex_handle_def)

section \<open>Policy filtering\<close>

text \<open>
  Claim C3. After a successful ZIP \<^verbatim>\<open>remove_all\<close>, no entry of the archive at the source
  path has a name that starts with an element of \<^verbatim>\<open>beginning_blacklist\<close> or ends with
  an element of \<^verbatim>\<open>ending_blacklist\<close>. An extracted regular file that passes the
  blacklists and for which the factory returns no stripper is written to the output if
  its name is in the whitelist, or its extension is in \<open>NOMETA\<close>, or \<open>add2archive\<close> is
  set; otherwise it is skipped. (The source takes the extension of the extracted path,
  which is the extension of the entry name.)

  For the whole run: the archive at the source path afterwards is, in the order of the
  input, what the steps of the loop returned, one step for each entry of the input, the
  first in the world the opening of the output left and each next one in the world the
  step before it left. A step that returns an entry returns it under the name of its input
  entry, which then was extracted to a regular file and matches no blacklist; and a step
  on an extracted regular file that passes the blacklists and has no stripper returns an
  entry exactly when the name is in the whitelist, or its extension is in \<open>NOMETA\<close>, or
  \<open>add2archive\<close> is set.
\<close>

theorem policy_filtering:
  "(ZipStripper_remove_all L self wl bb eb w = (Inr True, w') \<and>
    files w (filename self) = Some (File (ZipData c items) m) \<and>
    zip_frame L self items (output self) \<and> output_fresh self
    \<longrightarrow> (\<exists>zipout m'. files w' (filename self) = Some (File (ZipData [] zipout) m') \<and>
           (\<forall>e\<in>set zipout.
              (\<forall>f\<in>set (default_list bb). \<not> startswith (z_filename (fst e)) f) \<and>
              (\<forall>f\<in>set (default_list eb). \<not> endswith (z_filename (fst e)) f))))
   \<and>
   (zip_extract L item (tempdir self) zw = (Inr (), zx) \<and>
    files zx (os_path_join (tempdir self) (z_filename (fst item))) = Some (File bytes k) \<and>
    \<not> list_ex (\<lambda>f. startswith (z_filename (fst item)) f) zbb \<and>
    \<not> list_ex (\<lambda>f. endswith (z_filename (fst item)) f) zeb \<and>
    create_class_file L (os_path_join (tempdir self) (z_filename (fst item))) False (add2archive self) zx
      = None
    \<longrightarrow> (if z_filename (fst item) \<in> set zwl \<or> splitext_ext (z_filename (fst item)) \<in> NOMETA
              \<or> add2archive self
         then \<exists>zy. ZipStripper_item L self zwl zbb zeb item zw
                = (Inr (Some (\<lparr>z_filename = z_filename (fst item), z_date_time = ZIP_EPOCH,
                               z_compress_type = ZIP_DEFLATED, z_create_system = 3,
                               z_comment = []\<rparr>, bytes)), zy)
         else \<exists>zy. ZipStripper_item L self zwl zbb zeb item zw = (Inr None, zy)))
   \<and>
   (ZipStripper_remove_all L self wl bb eb w = (Inr True, w') \<and>
    files w (filename self) = Some (File (ZipData c items) m) \<and>
    zip_frame L self items (output self) \<and> output_fresh self
    \<longrightarrow> (\<exists>rs ws m'. length rs = length items \<and> length ws = Suc (length items) \<and>
           open_write (output self) w = (Inr (), ws ! 0) \<and>
           files w' (filename self)
             = Some (File (ZipData [] (concat (map (\<lambda>r. case r of None \<Rightarrow> [] | Some e \<Rightarrow> [e]) rs))) m') \<and>
           (\<forall>i<length items. \<exists>zx.
              zip_extract L (items ! i) (tempdir self) (ws ! i) = (Inr (), zx) \<and>
              ZipStripper_item L self (default_list wl) (default_list bb) (default_list eb)
                (items ! i) (ws ! i) = (Inr (rs ! i), ws ! Suc i) \<and>
              (\<forall>e. rs ! i = Some e \<longrightarrow>
                 z_filename (fst e) = z_filename (fst (items ! i)) \<and>
                 os_path_isfile (os_path_join (tempdir self) (z_filename (fst (items ! i)))) zx \<and>
                 \<not> list_ex (\<lambda>f. startswith (z_filename (fst (items ! i))) f) (default_list bb) \<and>
                 \<not> list_ex (\<lambda>f. endswith (z_filename (fst (items ! i))) f) (default_list eb)) \<and>
              (os_path_isfile (os_path_join (tempdir self) (z_filename (fst (items ! i)))) zx \<and>
               \<not> list_ex (\<lambda>f. startswith (z_filename (fst (items ! i))) f) (default_list bb) \<and>
               \<not> list_ex (\<lambda>f. endswith (z_filename (fst (items ! i))) f) (default_list eb) \<and>
               create_class_file L (os_path_join (tempdir self) (z_filename (fst (items ! i)))) False
                 (add2archive self) zx = None
               \<longrightarrow> (rs ! i \<noteq> None)
                     = (z_filename (fst (items ! i)) \<in> set (default_list wl)
                        \<or> splitext_ext (z_filename (fst (items ! i))) \<in> NOMETA
                        \<or> add2archive self)))))"
proof (intro conjI impI)
  assume a: "ZipStripper_remove_all L self wl bb eb w = (Inr True, w') \<and>
    files w (filename self) = Some (File (ZipData c items) m) \<and>
    zip_frame L self items (output self) \<and> output_fresh self"
  then obtain wa wb zipout m' where
    l: "ZipStripper_loop L self (default_list wl) (default_list bb) (default_list eb)
             items [] wa = (Inr zipout, wb)"
    and f: "files w' (filename self) = Some (File (ZipData [] zipout) m')"
    using ZipStripper_remove_all_success [of L self wl bb eb w True w' c items m] by blast
  have "\<forall>e\<in>set zipout.
              (\<forall>f\<in>set (default_list bb). \<not> startswith (z_filename (fst e)) f) \<and>
              (\<forall>f\<in>set (default_list eb). \<not> endswith (z_filename (fst e)) f)"
    by (rule ZipStripper_loop_entries [OF l])
       (auto dest!: ZipStripper_item_Some simp: list_ex_iff)
  with f show "\<exists>zipout m'. files w' (filename self) = Some (File (ZipData [] zipout) m') \<and>
           (\<forall>e\<in>set zipout.
              (\<forall>f\<in>set (default_list bb). \<not> startswith (z_filename (fst e)) f) \<and>
              (\<forall>f\<in>set (default_list eb). \<not> endswith (z_filename (fst e)) f))" by blast
next
  let ?p = "os_path_join (tempdir self) (z_filename (fst item))"
  assume a: "zip_extract L item (tempdir self) zw = (Inr (), zx) \<and>
    files zx ?p = Some (File bytes k) \<and>
    \<not> list_ex (\<lambda>f. startswith (z_filename (fst item)) f) zbb \<and>
    \<not> list_ex (\<lambda>f. endswith (z_filename (fst item)) f) zeb \<and>
    create_class_file L ?p False (add2archive self) zx = None"
  then show "if z_filename (fst item) \<in> set zwl \<or> splitext_ext (z_filename (fst item)) \<in> NOMETA
              \<or> add2archive self
         then \<exists>zy. ZipStripper_item L self zwl zbb zeb item zw
                = (Inr (Some (\<lparr>z_filename = z_filename (fst item), z_date_time = ZIP_EPOCH,
                               z_compress_type = ZIP_DEFLATED, z_create_system = 3,
                               z_comment = []\<rparr>, bytes)), zy)
         else \<exists>zy. ZipStripper_item L self zwl zbb zeb item zw = (Inr None, zy)"
    by (auto simp: ZipStripper_item_def Let_def bindE_def returnE_def os_path_isfile_def
          logging_log_def open_read_def ZipInfo_def splitext_join)
next
  assume a: "ZipStripper_remove_all L self wl bb eb w = (Inr True, w') \<and>
    files w (filename self) = Some (File (ZipData c items) m) \<and>
    zip_frame L self items (output self) \<and> output_fresh self"
  then obtain wa wb zipout m' where
    ow: "open_write (output self) w = (Inr (), wa)"
    and l: "ZipStripper_loop L self (default_list wl) (default_list bb) (default_list eb)
             items [] wa = (Inr zipout, wb)"
    and f: "files w' (filename self) = Some (File (ZipData [] zipout) m')"
    using ZipStripper_remove_all_success [of L self wl bb eb w True w' c items m] by blast
  from ZipStripper_loop_trace [OF l] obtain rs ws where
    t: "length rs = length items" "length ws = Suc (length items)" "ws ! 0 = wa"
       "zipout = [] @ concat (map (\<lambda>r. case r of None \<Rightarrow> [] | Some e \<Rightarrow> [e]) rs)"
       "\<forall>i<length items. ZipStripper_item L self (default_list wl) (default_list bb) (default_list eb)
                (items ! i) (ws ! i) = (Inr (rs ! i), ws ! Suc i)"
    by blast
  show "\<exists>rs ws m'. length rs = length items \<and> length ws = Suc (length items) \<and>
           open_write (output self) w = (Inr (), ws ! 0) \<and>
           files w' (filename self)
             = Some (File (ZipData [] (concat (map (\<lambda>r. case r of None \<Rightarrow> [] | Some e \<Rightarrow> [e]) rs))) m') \<and>
           (\<forall>i<length items. \<exists>zx.
              zip_extract L (items ! i) (tempdir self) (ws ! i) = (Inr (), zx) \<and>
              ZipStripper_item L self (default_list wl) (default_list bb) (default_list eb)
                (items ! i) (ws ! i) = (Inr (rs ! i), ws ! Suc i) \<and>
              (\<forall>e. rs ! i = Some e \<longrightarrow>
                 z_filename (fst e) = z_filename (fst (items ! i)) \<and>
                 os_path_isfile (os_path_join (tempdir self) (z_filename (fst (items ! i)))) zx \<and>
                 \<not> list_ex (\<lambda>f. startswith (z_filename (fst (items ! i))) f) (default_list bb) \<and>
                 \<not> list_ex (\<lambda>f. endswith (z_filename (fst (items ! i))) f) (default_list eb)) \<and>
              (os_path_isfile (os_path_join (tempdir self) (z_filename (fst (items ! i)))) zx \<and>
               \<not> list_ex (\<lambda>f. startswith (z_filename (fst (items ! i))) f) (default_list bb) \<and>
               \<not> list_ex (\<lambda>f. endswith (z_filename (fst (items ! i))) f) (default_list eb) \<and>
               create_class_file L (os_path_join (tempdir self) (z_filename (fst (items ! i)))) False
                 (add2archive self) zx = None
               \<longrightarrow> (rs ! i \<noteq> None)
                     = (z_filename (fst (items ! i)) \<in> set (default_list wl)
                        \<or> splitext_ext (z_filename (fst (items ! i))) \<in> NOMETA
                        \<or> add2archive self)))"
  proof (intro exI [of _ rs] exI [of _ ws] exI [of _ m'] conjI allI impI)
    show "length rs = length items" by (rule t(1))
    show "length ws = Suc (length items)" by (rule t(2))
    show "open_write (output self) w = (Inr (), ws ! 0)" using ow t(3) by simp
    show "files w' (filename self)
             = Some (File (ZipData [] (concat (map (\<lambda>r. case r of None \<Rightarrow> [] | Some e \<Rightarrow> [e]) rs))) m')"
      using f t(4) by simp
  next
    fix i assume "i < length items"
    with t(5) have st: "ZipStripper_item L self (default_list wl) (default_list bb) (default_list eb)
                (items ! i) (ws ! i) = (Inr (rs ! i), ws ! Suc i)" by blast
    from ZipStripper_item_policy [OF st] st
    show "\<exists>zx.
              zip_extract L (items ! i) (tempdir self) (ws ! i) = (Inr (), zx) \<and>
              ZipStripper_item L self (default_list wl) (default_list bb) (default_list eb)
                (items ! i) (ws ! i) = (Inr (rs ! i), ws ! Suc i) \<and>
              (\<forall>e. rs ! i = Some e \<longrightarrow>
                 z_filename (fst e) = z_filename (fst (items ! i)) \<and>
                 os_path_isfile (os_path_join (tempdir self) (z_filename (fst (items ! i)))) zx \<and>
                 \<not> list_ex (\<lambda>f. startswith (z_filename (fst (items ! i))) f) (default_list bb) \<and>
                 \<not> list_ex (\<lambda>f. endswith (z_filename (fst (items ! i))) f) (default_list eb)) \<and>
              (os_path_isfile (os_path_join (tempdir self) (z_filename (fst (items ! i)))) zx \<and>
               \<not> list_ex (\<lambda>f. startswith (z_filename (fst (items ! i))) f) (default_list bb) \<and>
               \<not> list_ex (\<lambda>f. endswith (z_filename (fst (items ! i))) f) (default_list eb) \<and>
               create_class_file L (os_path_join (tempdir self) (z_filename (fst (items ! i)))) False
                 (add2archive self) zx = None
               \<longrightarrow> (rs ! i \<noteq> None)
                     = (z_filename (fst (items ! i)) \<in> set (default_list wl)
                        \<or> splitext_ext (z_filename (fst (items ! i))) \<in> NOMETA
                        \<or> add2archive self))"
      by blast
  qed
qed

theorem policy_filtering_witness:
  "(\<exists>zipout m'. files (snd (ZipStripper_remove_all (plain_lib ex_factory) (ex_handle ''/home/u/a.docx'')
          (Some [''.rels'']) (Some [''docProps/'']) (Some [''meta.xml''])
          (ex_world ''/home/u/a.docx'' (ZipData [] ex_docx_items)))) ''/home/u/a.docx''
        = Some (File (ZipData [] zipout) m') \<and>
        (\<forall>e\<in>set zipout.
              (\<forall>f\<in>set [''docProps/'']. \<not> startswith (z_filename (fst e)) f) \<and>
              (\<forall>f\<in>set [''meta.xml'']. \<not> endswith (z_filename (fst e)) f)))
   \<and> (\<exists>zy. ZipStripper_item (plain_lib ex_factory) (ex_handle ''/home/u/a.docx'')
              [''.rels''] [''docProps/''] [''meta.xml''] (ex_zipinfo ''word/document.xml'', Raw ''text'')
              (ex_world ''/home/u/a.docx'' (ZipData [] ex_docx_items))
            = (Inr (Some (\<lparr>z_filename = ''word/document.xml'', z_date_time = ZIP_EPOCH,
                           z_compress_type = ZIP_DEFLATED, z_create_system = 3,
                           z_comment = []\<rparr>, Raw ''text'')), zy))
   \<and> (\<exists>zy. ZipStripper_item (plain_lib ex_factory) (ex_handle ''/home/u/a.docx'')
              [''.rels''] [''docProps/''] [''meta.xml''] (ex_zipinfo ''word/media/blob.bin'', Raw ''blob'')
              (ex_world ''/home/u/a.docx'' (ZipData [] ex_docx_items))
            = (Inr None, zy))
   \<and> (\<exists>ws. length ws = 5 \<and>
          open_write ''/tmp/out'' (ex_world ''/home/u/a.docx'' (ZipData [] ex_docx_items)) = (Inr (), ws ! 0) \<and>
          (\<forall>i<4. ZipStripper_item (plain_lib ex_factory) (ex_handle ''/home/u/a.docx'')
                    [''.rels''] [''docProps/''] [''meta.xml''] (ex_docx_items ! i) (ws ! i)
                  = (Inr ([None,
                           Some (\<lparr>z_filename = ''word/document.xml'', z_date_time = ZIP_EPOCH, z_compress_type = ZIP_DEFLATED, z_create_system = 3, z_comment = []\<rparr>, Raw ''text''),
                           None, None] ! i), ws ! Suc i)))
   \<and> files (snd (ZipStripper_remove_all (plain_lib ex_factory) (ex_handle ''/home/u/a.docx'') (Some [''.rels'']) (Some [''docProps/'']) (Some [''meta.xml'']) (ex_world ''/home/u/a.docx'' (ZipData [] ex_docx_items)))) ''/home/u/a.docx''
       = Some (File (ZipData [] [(\<lparr>z_filename = ''word/document.xml'', z_date_time = ZIP_EPOCH, z_compress_type = ZIP_DEFLATED, z_create_system = 3, z_comment = []\<rparr>, Raw ''text'')]) 384)"
proof -
  let ?L = "plain_lib ex_factory"
  let ?h = "ex_handle ''/home/u/a.docx''"
  let ?w = "ex_world ''/home/u/a.docx'' (ZipData [] ex_docx_items)"
  let ?i = "(ex_zipinfo ''word/document.xml'', Raw ''text'')"
  let ?j = "(ex_zipinfo ''word/media/blob.bin'', Raw ''blob'')"
  let ?wi = "?w\<lparr>files := (files ?w)(''/tmp/d/word'' \<mapsto> Dir 493,
                ''/tmp/d/word/document.xml'' \<mapsto> File (Raw ''text'') 420)\<rparr>"
  let ?wj = "?w\<lparr>files := (files ?w)(''/tmp/d/word'' \<mapsto> Dir 493, ''/tmp/d/word/media'' \<mapsto> Dir 493,
                ''/tmp/d/word/media/blob.bin'' \<mapsto> File (Raw ''blob'') 420)\<rparr>"
  let ?run = "ZipStripper_remove_all ?L ?h (Some [''.rels'']) (Some [''docProps/'']) (Some [''meta.xml'']) ?w"
  have z1: "fst ?run = Inr True"
    by (simp add: ex_defs ex_docx_items_def run_defs)
  then have z1': "?run = (Inr True, snd ?run)" by (simp add: prod_eq_iff)
  have z2: "files ?w (filename ?h) = Some (File (ZipData [] ex_docx_items) 420)"
    by (simp add: ex_world_def ex_handle_def)
  have z3: "zip_frame ?L ?h ex_docx_items (output ?h)"
    by (simp add: zip_frame_def frame_defs ex_docx_items_def path_defs keeps_plain_zip_extract keeps_update)
  have z4: "output_fresh ?h"
    by (simp add: output_fresh_def ex_handle_def backup_path_def path_defs)
  note T = policy_filtering [where L = ?L and self = ?h and wl = "Some [''.rels'']"
      and bb = "Some [''docProps/'']" and eb = "Some [''meta.xml'']" and w = ?w and w' = "snd ?run"
      and c = "[]" and items = ex_docx_items and m = 420]
  have A: "\<exists>zipout m'. files (snd ?run) ''/home/u/a.docx'' = Some (File (ZipData [] zipout) m') \<and>
        (\<forall>e\<in>set zipout.
              (\<forall>f\<in>set [''docProps/'']. \<not> startswith (z_filename (fst e)) f) \<and>
              (\<forall>f\<in>set [''meta.xml'']. \<not> endswith (z_filename (fst e)) f))"
    using T [THEN conjunct1] z1' z2 z3 z4 by (simp add: default_list_def ex_handle_def)
  have i1: "zip_extract ?L ?i (tempdir ?h) ?w = (Inr (), ?wi)"
    by (simp add: ex_defs path_defs default_mode_def)
  have i2: "files ?wi (os_path_join (tempdir ?h) (z_filename (fst ?i))) = Some (File (Raw ''text'') 420)"
    by (simp add: ex_defs path_defs)
  have i3: "\<not> list_ex (\<lambda>f. startswith (z_filename (fst ?i)) f) [''docProps/'']"
    by (simp add: ex_defs path_defs)
  have i4: "\<not> list_ex (\<lambda>f. endswith (z_filename (fst ?i)) f) [''meta.xml'']"
    by (simp add: ex_defs path_defs)
  have i5: "create_class_file ?L (os_path_join (tempdir ?h) (z_filename (fst ?i))) False
              (add2archive ?h) ?wi = None"
    by (simp add: ex_defs path_defs)
  have i6: "z_filename (fst ?i) \<in> set [''.rels''] \<or> splitext_ext (z_filename (fst ?i)) \<in> NOMETA
              \<or> add2archive ?h"
    by (simp add: ex_defs splitext_ext_def os_path_basename_def NOMETA_def)
  have B: "\<exists>zy. ZipStripper_item ?L ?h [''.rels''] [''docProps/''] [''meta.xml''] ?i ?w
            = (Inr (Some (\<lparr>z_filename = ''word/document.xml'', z_date_time = ZIP_EPOCH,
                           z_compress_type = ZIP_DEFLATED, z_create_system = 3,
                           z_comment = []\<rparr>, Raw ''text'')), zy)"
    using policy_filtering [where L = ?L and self = ?h and item = ?i and zw = ?w and zx = ?wi
        and bytes = "Raw ''text''" and k = 420 and zwl = "[''.rels'']" and zbb = "[''docProps/'']"
        and zeb = "[''meta.xml'']", THEN conjunct2] i1 i2 i3 i4 i5 i6
    by (simp add: ex_zipinfo_def)
  have j1: "zip_extract ?L ?j (tempdir ?h) ?w = (Inr (), ?wj)"
    by (simp add: ex_defs path_defs default_mode_def)
  have j2: "files ?wj (os_path_join (tempdir ?h) (z_filename (fst ?j))) = Some (File (Raw ''blob'') 420)"
    by (simp add: ex_defs path_defs)
  have j3: "\<not> list_ex (\<lambda>f. startswith (z_filename (fst ?j)) f) [''docProps/'']"
    by (simp add: ex_defs path_defs)
  have j4: "\<not> list_ex (\<lambda>f. endswith (z_filename (fst ?j)) f) [''meta.xml'']"
    by (simp add: ex_defs path_defs)
  have j5: "create_class_file ?L (os_path_join (tempdir ?h) (z_filename (fst ?j))) False
              (add2archive ?h) ?wj = None"
    by (simp add: ex_defs path_defs)
  have j6: "\<not> (z_filename (fst ?j) \<in> set [''.rels''] \<or> splitext_ext (z_filename (fst ?j)) \<in> NOMETA
              \<or> add2archive ?h)"
    by (simp add: ex_defs splitext_ext_def os_path_basename_def NOMETA_def)
  have C: "\<exists>zy. ZipStripper_item ?L ?h [''.rels''] [''docProps/''] [''meta.xml''] ?j ?w = (Inr None, zy)"
    using policy_filtering [where L = ?L and self = ?h and item = ?j and zw = ?w and zx = ?wj
        and bytes = "Raw ''blob''" and k = 420 and zwl = "[''.rels'']" and zbb = "[''docProps/'']"
        and zeb = "[''meta.xml'']", THEN conjunct2] j1 j2 j3 j4 j5 j6
    by simp
  let ?opt = "\<lambda>r. case r of None \<Rightarrow> [] | Some e \<Rightarrow> [e]"
  let ?ent = "(\<lparr>z_filename = ''word/document.xml'', z_date_time = ZIP_EPOCH, z_compress_type = ZIP_DEFLATED, z_create_system = 3, z_comment = []\<rparr>, Raw ''text'')"
  have E: "files (snd ?run) ''/home/u/a.docx'' = Some (File (ZipData [] [?ent]) 384)"
    by (simp add: ex_defs ex_docx_items_def run_defs ZIP_EPOCH_def ZIP_DEFLATED_def)
  from T [THEN conjunct2, THEN conjunct2, THEN mp, OF conjI [OF z1' conjI [OF z2 conjI [OF z3 z4]]]]
  obtain rs ws m' where
    r1: "length rs = length ex_docx_items" and r2: "length ws = Suc (length ex_docx_items)"
    and r3: "open_write (output ?h) ?w = (Inr (), ws ! 0)"
    and r4: "files (snd ?run) (filename ?h) = Some (File (ZipData [] (concat (map ?opt rs))) m')"
    and r5: "\<And>i. i < length ex_docx_items \<Longrightarrow>
              ZipStripper_item ?L ?h (default_list (Some [''.rels''])) (default_list (Some [''docProps/'']))
                (default_list (Some [''meta.xml''])) (ex_docx_items ! i) (ws ! i)
                = (Inr (rs ! i), ws ! Suc i)"
    and r6: "\<And>i e. i < length ex_docx_items \<Longrightarrow> rs ! i = Some e \<Longrightarrow>
              z_filename (fst e) = z_filename (fst (ex_docx_items ! i)) \<and>
              \<not> list_ex (\<lambda>f. startswith (z_filename (fst (ex_docx_items ! i))) f)
                   (default_list (Some [''docProps/''])) \<and>
              \<not> list_ex (\<lambda>f. endswith (z_filename (fst (ex_docx_items ! i))) f)
                   (default_list (Some [''meta.xml'']))"
    by blast
  have len: "length rs = 4" using r1 by (simp add: ex_docx_items_def)
  have cc: "concat (map ?opt rs) = [?ent]" using r4 E by (simp add: ex_handle_def)
  have n0: "rs ! 0 = None"
    using r6 [of 0] by (cases "rs ! 0") (auto simp: ex_docx_items_def ex_zipinfo_def default_list_def path_defs)
  have n3: "rs ! 3 = None"
    using r6 [of 3] by (cases "rs ! 3") (auto simp: ex_docx_items_def ex_zipinfo_def default_list_def path_defs)
  have n1: "\<And>e. rs ! 1 = Some e \<Longrightarrow> z_filename (fst e) = ''word/document.xml''"
    using r6 [of 1] by (simp add: ex_docx_items_def ex_zipinfo_def)
  have n2: "\<And>e. rs ! 2 = Some e \<Longrightarrow> z_filename (fst e) = ''word/media/blob.bin''"
    using r6 [of 2] by (simp add: ex_docx_items_def ex_zipinfo_def)
  have rs4: "rs = [rs ! 0, rs ! 1, rs ! 2, rs ! 3]"
    using len by (intro nth_equalityI) (auto simp: nth_Cons' less_Suc_eq numeral_eq_Suc)
  have "concat (map ?opt [rs ! 0, rs ! 1, rs ! 2, rs ! 3]) = [?ent]"
    using cc rs4 by simp
  with n0 n3 have two: "?opt (rs ! 1) @ ?opt (rs ! 2) = [?ent]" by simp
  have m1: "rs ! 1 = Some ?ent" and m2: "rs ! 2 = None"
    using two n1 n2 by (cases "rs ! 1"; cases "rs ! 2"; auto)+
  have rs': "rs = [None, Some ?ent, None, None]"
    using rs4 n0 m1 m2 n3 by simp
  have D: "\<exists>ws. length ws = 5 \<and> open_write ''/tmp/out'' ?w = (Inr (), ws ! 0) \<and>
          (\<forall>i<4. ZipStripper_item ?L ?h [''.rels''] [''docProps/''] [''meta.xml'']
                    (ex_docx_items ! i) (ws ! i)
                  = (Inr ([None, Some ?ent, None, None] ! i), ws ! Suc i))"
  proof (intro exI [of _ ws] conjI allI impI)
    show "length ws = 5" using r2 by (simp add: ex_docx_items_def)
    show "open_write ''/tmp/out'' ?w = (Inr (), ws ! 0)" using r3 by (simp add: ex_handle_def)
  next
    fix i :: nat assume "i < 4"
    then have "i < length ex_docx_items" by (simp add: ex_docx_items_def)
    from r5 [OF this] show "ZipStripper_item ?L ?h [''.rels''] [''docProps/''] [''meta.xml'']
                    (ex_docx_items ! i) (ws ! i)
                  = (Inr ([None, Some ?ent, None, None] ! i), ws ! Suc i)"
      by (simp add: default_list_def rs' [symmetric])
  qed
  from A B C D E show ?thesis by blast
qed

section \<open>Payload of retained entries\<close>

text \<open>
  Claim C2 has the payload of every retained entry be the bytes of that entry's own file:
  the extracted bytes for an entry passed through, the bytes its stripper leaves for an
  entry with a stripper. The ZIP engine reads the payload back from
  \<^verbatim>\<open>os.path.join(self.tempdir, item.filename)\<close>, and that is not where
  \<^verbatim>\<open>zipin.extract(item, self.tempdir)\<close> puts an entry whose stored name is absolute:
  the extraction drops the leading slash and stays below the scratch directory, the join
  drops the scratch directory. For the archive \<^verbatim>\<open>/home/u/a.zip\<close> with the one entry
  \<^verbatim>\<open>/home/u/notes.txt\<close> the run succeeds, the payload \<^verbatim>\<open>public\<close> lies extracted
  below the scratch directory, and the entry of the rebuilt archive carries the bytes
  \<^verbatim>\<open>private\<close> of the user's file of that name.
\<close>

theorem zip_payload_from_host_file:
  "fst (ZipStripper_remove_all (plain_lib ex_factory) (ex_handle ''/home/u/a.zip'') None None None
          ex_host_world) = Inr True
   \<and> files (snd (ZipStripper_remove_all (plain_lib ex_factory) (ex_handle ''/home/u/a.zip'') None None None
          ex_host_world)) ''/home/u/a.zip''
       = Some (File (ZipData [] [(\<lparr>z_filename = ''/home/u/notes.txt'', z_date_time = ZIP_EPOCH,
                                    z_compress_type = ZIP_DEFLATED, z_create_system = 3,
                                    z_comment = []\<rparr>, Raw ''private'')]) 384)
   \<and> files (snd (ZipStripper_remove_all (plain_lib ex_factory) (ex_handle ''/home/u/a.zip'') None None None
          ex_host_world)) ''/tmp/d/home/u/notes.txt''
       = Some (File (Raw ''public'') 420)
   \<and> zip_extract (plain_lib ex_factory) (ex_zipinfo ''/home/u/notes.txt'', Raw ''public'') ''/tmp/d''
        ex_host_world
       = (Inr (), ex_host_world\<lparr>files := (files ex_host_world)
            (''/tmp/d/home'' \<mapsto> Dir 493, ''/tmp/d/home/u'' \<mapsto> Dir 493,
             ''/tmp/d/home/u/notes.txt'' \<mapsto> File (Raw ''public'') 420)\<rparr>)
   \<and> os_path_join ''/tmp/d'' ''/home/u/notes.txt'' = ''/home/u/notes.txt''"
  by (simp add: ex_host_world_def ex_defs run_defs ZIP_EPOCH_def ZIP_DEFLATED_def)

end
